theory Spec2Isabelle
  imports Main
begin

section \<open>Python values, exceptions and dictionaries\<close>

text \<open>
  The processor module is Python. An exception is a value of type \<open>error\<close>; a routine that
  may raise returns \<open>error + 'a\<close>, with \<open>Inl\<close> the exception. Only the exception classes that
  \<^verbatim>\<open>processor.py\<close> can really raise are listed: its own \<^verbatim>\<open>SectionNotFoundError\<close>, which
  carries the section id, and the built-in ones: \<^verbatim>\<open>IndexError\<close> and \<^verbatim>\<open>KeyError\<close> from
  indexing, \<^verbatim>\<open>AttributeError\<close> from reading an attribute that a decoded structure of another
  kind does not have, and the two raised by explicit \<^verbatim>\<open>raise\<close> statements.
\<close>

datatype error =
    SectionNotFoundError nat
  | IndexError
  | KeyError
  | AttributeError
  | NotImplementedError
  | RuntimeError

text \<open>
  The values an IDA entry point returns: an integer, \<^verbatim>\<open>None\<close>, a string or a boolean.
\<close>

datatype pyval = IntV int | NoneV | StrV string | BoolV bool

text \<open>
  A Python \<^verbatim>\<open>dict\<close> keeps its keys in insertion order, and \<^verbatim>\<open>d[k] = v\<close> on an existing key
  replaces the value in place. It is an association list with distinct keys.
\<close>

type_synonym ('k, 'v) dict = "('k \<times> 'v) list"

fun dict_set :: "('k, 'v) dict \<Rightarrow> 'k \<Rightarrow> 'v \<Rightarrow> ('k, 'v) dict" where
  "dict_set [] k v = [(k, v)]"
| "dict_set ((k', v') # d) k v =
     (if k' = k then (k, v) # d else (k', v') # dict_set d k v)"

definition dict_get :: "('k, 'v) dict \<Rightarrow> 'k \<Rightarrow> 'v option" where
  "dict_get d k = map_of d k"

definition dict_getitem :: "('k, 'v) dict \<Rightarrow> 'k \<Rightarrow> error + 'v" where
  "dict_getitem d k = (case map_of d k of None \<Rightarrow> Inl KeyError | Some v \<Rightarrow> Inr v)"

definition dict_contains :: "('k, 'v) dict \<Rightarrow> 'k \<Rightarrow> bool" where
  "dict_contains d k \<longleftrightarrow> map_of d k \<noteq> None"

definition dict_values :: "('k, 'v) dict \<Rightarrow> 'v list" where
  "dict_values d = map snd d"

fun dict_update :: "('k, 'v) dict \<Rightarrow> ('k, 'v) dict \<Rightarrow> ('k, 'v) dict" where
  "dict_update d [] = d"
| "dict_update d ((k, v) # e) = dict_update (dict_set d k v) e"

text \<open>Indexing a \<^verbatim>\<open>list\<close> or a \<^verbatim>\<open>deque\<close> by a non-negative integer.\<close>

definition list_getitem :: "'a list \<Rightarrow> nat \<Rightarrow> error + 'a" where
  "list_getitem xs i = (if i < length xs then Inr (xs ! i) else Inl IndexError)"

section \<open>The decoded module\<close>

text \<open>
  \<^verbatim>\<open>wasm.decode_module\<close> and \<^verbatim>\<open>wasm.decode_bytecode\<close> belong to an external library; the
  model starts from what they return. The numeric constants are the library's.
\<close>

definition SEC_TYPE :: nat where "SEC_TYPE = 1"
definition SEC_IMPORT :: nat where "SEC_IMPORT = 2"
definition SEC_FUNCTION :: nat where "SEC_FUNCTION = 3"
definition SEC_GLOBAL :: nat where "SEC_GLOBAL = 6"
definition SEC_EXPORT :: nat where "SEC_EXPORT = 7"
definition SEC_CODE :: nat where "SEC_CODE = 10"
definition SEC_DATA :: nat where "SEC_DATA = 11"

definition OP_UNREACHABLE :: nat where "OP_UNREACHABLE = 0x00"
definition OP_BLOCK :: nat where "OP_BLOCK = 0x02"
definition OP_LOOP :: nat where "OP_LOOP = 0x03"
definition OP_IF :: nat where "OP_IF = 0x04"
definition OP_ELSE :: nat where "OP_ELSE = 0x05"
definition OP_END :: nat where "OP_END = 0x0b"
definition OP_BR :: nat where "OP_BR = 0x0c"
definition OP_BR_IF :: nat where "OP_BR_IF = 0x0d"
definition OP_BR_TABLE :: nat where "OP_BR_TABLE = 0x0e"
definition OP_RETURN :: nat where "OP_RETURN = 0x0f"
definition OP_GET_GLOBAL :: nat where "OP_GET_GLOBAL = 0x23"
definition OP_SET_GLOBAL :: nat where "OP_SET_GLOBAL = 0x24"
definition OP_I32_CONST :: nat where "OP_I32_CONST = 0x41"

text \<open>
  The immediate of a decoded instruction, one constructor per immediate structure of the
  library, and the decoded instruction \<^verbatim>\<open>bc\<close> with the three attributes the processor
  reads: \<^verbatim>\<open>bc.op.id\<close>, \<^verbatim>\<open>bc.len\<close> and \<^verbatim>\<open>bc.imm\<close>.
\<close>

datatype imm =
    BlockImm int
  | BranchImm nat
  | BranchTableImm nat "nat list" nat
  | CallImm nat
  | CallIndirectImm nat nat
  | LocalVarXsImm nat
  | GlobalVarXsImm nat
  | MemoryImm nat nat
  | CurGrowMemImm nat
  | I32ConstImm int
  | I64ConstImm int
  | F32ConstImm nat
  | F64ConstImm nat

record bytecode =
  op_id :: nat
  len :: nat
  imm :: "imm option"

datatype external_kind =
    WASM_EXTERNAL_KIND_FUNCTION
  | WASM_EXTERNAL_KIND_TABLE
  | WASM_EXTERNAL_KIND_MEMORY
  | WASM_EXTERNAL_KIND_GLOBAL

text \<open>
  The entries of the sections. \<^verbatim>\<open>size_of\<close> and \<^verbatim>\<open>offset_of\<close> live in
  \<^verbatim>\<open>idawasm.common\<close> and read the lengths the decoder measured; each structure carries
  the measures the processor asks for as fields (\<open>*_size\<close> for \<^verbatim>\<open>size_of\<close>, \<open>*_off\<close> for
  \<^verbatim>\<open>offset_of\<close>), so they are parameters of the model.
\<close>

record func_type =
  form :: nat
  param_count :: nat
  param_types :: "nat list"
  return_count :: nat
  return_type :: nat

record import_entry =
  imp_kind :: external_kind
  imp_module_str :: string
  imp_field_str :: string
  imp_type :: nat
  imp_content_type :: nat
  imp_size :: nat

record export_entry =
  exp_kind :: external_kind
  exp_index :: nat
  exp_field_str :: string

record global_entry =
  glob_content_type :: nat
  glob_init :: "bytecode list"
  glob_init_off :: nat
  glob_size :: nat

record function_body =
  body_locals :: "(nat \<times> nat) list"
  body_code :: "bytecode list"
  body_code_off :: nat
  body_code_size :: nat
  body_size :: nat

record data_entry =
  dat_offset :: "bytecode list"
  dat_size :: nat
  dat_data :: "nat list"
  dat_index_size :: nat
  dat_offset_size :: nat
  dat_size_size :: nat
  dat_entry_size :: nat

datatype payload =
    TypePayload "func_type list"
  | ImportPayload "import_entry list"
  | FunctionPayload "nat list"
  | GlobalPayload "global_entry list"
  | ExportPayload "export_entry list"
  | CodePayload nat "function_body list"
  | DataPayload "data_entry list"
  | OpaquePayload

text \<open>
  A module fragment: \<open>sec_id\<close> is \<^verbatim>\<open>section.data.id\<close>, \<open>sec_size\<close> is
  \<^verbatim>\<open>size_of(section.data)\<close>, \<open>payload_off\<close> is \<^verbatim>\<open>offset_of(section.data, 'payload')\<close> and
  \<open>entries_off\<close> the offset of the entry array inside the payload. The first fragment of a
  module is its header.
\<close>

record fragment =
  sec_id :: nat
  sec_size :: nat
  payload_off :: nat
  entries_off :: nat
  payload :: payload

section \<open>Section lookup\<close>

text \<open>
  \<^verbatim>\<open>_get_section\<close> and \<^verbatim>\<open>_get_section_offset\<close>: the \<^verbatim>\<open>for i, section in enumerate(...)\<close>
  loops, with the index \<open>i\<close> and the running offset \<open>p\<close> as arguments.
\<close>

fun get_section_loop :: "nat \<Rightarrow> fragment list \<Rightarrow> nat \<Rightarrow> error + fragment" where
  "get_section_loop i [] section_id = Inl (SectionNotFoundError section_id)"
| "get_section_loop i (section # rest) section_id =
     (if i = 0 then get_section_loop (Suc i) rest section_id
      else if sec_id section \<noteq> section_id then get_section_loop (Suc i) rest section_id
      else Inr section)"

definition get_section :: "fragment list \<Rightarrow> nat \<Rightarrow> error + fragment" where
  "get_section sections section_id = get_section_loop 0 sections section_id"

fun get_section_offset_loop :: "nat \<Rightarrow> nat \<Rightarrow> fragment list \<Rightarrow> nat \<Rightarrow> error + nat" where
  "get_section_offset_loop p i [] section_id = Inl (SectionNotFoundError section_id)"
| "get_section_offset_loop p i (section # rest) section_id =
     (if i = 0 then get_section_offset_loop (p + sec_size section) (Suc i) rest section_id
      else if sec_id section \<noteq> section_id
        then get_section_offset_loop (p + sec_size section) (Suc i) rest section_id
      else Inr p)"

definition get_section_offset :: "fragment list \<Rightarrow> nat \<Rightarrow> error + nat" where
  "get_section_offset sections section_id = get_section_offset_loop 0 0 sections section_id"

section \<open>Branch-target resolution\<close>

text \<open>
  A \<^verbatim>\<open>Block\<close> dictionary as \<^verbatim>\<open>_compute_function_branch_targets\<close> builds it. The entry
  recorded for the \<^verbatim>\<open>end\<close> of the function is a dictionary with four keys only
  (\<^verbatim>\<open>type\<close>, \<^verbatim>\<open>offset\<close>, \<^verbatim>\<open>end_offset\<close>, \<^verbatim>\<open>depth\<close>) and is no member of \<^verbatim>\<open>blocks\<close>: it is the
  constructor \<open>FunctionScope offset end_offset depth\<close>. The inner dictionaries are keyed by
  the string \<^verbatim>\<open>'block'\<close> or by a relative depth.
\<close>

record block =
  b_index :: nat
  b_offset :: nat
  b_end_offset :: "nat option"
  b_else_offset :: "nat option"
  b_br_table_target :: "nat option"
  b_depth :: nat
  b_type :: string

datatype 'b target = Scope 'b | FunctionScope nat nat nat

datatype key = K_block | K_depth nat

text \<open>
  The Python dictionaries share their \<^verbatim>\<open>Block\<close> objects: \<^verbatim>\<open>branch_targets\<close> holds
  references to the members of \<^verbatim>\<open>blocks\<close>, whose \<^verbatim>\<open>end_offset\<close>, \<^verbatim>\<open>else_offset\<close> and
  \<^verbatim>\<open>br_table_target\<close> are written later in the same pass. During the pass the model keeps
  the reference, the block index (\<open>nat target\<close>), and \<open>blocks\<close> is the store; \<open>blocks\<close> is
  keyed by \<^verbatim>\<open>len(blocks)\<close>, so it is a list. When the pass returns nothing writes the blocks
  any more, and the references are replaced by the blocks they point to (\<open>block target\<close>).
\<close>

type_synonym 'b targets = "(nat, (key, 'b target) dict) dict"

record resolver =
  rs_branch_targets :: "nat targets"
  rs_blocks :: "block list"
  rs_block_stack :: "nat list"
  rs_p :: nat

datatype 'a flow = Continue 'a | Break 'a

definition init_resolver :: "nat \<Rightarrow> resolver" where
  "init_resolver offset =
     \<lparr>rs_branch_targets = [], rs_blocks = [], rs_block_stack = [], rs_p = offset\<rparr>"

definition blocks_getitem :: "block list \<Rightarrow> nat \<Rightarrow> error + block" where
  "blocks_getitem blocks block_index =
     (if block_index < length blocks then Inr (blocks ! block_index) else Inl KeyError)"

definition block_type_name :: "nat \<Rightarrow> string" where
  "block_type_name op =
     (if op = OP_BLOCK then ''block'' else if op = OP_LOOP then ''loop'' else ''if'')"

text \<open>\<^verbatim>\<open>block\<close>, \<^verbatim>\<open>loop\<close>, \<^verbatim>\<open>if\<close>: a new block, pushed on the left of the deque.\<close>

definition resolve_enter :: "resolver \<Rightarrow> bytecode \<Rightarrow> resolver" where
  "resolve_enter s bc =
     (let block_index = length (rs_blocks s);
          block = \<lparr>b_index = block_index, b_offset = rs_p s, b_end_offset = None,
                   b_else_offset = None, b_br_table_target = None,
                   b_depth = length (rs_block_stack s),
                   b_type = block_type_name (op_id bc)\<rparr>
      in s\<lparr>rs_blocks := rs_blocks s @ [block],
           rs_block_stack := block_index # rs_block_stack s,
           rs_branch_targets :=
             dict_set (rs_branch_targets s) (rs_p s) [(K_block, Scope block_index)]\<rparr>)"

text \<open>
  \<^verbatim>\<open>end\<close>: with an empty stack the function ends and the loop is left by \<^verbatim>\<open>break\<close>;
  otherwise the innermost block is popped and closed. (The call of \<^verbatim>\<open>ida_bytes.set_cmt\<close>
  for a block with a \<^verbatim>\<open>br_table_target\<close> writes a comment into the IDA database and touches
  none of the three tables; it is left out.)
\<close>

definition resolve_end :: "nat \<Rightarrow> resolver \<Rightarrow> bytecode \<Rightarrow> error + resolver flow" where
  "resolve_end offset s bc =
     (case rs_block_stack s of
        [] \<Rightarrow>
          Inr (Break (s\<lparr>rs_branch_targets :=
            dict_set (rs_branch_targets s) (rs_p s)
              [(K_block, FunctionScope offset (rs_p s) 0)]\<rparr>))
      | block_index # rest \<Rightarrow>
          (case blocks_getitem (rs_blocks s) block_index of
             Inl e \<Rightarrow> Inl e
           | Inr block \<Rightarrow>
               Inr (Continue (s\<lparr>
                 rs_block_stack := rest,
                 rs_blocks := (rs_blocks s)
                   [block_index := block\<lparr>b_end_offset := Some (rs_p s + len bc)\<rparr>],
                 rs_branch_targets :=
                   dict_set (rs_branch_targets s) (rs_p s) [(K_block, Scope block_index)]\<rparr>))))"

text \<open>\<^verbatim>\<open>br\<close>, \<^verbatim>\<open>br_if\<close>: \<^verbatim>\<open>block_stack[bc.imm.relative_depth]\<close> on the deque.\<close>

definition resolve_br :: "resolver \<Rightarrow> bytecode \<Rightarrow> error + resolver" where
  "resolve_br s bc =
     (case imm bc of
        Some (BranchImm relative_depth) \<Rightarrow>
          (case list_getitem (rs_block_stack s) relative_depth of
             Inl e \<Rightarrow> Inl e
           | Inr block_index \<Rightarrow>
               (case blocks_getitem (rs_blocks s) block_index of
                  Inl e \<Rightarrow> Inl e
                | Inr block \<Rightarrow>
                    Inr (s\<lparr>rs_branch_targets :=
                      dict_set (rs_branch_targets s) (rs_p s)
                        [(K_depth relative_depth, Scope block_index)]\<rparr>)))
      | _ \<Rightarrow> Inl AttributeError)"

text \<open>
  \<^verbatim>\<open>else\<close>: the \<^verbatim>\<open>for block_index in block_stack\<close> loop, left by \<^verbatim>\<open>break\<close> at the first
  block of type \<^verbatim>\<open>'if'\<close>; when the loop finds none, nothing is written.
\<close>

fun resolve_else_loop :: "resolver \<Rightarrow> bytecode \<Rightarrow> nat list \<Rightarrow> error + resolver" where
  "resolve_else_loop s bc [] = Inr s"
| "resolve_else_loop s bc (block_index # rest) =
     (case blocks_getitem (rs_blocks s) block_index of
        Inl e \<Rightarrow> Inl e
      | Inr block \<Rightarrow>
          if b_type block = ''if'' then
            Inr (s\<lparr>rs_blocks := (rs_blocks s)
                     [block_index := block\<lparr>b_else_offset := Some (rs_p s + len bc)\<rparr>],
                   rs_branch_targets :=
                     dict_set (rs_branch_targets s) (rs_p s) [(K_block, Scope block_index)]\<rparr>)
          else resolve_else_loop s bc rest)"

text \<open>
  \<^verbatim>\<open>br_table\<close>: \<^verbatim>\<open>branch_targets[p] = {}\<close>, then one iteration for each entry of
  \<^verbatim>\<open>*bc.imm.target_table, bc.imm.default_target\<close>.
\<close>

fun resolve_br_table_loop :: "resolver \<Rightarrow> nat list \<Rightarrow> error + resolver" where
  "resolve_br_table_loop s [] = Inr s"
| "resolve_br_table_loop s (relative_depth # rest) =
     (case list_getitem (rs_block_stack s) relative_depth of
        Inl e \<Rightarrow> Inl e
      | Inr block_index \<Rightarrow>
          (case blocks_getitem (rs_blocks s) block_index of
             Inl e \<Rightarrow> Inl e
           | Inr block \<Rightarrow>
               (case dict_getitem (rs_branch_targets s) (rs_p s) of
                  Inl e \<Rightarrow> Inl e
                | Inr entry \<Rightarrow>
                    resolve_br_table_loop
                      (s\<lparr>rs_blocks := (rs_blocks s)
                           [block_index := block\<lparr>b_br_table_target := Some relative_depth\<rparr>],
                         rs_branch_targets :=
                           dict_set (rs_branch_targets s) (rs_p s)
                             (dict_set entry (K_depth relative_depth) (Scope block_index))\<rparr>)
                      rest)))"

definition resolve_br_table :: "resolver \<Rightarrow> bytecode \<Rightarrow> error + resolver" where
  "resolve_br_table s bc =
     (case imm bc of
        Some (BranchTableImm target_count target_table default_target) \<Rightarrow>
          resolve_br_table_loop
            (s\<lparr>rs_branch_targets := dict_set (rs_branch_targets s) (rs_p s) []\<rparr>)
            (target_table @ [default_target])
      | _ \<Rightarrow> Inl AttributeError)"

text \<open>
  One iteration of \<^verbatim>\<open>for bc in wasm.decode_bytecode(code)\<close>: the \<^verbatim>\<open>if\<close>/\<^verbatim>\<open>elif\<close> chain on
  \<^verbatim>\<open>bc.op.id\<close>, then \<^verbatim>\<open>p += bc.len\<close> unless the loop was left.
\<close>

definition advance :: "bytecode \<Rightarrow> resolver \<Rightarrow> resolver" where
  "advance bc s = s\<lparr>rs_p := rs_p s + len bc\<rparr>"

definition resolve_step :: "nat \<Rightarrow> resolver \<Rightarrow> bytecode \<Rightarrow> error + resolver flow" where
  "resolve_step offset s bc =
     (if op_id bc \<in> {OP_BLOCK, OP_LOOP, OP_IF} then
        Inr (Continue (advance bc (resolve_enter s bc)))
      else if op_id bc \<in> {OP_END} then
        (case resolve_end offset s bc of
           Inl e \<Rightarrow> Inl e
         | Inr (Break s') \<Rightarrow> Inr (Break s')
         | Inr (Continue s') \<Rightarrow> Inr (Continue (advance bc s')))
      else if op_id bc \<in> {OP_BR, OP_BR_IF} then
        (case resolve_br s bc of
           Inl e \<Rightarrow> Inl e
         | Inr s' \<Rightarrow> Inr (Continue (advance bc s')))
      else if op_id bc \<in> {OP_ELSE} then
        (case resolve_else_loop s bc (rs_block_stack s) of
           Inl e \<Rightarrow> Inl e
         | Inr s' \<Rightarrow> Inr (Continue (advance bc s')))
      else if op_id bc \<in> {OP_BR_TABLE} then
        (case resolve_br_table s bc of
           Inl e \<Rightarrow> Inl e
         | Inr s' \<Rightarrow> Inr (Continue (advance bc s')))
      else Inr (Continue (advance bc s)))"

fun resolve_loop :: "nat \<Rightarrow> resolver \<Rightarrow> bytecode list \<Rightarrow> error + resolver flow" where
  "resolve_loop offset s [] = Inr (Continue s)"
| "resolve_loop offset s (bc # rest) =
     (case resolve_step offset s bc of
        Inl e \<Rightarrow> Inl e
      | Inr (Break s') \<Rightarrow> Inr (Break s')
      | Inr (Continue s') \<Rightarrow> resolve_loop offset s' rest)"

fun flow_state :: "'a flow \<Rightarrow> 'a" where
  "flow_state (Continue s) = s"
| "flow_state (Break s) = s"

text \<open>
  The dictionary that is returned, with every reference replaced by the block it points to
  in the final \<^verbatim>\<open>blocks\<close>.
\<close>

definition deref_targets :: "block list \<Rightarrow> nat targets \<Rightarrow> block targets" where
  "deref_targets blocks bt =
     map (\<lambda>(a, entry). (a, map (\<lambda>(k, t). (k, map_target (\<lambda>i. blocks ! i) t)) entry)) bt"

definition compute_function_branch_targets ::
    "nat \<Rightarrow> bytecode list \<Rightarrow> error + block targets" where
  "compute_function_branch_targets offset code =
     (case resolve_loop offset (init_resolver offset) code of
        Inl e \<Rightarrow> Inl e
      | Inr f \<Rightarrow>
          Inr (deref_targets (rs_blocks (flow_state f)) (rs_branch_targets (flow_state f))))"

text \<open>
  \<^verbatim>\<open>_compute_branch_targets\<close>: the loop over the bodies of the code section, each result
  merged by \<^verbatim>\<open>dict.update\<close>. Nothing catches an exception of a body.
\<close>

fun compute_branch_targets_loop ::
    "nat \<Rightarrow> block targets \<Rightarrow> function_body list \<Rightarrow> error + block targets" where
  "compute_branch_targets_loop pbody branch_targets [] = Inr branch_targets"
| "compute_branch_targets_loop pbody branch_targets (body # rest) =
     (case compute_function_branch_targets (pbody + body_code_off body) (body_code body) of
        Inl e \<Rightarrow> Inl e
      | Inr r \<Rightarrow>
          compute_branch_targets_loop (pbody + body_size body)
            (dict_update branch_targets r) rest)"

definition compute_branch_targets :: "fragment list \<Rightarrow> error + block targets" where
  "compute_branch_targets sections =
     (case get_section sections SEC_CODE of
        Inl e \<Rightarrow> Inl e
      | Inr code_section \<Rightarrow>
          (case get_section_offset sections SEC_CODE of
             Inl e \<Rightarrow> Inl e
           | Inr pcode_section \<Rightarrow>
               (case payload code_section of
                  CodePayload count bodies \<Rightarrow>
                    compute_branch_targets_loop
                      (pcode_section + payload_off code_section + entries_off code_section)
                      [] bodies
                | _ \<Rightarrow> Inl AttributeError)))"

text \<open>Reading a key of a target block, as \<^verbatim>\<open>block['end_offset']\<close> does.\<close>

fun target_type :: "block target \<Rightarrow> string" where
  "target_type (Scope b) = b_type b"
| "target_type (FunctionScope offset end_offset depth) = ''function''"

fun target_offset :: "block target \<Rightarrow> nat" where
  "target_offset (Scope b) = b_offset b"
| "target_offset (FunctionScope offset end_offset depth) = offset"

fun target_end_offset :: "block target \<Rightarrow> nat option" where
  "target_end_offset (Scope b) = b_end_offset b"
| "target_end_offset (FunctionScope offset end_offset depth) = Some end_offset"

fun target_else_offset :: "block target \<Rightarrow> error + nat option" where
  "target_else_offset (Scope b) = Inr (b_else_offset b)"
| "target_else_offset (FunctionScope offset end_offset depth) = Inl KeyError"

text \<open>
  Every index on the block stack is the index of a block of the table: the invariant of
  the pass under which \<^verbatim>\<open>blocks[block_index]\<close> never raises.
\<close>

definition stack_ok :: "resolver \<Rightarrow> bool" where
  "stack_ok s \<longleftrightarrow> (\<forall>i \<in> set (rs_block_stack s). i < length (rs_blocks s))"

section \<open>The tables of the module\<close>

text \<open>Python's \<^verbatim>\<open>'%d' % n\<close> and \<^verbatim>\<open>'%X' % n\<close> for a non-negative integer.\<close>

definition digit_char :: "nat \<Rightarrow> char" where
  "digit_char n = ''0123456789ABCDEF'' ! n"

fun format_d :: "nat \<Rightarrow> string" where
  "format_d n = (if n < 10 then [digit_char n] else format_d (n div 10) @ [digit_char (n mod 10)])"

fun format_X :: "nat \<Rightarrow> string" where
  "format_X n = (if n < 16 then [digit_char n] else format_X (n div 16) @ [digit_char (n mod 16)])"

declare format_d.simps [simp del] format_X.simps [simp del]

text \<open>
  The dictionaries of the tables. A key that only some of the dictionaries of a table have
  (\<^verbatim>\<open>'offset' in f\<close> is tested by the processor) is an optional field.
\<close>

record global =
  g_index :: nat
  g_offset :: nat
  g_type :: string
  g_name :: string

record wasm_function =
  f_index :: nat
  f_name :: string
  f_module :: "string option"
  f_type :: "func_type option"
  f_offset :: "nat option"
  f_size :: "nat option"
  f_local_types :: "nat list option"
  f_exported :: bool
  f_imported :: bool

record data =
  d_index :: nat
  d_offset :: int
  d_ea :: nat
  d_size :: nat
  d_data :: "nat list"

text \<open>\<^verbatim>\<open>_parse_types\<close>; \<^verbatim>\<open>struc_to_dict\<close> changes the representation only.\<close>

definition parse_types :: "fragment list \<Rightarrow> error + func_type list" where
  "parse_types sections =
     (case get_section sections SEC_TYPE of
        Inl e \<Rightarrow> Inl e
      | Inr type_section \<Rightarrow>
          (case payload type_section of
             TypePayload entries \<Rightarrow> Inr entries
           | _ \<Rightarrow> Inl AttributeError))"

text \<open>
  \<^verbatim>\<open>_parse_imported_globals\<close>. The table \<^verbatim>\<open>idawasm.const.WASM_TYPE_NAMES\<close> is the parameter
  \<open>type_names\<close>. The loop carries \<^verbatim>\<open>globals_\<close>, \<^verbatim>\<open>i\<close> and \<^verbatim>\<open>pcur\<close>.
\<close>

fun parse_imported_globals_loop ::
    "(nat, string) dict \<Rightarrow> (nat, global) dict \<Rightarrow> nat \<Rightarrow> nat \<Rightarrow> import_entry list
      \<Rightarrow> error + (nat, global) dict" where
  "parse_imported_globals_loop type_names globals' i pcur [] = Inr globals'"
| "parse_imported_globals_loop type_names globals' i pcur (body # rest) =
     (if imp_kind body = WASM_EXTERNAL_KIND_GLOBAL then
        (case dict_getitem type_names (imp_content_type body) of
           Inl e \<Rightarrow> Inl e
         | Inr ctype \<Rightarrow>
             parse_imported_globals_loop type_names
               (dict_set globals' i
                  \<lparr>g_index = i, g_offset = pcur, g_type = ctype,
                   g_name = imp_module_str body @ ''.'' @ imp_field_str body\<rparr>)
               (i + 1) (pcur + imp_size body) rest)
      else parse_imported_globals_loop type_names globals' i (pcur + imp_size body) rest)"

definition parse_imported_globals ::
    "(nat, string) dict \<Rightarrow> fragment list \<Rightarrow> error + (nat, global) dict" where
  "parse_imported_globals type_names sections =
     (case get_section sections SEC_IMPORT of
        Inl e \<Rightarrow> Inl e
      | Inr import_section \<Rightarrow>
          (case get_section_offset sections SEC_IMPORT of
             Inl e \<Rightarrow> Inl e
           | Inr pimport_section \<Rightarrow>
               (case payload import_section of
                  ImportPayload entries \<Rightarrow>
                    parse_imported_globals_loop type_names [] 0
                      (pimport_section + payload_off import_section + entries_off import_section)
                      entries
                | _ \<Rightarrow> Inl AttributeError)))"

text \<open>
  \<^verbatim>\<open>_parse_globals\<close>. The first statement after \<^verbatim>\<open>globals_ = {}\<close> is the call of
  \<^verbatim>\<open>_parse_imported_globals\<close>, outside any \<^verbatim>\<open>try\<close>. (The closing loop of
  \<^verbatim>\<open>ida_name.set_name\<close> calls names addresses in the IDA database and is left out.)
\<close>

definition global_name :: "(nat, global) dict \<Rightarrow> nat \<Rightarrow> global_entry \<Rightarrow> error + string" where
  "global_name globals' i body =
     (case glob_init body of
        [] \<Rightarrow> Inr (''global_'' @ format_X i)
      | bc # _ \<Rightarrow>
          if op_id bc = OP_GET_GLOBAL then
            (case imm bc of
               Some (GlobalVarXsImm global_index) \<Rightarrow>
                 (case dict_get globals' global_index of
                    Some g \<Rightarrow> Inr (''_'' @ g_name g)
                  | None \<Rightarrow> Inr (''global_'' @ format_X i))
             | _ \<Rightarrow> Inl AttributeError)
          else Inr (''global_'' @ format_X i))"

fun parse_globals_loop ::
    "(nat, string) dict \<Rightarrow> (nat, global) dict \<Rightarrow> nat \<Rightarrow> nat \<Rightarrow> global_entry list
      \<Rightarrow> error + (nat, global) dict" where
  "parse_globals_loop type_names globals' i pcur [] = Inr globals'"
| "parse_globals_loop type_names globals' i pcur (body # rest) =
     (case dict_getitem type_names (glob_content_type body) of
        Inl e \<Rightarrow> Inl e
      | Inr ctype \<Rightarrow>
          (case global_name globals' i body of
             Inl e \<Rightarrow> Inl e
           | Inr name \<Rightarrow>
               parse_globals_loop type_names
                 (dict_set globals' i
                    \<lparr>g_index = i, g_offset = pcur + glob_init_off body, g_type = ctype,
                     g_name = name\<rparr>)
                 (i + 1) (pcur + glob_size body) rest))"

definition parse_globals ::
    "(nat, string) dict \<Rightarrow> fragment list \<Rightarrow> error + (nat, global) dict" where
  "parse_globals type_names sections =
     (case parse_imported_globals type_names sections of
        Inl e \<Rightarrow> Inl e
      | Inr imported \<Rightarrow>
          (case get_section sections SEC_GLOBAL of
             Inl e \<Rightarrow> Inl e
           | Inr global_section \<Rightarrow>
               (case get_section_offset sections SEC_GLOBAL of
                  Inl e \<Rightarrow> Inl e
                | Inr pglobal_section \<Rightarrow>
                    (case payload global_section of
                       GlobalPayload globals \<Rightarrow>
                         parse_globals_loop type_names (dict_update [] imported)
                           (length (dict_update [] imported))
                           (pglobal_section + payload_off global_section
                              + entries_off global_section)
                           globals
                     | _ \<Rightarrow> Inl AttributeError))))"

text \<open>\<^verbatim>\<open>_parse_imported_functions\<close>: the loop carries \<^verbatim>\<open>functions\<close> and \<^verbatim>\<open>function_index\<close>.\<close>

fun parse_imported_functions_loop ::
    "func_type list \<Rightarrow> (nat, wasm_function) dict \<Rightarrow> nat \<Rightarrow> import_entry list
      \<Rightarrow> error + (nat, wasm_function) dict" where
  "parse_imported_functions_loop types functions function_index [] = Inr functions"
| "parse_imported_functions_loop types functions function_index (entry # rest) =
     (if imp_kind entry \<noteq> WASM_EXTERNAL_KIND_FUNCTION then
        parse_imported_functions_loop types functions function_index rest
      else
        (case list_getitem types (imp_type entry) of
           Inl e \<Rightarrow> Inl e
         | Inr ftype \<Rightarrow>
             parse_imported_functions_loop types
               (dict_set functions function_index
                  \<lparr>f_index = function_index, f_name = imp_field_str entry,
                   f_module = Some (imp_module_str entry), f_type = Some ftype,
                   f_offset = None, f_size = None, f_local_types = None,
                   f_exported = False, f_imported = True\<rparr>)
               (function_index + 1) rest))"

definition parse_imported_functions :: "fragment list \<Rightarrow> error + (nat, wasm_function) dict" where
  "parse_imported_functions sections =
     (case get_section sections SEC_IMPORT of
        Inl e \<Rightarrow> Inl e
      | Inr import_section \<Rightarrow>
          (case get_section sections SEC_TYPE of
             Inl e \<Rightarrow> Inl e
           | Inr type_section \<Rightarrow>
               (case payload import_section of
                  ImportPayload entries \<Rightarrow>
                    (case payload type_section of
                       TypePayload types \<Rightarrow>
                         parse_imported_functions_loop types [] 0 entries
                     | _ \<Rightarrow> Inl AttributeError)
                | _ \<Rightarrow> Inl AttributeError)))"

text \<open>\<^verbatim>\<open>_parse_exported_functions\<close>: a later export of an index replaces an earlier one.\<close>

fun parse_exported_functions_loop ::
    "(nat, wasm_function) dict \<Rightarrow> export_entry list \<Rightarrow> (nat, wasm_function) dict" where
  "parse_exported_functions_loop functions [] = functions"
| "parse_exported_functions_loop functions (entry # rest) =
     (if exp_kind entry \<noteq> WASM_EXTERNAL_KIND_FUNCTION then
        parse_exported_functions_loop functions rest
      else
        parse_exported_functions_loop
          (dict_set functions (exp_index entry)
             \<lparr>f_index = exp_index entry, f_name = exp_field_str entry,
              f_module = None, f_type = None, f_offset = None, f_size = None,
              f_local_types = None, f_exported = True, f_imported = False\<rparr>)
          rest)"

definition parse_exported_functions :: "fragment list \<Rightarrow> error + (nat, wasm_function) dict" where
  "parse_exported_functions sections =
     (case get_section sections SEC_EXPORT of
        Inl e \<Rightarrow> Inl e
      | Inr export_section \<Rightarrow>
          (case payload export_section of
             ExportPayload entries \<Rightarrow> Inr (parse_exported_functions_loop [] entries)
           | _ \<Rightarrow> Inl AttributeError))"

text \<open>
  \<^verbatim>\<open>_parse_functions\<close>. \<open>catch_section_not_found\<close> is
  \<^verbatim>\<open>try: ... except SectionNotFoundError: ... = {}\<close> (for the exports the handler assigns
  \<^verbatim>\<open>[]\<close>, which answers \<^verbatim>\<open>in\<close> as the empty dictionary does). The loop
  \<^verbatim>\<open>for i in range(count)\<close> carries \<^verbatim>\<open>functions\<close> and \<^verbatim>\<open>pbody\<close>; \<open>is\<close> are the values of
  \<^verbatim>\<open>i\<close> still to come.
\<close>

fun catch_section_not_found ::
    "error + (nat, wasm_function) dict \<Rightarrow> error + (nat, wasm_function) dict" where
  "catch_section_not_found (Inl (SectionNotFoundError section_id)) = Inr []"
| "catch_section_not_found r = r"

definition local_types_of :: "function_body \<Rightarrow> nat list" where
  "local_types_of body = concat (map (\<lambda>(count, ltype). replicate count ltype) (body_locals body))"

fun parse_functions_loop ::
    "nat \<Rightarrow> (nat, wasm_function) dict \<Rightarrow> function_body list \<Rightarrow> nat list \<Rightarrow> func_type list
      \<Rightarrow> (nat, wasm_function) dict \<Rightarrow> nat \<Rightarrow> nat list \<Rightarrow> error + (nat, wasm_function) dict" where
  "parse_functions_loop n_imported exported_functions bodies types type_entries
      functions pbody [] = Inr functions"
| "parse_functions_loop n_imported exported_functions bodies types type_entries
      functions pbody (i # is) =
     (let function_index = n_imported + i in
      case list_getitem bodies i of
        Inl e \<Rightarrow> Inl e
      | Inr body \<Rightarrow>
          (case list_getitem types i of
             Inl e \<Rightarrow> Inl e
           | Inr type_index \<Rightarrow>
               (case list_getitem type_entries type_index of
                  Inl e \<Rightarrow> Inl e
                | Inr ftype \<Rightarrow>
                    (let (name, is_exported) =
                           (case dict_get exported_functions function_index of
                              Some ex \<Rightarrow> (f_name ex, True)
                            | None \<Rightarrow> (''$func'' @ format_d function_index, False))
                     in parse_functions_loop n_imported exported_functions bodies types
                          type_entries
                          (dict_set functions function_index
                             \<lparr>f_index = function_index, f_name = name, f_module = None,
                              f_type = Some ftype,
                              f_offset = Some (pbody + body_code_off body),
                              f_size = Some (body_code_size body),
                              f_local_types = Some (local_types_of body),
                              f_exported = is_exported, f_imported = False\<rparr>)
                          (pbody + body_size body) is))))"

definition parse_functions :: "fragment list \<Rightarrow> error + (nat, wasm_function) dict" where
  "parse_functions sections =
     (case catch_section_not_found (parse_imported_functions sections) of
        Inl e \<Rightarrow> Inl e
      | Inr imported_functions \<Rightarrow>
     (case catch_section_not_found (parse_exported_functions sections) of
        Inl e \<Rightarrow> Inl e
      | Inr exported_functions \<Rightarrow>
     (case get_section sections SEC_FUNCTION of
        Inl e \<Rightarrow> Inl e
      | Inr function_section \<Rightarrow>
     (case get_section sections SEC_CODE of
        Inl e \<Rightarrow> Inl e
      | Inr code_section \<Rightarrow>
     (case get_section_offset sections SEC_CODE of
        Inl e \<Rightarrow> Inl e
      | Inr pcode_section \<Rightarrow>
     (case get_section sections SEC_TYPE of
        Inl e \<Rightarrow> Inl e
      | Inr type_section \<Rightarrow>
     (case payload code_section of
        CodePayload count bodies \<Rightarrow>
          (case payload function_section of
             FunctionPayload types \<Rightarrow>
               (case payload type_section of
                  TypePayload type_entries \<Rightarrow>
                    parse_functions_loop (length imported_functions) exported_functions
                      bodies types type_entries imported_functions
                      (pcode_section + payload_off code_section + entries_off code_section)
                      [0..<count]
                | _ \<Rightarrow> Inl AttributeError)
           | _ \<Rightarrow> Inl AttributeError)
      | _ \<Rightarrow> Inl AttributeError)))))))"

text \<open>
  \<^verbatim>\<open>_parse_data\<close>: the loop carries \<^verbatim>\<open>data\<close>, \<^verbatim>\<open>i\<close> and \<^verbatim>\<open>pcur\<close>. The content address
  \<^verbatim>\<open>ea\<close> is \<^verbatim>\<open>pcur\<close> plus the sizes of the three header fields of the entry.
\<close>

definition data_offset :: "data_entry \<Rightarrow> error + int" where
  "data_offset entry =
     (case dat_offset entry of
        [] \<Rightarrow> Inr 0
      | bc # _ \<Rightarrow>
          if op_id bc = OP_I32_CONST then
            (case imm bc of
               Some (I32ConstImm v) \<Rightarrow> Inr v
             | _ \<Rightarrow> Inl AttributeError)
          else Inr 0)"

fun parse_data_loop ::
    "(nat, data) dict \<Rightarrow> nat \<Rightarrow> nat \<Rightarrow> data_entry list \<Rightarrow> error + (nat, data) dict" where
  "parse_data_loop data i pcur [] = Inr data"
| "parse_data_loop data i pcur (entry # rest) =
     (let ea = pcur + dat_index_size entry + dat_offset_size entry + dat_size_size entry in
      case data_offset entry of
        Inl e \<Rightarrow> Inl e
      | Inr offset \<Rightarrow>
          parse_data_loop
            (dict_set data i
               \<lparr>d_index = i, d_offset = offset, d_ea = ea, d_size = dat_size entry,
                d_data = dat_data entry\<rparr>)
            (i + 1) (pcur + dat_entry_size entry) rest)"

definition parse_data :: "fragment list \<Rightarrow> error + (nat, data) dict" where
  "parse_data sections =
     (case get_section sections SEC_DATA of
        Inl e \<Rightarrow> Inl e
      | Inr data_section \<Rightarrow>
          (case get_section_offset sections SEC_DATA of
             Inl e \<Rightarrow> Inl e
           | Inr pdata_section \<Rightarrow>
               (case payload data_section of
                  DataPayload entries \<Rightarrow>
                    parse_data_loop [] 0
                      (pdata_section + payload_off data_section + entries_off data_section)
                      entries
                | _ \<Rightarrow> Inl AttributeError)))"

text \<open>
  What the sizes measured by the decoder satisfy for an entry of the data section: the three
  header fields (two LEB128 integers and an initialiser expression) take at least one byte
  together, and the entry is at least as long as its header.
\<close>

definition header_size :: "data_entry \<Rightarrow> nat" where
  "header_size entry = dat_index_size entry + dat_offset_size entry + dat_size_size entry"

definition sizes_consistent :: "data_entry \<Rightarrow> bool" where
  "sizes_consistent entry \<longleftrightarrow> 0 < header_size entry \<and> header_size entry \<le> dat_entry_size entry"

definition data_entries :: "fragment list \<Rightarrow> data_entry list" where
  "data_entries sections =
     (case get_section sections SEC_DATA of
        Inl e \<Rightarrow> []
      | Inr data_section \<Rightarrow>
          (case payload data_section of DataPayload entries \<Rightarrow> entries | _ \<Rightarrow> []))"

text \<open>
  The notions the description of the function table is stated in: the import entries
  of kind function, in file order; the number of bodies the code section declares; and
  the export entry that names a function index (the last one of kind function, when several
  entries export the same index).
\<close>

definition function_imports :: "fragment list \<Rightarrow> import_entry list" where
  "function_imports sections =
     (case get_section sections SEC_IMPORT of
        Inl e \<Rightarrow> []
      | Inr import_section \<Rightarrow>
          (case payload import_section of
             ImportPayload entries \<Rightarrow>
               filter (\<lambda>entry. imp_kind entry = WASM_EXTERNAL_KIND_FUNCTION) entries
           | _ \<Rightarrow> []))"

definition code_count :: "fragment list \<Rightarrow> nat" where
  "code_count sections =
     (case get_section sections SEC_CODE of
        Inl e \<Rightarrow> 0
      | Inr code_section \<Rightarrow>
          (case payload code_section of CodePayload count bodies \<Rightarrow> count | _ \<Rightarrow> 0))"

definition function_export :: "fragment list \<Rightarrow> nat \<Rightarrow> export_entry option" where
  "function_export sections function_index =
     (case get_section sections SEC_EXPORT of
        Inl e \<Rightarrow> None
      | Inr export_section \<Rightarrow>
          (case payload export_section of
             ExportPayload entries \<Rightarrow>
               find (\<lambda>entry. exp_kind entry = WASM_EXTERNAL_KIND_FUNCTION
                              \<and> exp_index entry = function_index) (rev entries)
           | _ \<Rightarrow> None))"

text \<open>The dictionaries that the two loops store, as functions of the index.\<close>

definition imported_function :: "func_type list \<Rightarrow> nat \<Rightarrow> import_entry \<Rightarrow> wasm_function" where
  "imported_function types function_index entry =
     \<lparr>f_index = function_index, f_name = imp_field_str entry,
      f_module = Some (imp_module_str entry), f_type = Some (types ! imp_type entry),
      f_offset = None, f_size = None, f_local_types = None,
      f_exported = False, f_imported = True\<rparr>"

definition exported_function :: "export_entry \<Rightarrow> wasm_function" where
  "exported_function entry =
     \<lparr>f_index = exp_index entry, f_name = exp_field_str entry,
      f_module = None, f_type = None, f_offset = None, f_size = None,
      f_local_types = None, f_exported = True, f_imported = False\<rparr>"

definition defined_function ::
    "nat \<Rightarrow> (nat, wasm_function) dict \<Rightarrow> function_body list \<Rightarrow> nat list \<Rightarrow> func_type list
      \<Rightarrow> nat \<Rightarrow> nat \<Rightarrow> wasm_function" where
  "defined_function n_imported exported_functions bodies types type_entries pbody0 i =
     \<lparr>f_index = n_imported + i,
      f_name = (case dict_get exported_functions (n_imported + i) of
                  Some ex \<Rightarrow> f_name ex
                | None \<Rightarrow> ''$func'' @ format_d (n_imported + i)),
      f_module = None,
      f_type = Some (type_entries ! (types ! i)),
      f_offset = Some (pbody0 + sum_list (map body_size (take i bodies))
                         + body_code_off (bodies ! i)),
      f_size = Some (body_code_size (bodies ! i)),
      f_local_types = Some (local_types_of (bodies ! i)),
      f_exported = (dict_get exported_functions (n_imported + i) \<noteq> None),
      f_imported = False\<rparr>"

text \<open>
  What a module must hold for \<^verbatim>\<open>_parse_functions\<close> to return: the import section, when
  there is one, has function entries whose type index is an index of the type section; the
  export section, when there is one, decodes as one. (The type, the function and the code
  section must be there as well; the theorem names them.)
\<close>

definition imports_ok :: "fragment list \<Rightarrow> func_type list \<Rightarrow> bool" where
  "imports_ok sections type_entries =
     (case get_section sections SEC_IMPORT of
        Inl e \<Rightarrow> True
      | Inr import_section \<Rightarrow>
          (case payload import_section of
             ImportPayload entries \<Rightarrow>
               list_all (\<lambda>entry. imp_kind entry \<noteq> WASM_EXTERNAL_KIND_FUNCTION
                                 \<or> imp_type entry < length type_entries) entries
           | _ \<Rightarrow> False))"

definition exports_ok :: "fragment list \<Rightarrow> bool" where
  "exports_ok sections =
     (case get_section sections SEC_EXPORT of
        Inl e \<Rightarrow> True
      | Inr export_section \<Rightarrow>
          (case payload export_section of ExportPayload entries \<Rightarrow> True | _ \<Rightarrow> False))"

text \<open>The number that a string of decimal digits writes.\<close>

definition digit_value :: "char \<Rightarrow> nat" where
  "digit_value c = of_char c - of_char CHR ''0''"

definition decimal_value :: "string \<Rightarrow> nat" where
  "decimal_value s = foldl (\<lambda>a c. 10 * a + digit_value c) 0 s"

section \<open>Loading\<close>

text \<open>
  The attributes of the processor object that \<^verbatim>\<open>load\<close> and the emulator read and write,
  together with the cross-references the IDA database has received so far: \<open>ida_crefs\<close> and
  \<open>ida_drefs\<close> are the arguments of the calls of \<^verbatim>\<open>ida_xref.add_cref\<close> and
  \<^verbatim>\<open>ida_xref.add_dref\<close>, in call order. A target address is optional because the
  \<^verbatim>\<open>end_offset\<close> that is passed on may be \<^verbatim>\<open>None\<close>.
\<close>

datatype cref_type = fl_F | fl_JF

datatype dref_type = dr_W | dr_R

type_synonym cref = "nat \<times> nat option \<times> cref_type"

record processor =
  self_sections :: "fragment list"
  self_types :: "func_type list"
  self_globals :: "(nat, global) dict"
  self_functions :: "(nat, wasm_function) dict"
  self_function_offsets :: "(nat, wasm_function) dict"
  self_function_ranges :: "(nat \<times> nat, wasm_function) dict"
  self_data :: "(nat, data) dict"
  self_branch_targets :: "block targets"
  self_deferred_flows :: "(nat, cref list) dict"
  self_deferred_noflows :: "(nat, bool) dict"
  ida_crefs :: "cref list"
  ida_drefs :: "(nat \<times> int \<times> dref_type) list"

text \<open>The object as \<^verbatim>\<open>__init__\<close> leaves it.\<close>

definition init_processor :: processor where
  "init_processor =
     \<lparr>self_sections = [], self_types = [], self_globals = [], self_functions = [],
      self_function_offsets = [], self_function_ranges = [], self_data = [],
      self_branch_targets = [], self_deferred_flows = [], self_deferred_noflows = [],
      ida_crefs = [], ida_drefs = []\<rparr>"

text \<open>
  \<^verbatim>\<open>try: self.x = parse() except SectionNotFoundError: log\<close>: the attribute is assigned when
  the parser returns; \<^verbatim>\<open>SectionNotFoundError\<close> is logged and the object is left as it was;
  any other exception leaves \<^verbatim>\<open>load\<close>.
\<close>

fun try_section :: "error + 'a \<Rightarrow> ('a \<Rightarrow> processor) \<Rightarrow> processor \<Rightarrow> error + processor" where
  "try_section (Inr v) assign self = Inr (assign v)"
| "try_section (Inl (SectionNotFoundError section_id)) assign self = Inr self"
| "try_section (Inl e) assign self = Inl e"

text \<open>The two dictionary comprehensions over \<^verbatim>\<open>self.functions.values()\<close>.\<close>

fun function_offsets_of ::
    "(nat, wasm_function) dict \<Rightarrow> wasm_function list \<Rightarrow> (nat, wasm_function) dict" where
  "function_offsets_of acc [] = acc"
| "function_offsets_of acc (f # fs) =
     (case f_offset f of
        None \<Rightarrow> function_offsets_of acc fs
      | Some offset \<Rightarrow> function_offsets_of (dict_set acc offset f) fs)"

fun function_ranges_of ::
    "(nat \<times> nat, wasm_function) dict \<Rightarrow> wasm_function list
      \<Rightarrow> error + (nat \<times> nat, wasm_function) dict" where
  "function_ranges_of acc [] = Inr acc"
| "function_ranges_of acc (f # fs) =
     (case f_offset f of
        None \<Rightarrow> function_ranges_of acc fs
      | Some offset \<Rightarrow>
          (case f_size f of
             None \<Rightarrow> Inl KeyError
           | Some sz \<Rightarrow> function_ranges_of (dict_set acc (offset, offset + sz) f) fs))"

text \<open>
  \<^verbatim>\<open>load\<close>, from the decoded sections on, up to the assignment of the two deferred tables,
  in three parts: the three guarded parsers; the two maps derived from the function table;
  the guarded parser of the data and the unguarded \<^verbatim>\<open>_compute_branch_targets\<close>.
  The result pairs what \<^verbatim>\<open>load\<close> returns or raises with the object it leaves behind. (The
  closing loop over the functions only calls the IDA database: it names, creates and
  registers the functions.)
\<close>

definition load_data_and_targets ::
    "fragment list \<Rightarrow> processor \<Rightarrow> (error + pyval) \<times> processor" where
  "load_data_and_targets sections self6 =
     (case try_section (parse_data sections) (\<lambda>v. self6\<lparr>self_data := v\<rparr>) self6 of
        Inl e \<Rightarrow> (Inl e, self6)
      | Inr self7 \<Rightarrow>
          (case compute_branch_targets sections of
             Inl e \<Rightarrow> (Inl e, self7)
           | Inr branch_targets \<Rightarrow>
               (Inr NoneV,
                self7\<lparr>self_branch_targets := branch_targets,
                      self_deferred_noflows := [],
                      self_deferred_flows := []\<rparr>)))"

definition load_function_maps ::
    "fragment list \<Rightarrow> processor \<Rightarrow> (error + pyval) \<times> processor" where
  "load_function_maps sections self4 =
     (let self5 = self4\<lparr>self_function_offsets :=
                    function_offsets_of [] (dict_values (self_functions self4))\<rparr> in
      case function_ranges_of [] (dict_values (self_functions self5)) of
        Inl e \<Rightarrow> (Inl e, self5)
      | Inr ranges \<Rightarrow>
          load_data_and_targets sections (self5\<lparr>self_function_ranges := ranges\<rparr>))"

definition load ::
    "(nat, string) dict \<Rightarrow> fragment list \<Rightarrow> processor \<Rightarrow> (error + pyval) \<times> processor" where
  "load type_names sections self0 =
     (let self1 = self0\<lparr>self_sections := sections\<rparr> in
      case try_section (parse_types sections) (\<lambda>v. self1\<lparr>self_types := v\<rparr>) self1 of
        Inl e \<Rightarrow> (Inl e, self1)
      | Inr self2 \<Rightarrow>
          (case try_section (parse_globals type_names sections)
                  (\<lambda>v. self2\<lparr>self_globals := v\<rparr>) self2 of
             Inl e \<Rightarrow> (Inl e, self2)
           | Inr self3 \<Rightarrow>
               (case try_section (parse_functions sections)
                       (\<lambda>v. self3\<lparr>self_functions := v\<rparr>) self3 of
                  Inl e \<Rightarrow> (Inl e, self3)
                | Inr self4 \<Rightarrow> load_function_maps sections self4)))"

text \<open>
  The decorator \<^verbatim>\<open>no_exceptions\<close> (\<^verbatim>\<open>ida_entry_point\<close>): the wrapper calls \<open>f\<close>; a value
  that \<open>f\<close> returns is returned, any exception is logged and \<open>0\<close> is returned. What \<open>f\<close> did
  to the state before it raised stays done.
\<close>

definition no_exceptions ::
    "('a \<Rightarrow> 's \<Rightarrow> (error + pyval) \<times> 's) \<Rightarrow> 'a \<Rightarrow> 's \<Rightarrow> pyval \<times> 's" where
  "no_exceptions f args s =
     (case f args s of
        (Inr v, s') \<Rightarrow> (v, s')
      | (Inl e, s') \<Rightarrow> (IntV 0, s'))"

section \<open>Instructions and their operands\<close>

text \<open>
  The constants of \<^verbatim>\<open>ida_ua\<close> and the operand kinds of the processor derived from them.
\<close>

definition o_void :: nat where "o_void = 0"
definition o_reg :: nat where "o_reg = 1"
definition o_imm :: nat where "o_imm = 5"
definition o_idpspec0 :: nat where "o_idpspec0 = 8"

definition dt_dword :: nat where "dt_dword = 2"
definition dt_float :: nat where "dt_float = 3"
definition dt_double :: nat where "dt_double = 4"
definition dt_qword :: nat where "dt_qword = 7"

definition WASM_LOCAL :: nat where "WASM_LOCAL = o_idpspec0"
definition WASM_GLOBAL :: nat where "WASM_GLOBAL = o_idpspec0 + 1"
definition WASM_FUNC_INDEX :: nat where "WASM_FUNC_INDEX = o_idpspec0 + 2"
definition WASM_TYPE_INDEX :: nat where "WASM_TYPE_INDEX = o_idpspec0 + 3"
definition WASM_BLOCK :: nat where "WASM_BLOCK = o_idpspec0 + 4"
definition WASM_ALIGN :: nat where "WASM_ALIGN = o_idpspec0 + 5"
definition WASM_BRANCH_TABLE :: nat where "WASM_BRANCH_TABLE = o_idpspec0 + 5 + 1"
definition WASM_BRANCH_TABLE_DEFAULT :: nat where "WASM_BRANCH_TABLE_DEFAULT = o_idpspec0 + 5 + 2"

text \<open>\<^verbatim>\<open>OF_NO_BASE_DISP | OF_NUMBER | OF_SHOW\<close>, three distinct bits.\<close>

definition SHOW_FLAGS :: nat where "SHOW_FLAGS = 0x80 + 0x10 + 0x08"

text \<open>
  An operand and an instruction of IDA, with the attributes the processor writes. The
  instruction type \<^verbatim>\<open>itype\<close> is the position of the opcode in the opcode list of the
  library; the processor only compares it with its \<^verbatim>\<open>itype_*\<close> constants, which are these
  positions, so the model identifies an \<^verbatim>\<open>itype\<close> with its opcode byte. An operand value is
  an unsigned 64-bit integer of IDA: a negative immediate is stored modulo \<open>2 ^ 64\<close>.
\<close>

record op_t =
  op_type :: nat
  op_dtype :: nat
  op_value :: nat
  op_reg :: nat
  op_specval :: nat
  op_flags :: nat
  op_addr :: nat

record insn_t =
  insn_ea :: nat
  insn_size :: nat
  insn_itype :: nat
  Op1 :: op_t
  Op2 :: op_t
  Op3 :: op_t

definition to_uval :: "int \<Rightarrow> nat" where
  "to_uval v = nat (v mod 2 ^ 64)"

text \<open>
  The second half of \<^verbatim>\<open>ev_ana_insn\<close>: the two operand types are reset, then the operands
  are filled in from the immediate of the decoded instruction.
\<close>

definition fill_operands :: "bytecode \<Rightarrow> insn_t \<Rightarrow> insn_t" where
  "fill_operands bc insn0 =
     (let insn = insn0\<lparr>Op1 := (Op1 insn0)\<lparr>op_type := o_void\<rparr>,
                       Op2 := (Op2 insn0)\<lparr>op_type := o_void\<rparr>\<rparr> in
      case imm bc of
        None \<Rightarrow> insn
      | Some (BlockImm sig) \<Rightarrow>
          insn\<lparr>Op1 := (Op1 insn)\<lparr>op_flags := SHOW_FLAGS, op_type := WASM_BLOCK,
                  op_dtype := dt_dword, op_value := to_uval sig, op_specval := WASM_BLOCK\<rparr>\<rparr>
      | Some (BranchImm relative_depth) \<Rightarrow>
          insn\<lparr>Op1 := (Op1 insn)\<lparr>op_flags := SHOW_FLAGS, op_type := o_imm,
                  op_dtype := dt_dword, op_value := relative_depth\<rparr>\<rparr>
      | Some (BranchTableImm target_count target_table default_target) \<Rightarrow>
          insn\<lparr>Op1 := (Op1 insn)\<lparr>op_flags := SHOW_FLAGS, op_type := o_imm,
                  op_dtype := dt_dword, op_value := target_count\<rparr>,
               Op2 := (Op2 insn)\<lparr>op_type := o_imm, op_flags := SHOW_FLAGS,
                  op_dtype := dt_dword, op_addr := insn_ea insn,
                  op_specval := WASM_BRANCH_TABLE\<rparr>,
               Op3 := (Op3 insn)\<lparr>op_type := o_imm, op_flags := SHOW_FLAGS,
                  op_dtype := dt_dword, op_value := default_target,
                  op_specval := WASM_BRANCH_TABLE_DEFAULT\<rparr>\<rparr>
      | Some (CallImm function_index) \<Rightarrow>
          insn\<lparr>Op1 := (Op1 insn)\<lparr>op_flags := SHOW_FLAGS, op_type := o_imm,
                  op_dtype := dt_dword, op_value := function_index,
                  op_specval := WASM_FUNC_INDEX\<rparr>\<rparr>
      | Some (CallIndirectImm type_index reserved) \<Rightarrow>
          insn\<lparr>Op1 := (Op1 insn)\<lparr>op_flags := SHOW_FLAGS, op_type := o_imm,
                  op_dtype := dt_dword, op_value := type_index,
                  op_specval := WASM_TYPE_INDEX\<rparr>,
               Op2 := (Op2 insn)\<lparr>op_type := o_imm, op_flags := SHOW_FLAGS,
                  op_dtype := dt_dword, op_value := reserved\<rparr>\<rparr>
      | Some (LocalVarXsImm local_index) \<Rightarrow>
          insn\<lparr>Op1 := (Op1 insn)\<lparr>op_flags := SHOW_FLAGS, op_type := o_reg,
                  op_reg := local_index, op_specval := WASM_LOCAL\<rparr>\<rparr>
      | Some (GlobalVarXsImm global_index) \<Rightarrow>
          insn\<lparr>Op1 := (Op1 insn)\<lparr>op_flags := SHOW_FLAGS, op_type := o_imm,
                  op_dtype := dt_dword, op_value := global_index,
                  op_specval := WASM_GLOBAL\<rparr>\<rparr>
      | Some (MemoryImm flags offset) \<Rightarrow>
          insn\<lparr>Op1 := (Op1 insn)\<lparr>op_flags := SHOW_FLAGS, op_type := o_imm,
                  op_dtype := dt_dword, op_value := offset\<rparr>,
               Op2 := (Op2 insn)\<lparr>op_type := o_imm, op_flags := SHOW_FLAGS,
                  op_dtype := dt_dword, op_value := flags, op_specval := WASM_ALIGN\<rparr>\<rparr>
      | Some (CurGrowMemImm reserved) \<Rightarrow>
          insn\<lparr>Op1 := (Op1 insn)\<lparr>op_flags := SHOW_FLAGS, op_type := o_imm,
                  op_dtype := dt_dword, op_value := reserved\<rparr>\<rparr>
      | Some (I32ConstImm v) \<Rightarrow>
          insn\<lparr>Op1 := (Op1 insn)\<lparr>op_flags := SHOW_FLAGS, op_type := o_imm,
                  op_dtype := dt_dword, op_value := to_uval v\<rparr>\<rparr>
      | Some (I64ConstImm v) \<Rightarrow>
          insn\<lparr>Op1 := (Op1 insn)\<lparr>op_flags := SHOW_FLAGS, op_type := o_imm,
                  op_dtype := dt_qword, op_value := to_uval v\<rparr>\<rparr>
      | Some (F32ConstImm v) \<Rightarrow>
          insn\<lparr>Op1 := (Op1 insn)\<lparr>op_flags := SHOW_FLAGS, op_type := o_imm,
                  op_dtype := dt_float, op_value := v\<rparr>\<rparr>
      | Some (F64ConstImm v) \<Rightarrow>
          insn\<lparr>Op1 := (Op1 insn)\<lparr>op_flags := SHOW_FLAGS, op_type := o_imm,
                  op_dtype := dt_double, op_value := v\<rparr>\<rparr>)"

text \<open>
  \<^verbatim>\<open>ev_ana_insn\<close> without its decorator. The tables and the bytes it reads are parameters:
  \<open>opcode_map\<close> is \<^verbatim>\<open>wasm.opcodes.OPCODE_MAP\<close>, giving for an opcode byte of the table whether
  the opcode has an immediate structure; \<open>decode_bytecode_at\<close> is \<^verbatim>\<open>_decode_bytecode_at\<close>
  over the bytes of the database (it raises \<^verbatim>\<open>RuntimeError\<close> when no prefix decodes);
  \<open>get_byte\<close> reads the database. \<^verbatim>\<open>insn.get_next_byte()\<close> reads the byte behind the
  instruction so far and lengthens the instruction by one.
\<close>

record ana_tables =
  opcode_map :: "nat \<Rightarrow> bool option"
  decode_bytecode_at :: "nat \<Rightarrow> error + bytecode"
  get_byte :: "nat \<Rightarrow> nat"

definition ev_ana_insn_raw :: "ana_tables \<Rightarrow> insn_t \<Rightarrow> (error + pyval) \<times> insn_t" where
  "ev_ana_insn_raw tables insn0 =
     (let opb = get_byte tables (insn_ea insn0 + insn_size insn0);
          insn1 = insn0\<lparr>insn_size := insn_size insn0 + 1\<rparr> in
      case opcode_map tables opb of
        None \<Rightarrow> (Inr (IntV 0), insn1)
      | Some imm_struct \<Rightarrow>
          (let insn2 = insn1\<lparr>insn_itype := opb\<rparr> in
           case (if imm_struct then decode_bytecode_at tables (insn_ea insn2)
                 else Inr \<lparr>op_id = opb, len = 1, imm = None\<rparr>) of
             Inl e \<Rightarrow> (Inl e, insn2)
           | Inr bc \<Rightarrow>
               (let insn3 = fill_operands bc
                              (insn2\<lparr>insn_size := insn_size insn2 + (len bc - 1)\<rparr>)
                in (Inr (IntV (int (insn_size insn3))), insn3))))"

definition ev_ana_insn :: "ana_tables \<Rightarrow> insn_t \<Rightarrow> pyval \<times> insn_t" where
  "ev_ana_insn = no_exceptions ev_ana_insn_raw"

section \<open>Emulation: the cross-references of an instruction\<close>

text \<open>
  The opcodes whose feature flags hold \<^verbatim>\<open>wasm.INSN_NO_FLOW\<close> in the opcode list of the
  library: \<^verbatim>\<open>unreachable\<close> and \<^verbatim>\<open>return\<close>.
\<close>

definition INSN_NO_FLOW :: "nat \<Rightarrow> bool" where
  "INSN_NO_FLOW itype \<longleftrightarrow> itype = OP_UNREACHABLE \<or> itype = OP_RETURN"

definition add_cref :: "processor \<Rightarrow> nat \<Rightarrow> nat option \<Rightarrow> cref_type \<Rightarrow> processor" where
  "add_cref self frm to t = self\<lparr>ida_crefs := ida_crefs self @ [(frm, to, t)]\<rparr>"

definition add_dref :: "processor \<Rightarrow> nat \<Rightarrow> int \<Rightarrow> dref_type \<Rightarrow> processor" where
  "add_dref self frm to t = self\<lparr>ida_drefs := ida_drefs self @ [(frm, to, t)]\<rparr>"

text \<open>The two loops over \<^verbatim>\<open>insn.ops\<close> that add data references.\<close>

fun global_drefs :: "insn_t \<Rightarrow> op_t list \<Rightarrow> processor \<Rightarrow> (error + unit) \<times> processor" where
  "global_drefs insn [] self = (Inr (), self)"
| "global_drefs insn (op # ops) self =
     (if \<not> (op_type op = o_imm \<and> op_specval op = WASM_GLOBAL) then global_drefs insn ops self
      else
        (case dict_get (self_globals self) (op_value op) of
           None \<Rightarrow> global_drefs insn ops self
         | Some g \<Rightarrow>
             if insn_itype insn = OP_SET_GLOBAL then
               global_drefs insn ops (add_dref self (insn_ea insn) (int (g_offset g)) dr_W)
             else if insn_itype insn = OP_GET_GLOBAL then
               global_drefs insn ops (add_dref self (insn_ea insn) (int (g_offset g)) dr_R)
             else (Inl RuntimeError, self)))"

fun data_drefs_of_op :: "insn_t \<Rightarrow> nat \<Rightarrow> data list \<Rightarrow> processor \<Rightarrow> processor" where
  "data_drefs_of_op insn va [] self = self"
| "data_drefs_of_op insn va (d # ds) self =
     data_drefs_of_op insn va ds
       (if d_offset d \<le> int va \<and> int va \<le> d_offset d + int (d_size d)
        then add_dref self (insn_ea insn) (int va - d_offset d + int (d_ea d)) dr_R
        else self)"

fun data_drefs :: "insn_t \<Rightarrow> op_t list \<Rightarrow> processor \<Rightarrow> processor" where
  "data_drefs insn [] self = self"
| "data_drefs insn (op # ops) self =
     data_drefs insn ops
       (if op_type op = o_imm \<and> op_dtype op = dt_dword
        then data_drefs_of_op insn (op_value op) (dict_values (self_data self)) self
        else self)"

text \<open>The handlers \<^verbatim>\<open>notify_emu_*\<close>.\<close>

definition notify_emu_BR_END :: "insn_t \<Rightarrow> insn_t \<Rightarrow> processor \<Rightarrow> (error + pyval) \<times> processor" where
  "notify_emu_BR_END insn next self0 =
     (let self1 = add_cref self0 (insn_ea insn) (Some (insn_ea insn + insn_size insn)) fl_F;
          self2 = self1\<lparr>self_deferred_noflows :=
                    dict_set (self_deferred_noflows self1) (insn_ea next) True\<rparr> in
      case dict_get (self_branch_targets self2) (insn_ea insn) of
        None \<Rightarrow> (Inr (IntV 1), self2)
      | Some targets \<Rightarrow>
          (case dict_getitem targets (K_depth (op_value (Op1 insn))) of
             Inl e \<Rightarrow> (Inl e, self2)
           | Inr target_block \<Rightarrow>
               (Inr (IntV 1),
                self2\<lparr>self_deferred_flows :=
                  dict_set (self_deferred_flows self2) (insn_ea next)
                    [(insn_ea next, target_end_offset target_block, fl_JF)]\<rparr>)))"

definition notify_emu_BR_IF_END ::
    "insn_t \<Rightarrow> insn_t \<Rightarrow> processor \<Rightarrow> (error + pyval) \<times> processor" where
  "notify_emu_BR_IF_END insn next self0 =
     (let self1 = add_cref self0 (insn_ea insn) (Some (insn_ea insn + insn_size insn)) fl_F in
      case dict_get (self_branch_targets self1) (insn_ea insn) of
        None \<Rightarrow> (Inr (IntV 1), self1)
      | Some targets \<Rightarrow>
          (case dict_getitem targets (K_depth (op_value (Op1 insn))) of
             Inl e \<Rightarrow> (Inl e, self1)
           | Inr target_block \<Rightarrow>
               (Inr (IntV 1),
                self1\<lparr>self_deferred_flows :=
                  dict_set (self_deferred_flows self1) (insn_ea next)
                    [(insn_ea next, target_end_offset target_block, fl_JF)]\<rparr>)))"

definition jumps_to_ends :: "insn_t \<Rightarrow> block target list \<Rightarrow> processor \<Rightarrow> processor" where
  "jumps_to_ends insn blocks self =
     foldl (\<lambda>s target_block. add_cref s (insn_ea insn) (target_end_offset target_block) fl_JF)
       self blocks"

definition notify_emu_BR_TABLE_END ::
    "insn_t \<Rightarrow> insn_t \<Rightarrow> processor \<Rightarrow> (error + pyval) \<times> processor" where
  "notify_emu_BR_TABLE_END insn next self =
     (case dict_get (self_branch_targets self) (insn_ea insn) of
        None \<Rightarrow> (Inr (IntV 1), self)
      | Some targets \<Rightarrow> (Inr (IntV 1), jumps_to_ends insn (dict_values targets) self))"

definition notify_emu_RETURN_END ::
    "insn_t \<Rightarrow> insn_t \<Rightarrow> processor \<Rightarrow> (error + pyval) \<times> processor" where
  "notify_emu_RETURN_END insn next self0 =
     (let self1 = add_cref self0 (insn_ea insn) (Some (insn_ea insn + insn_size insn)) fl_F in
      (Inr (IntV 1),
       self1\<lparr>self_deferred_noflows :=
         dict_set (self_deferred_noflows self1) (insn_ea next) True\<rparr>))"

definition notify_emu_UNREACHABLE_END ::
    "insn_t \<Rightarrow> insn_t \<Rightarrow> processor \<Rightarrow> (error + pyval) \<times> processor" where
  "notify_emu_UNREACHABLE_END insn next self =
     (Inr (IntV 0),
      self\<lparr>self_deferred_noflows :=
        dict_set (self_deferred_noflows self) (insn_ea next) True\<rparr>)"

definition notify_emu_BR :: "insn_t \<Rightarrow> processor \<Rightarrow> (error + pyval) \<times> processor" where
  "notify_emu_BR insn self =
     (case dict_get (self_branch_targets self) (insn_ea insn) of
        None \<Rightarrow> (Inr (IntV 1), self)
      | Some targets \<Rightarrow>
          (case dict_getitem targets (K_depth (op_value (Op1 insn))) of
             Inl e \<Rightarrow> (Inl e, self)
           | Inr target_block \<Rightarrow>
               (Inr (IntV 1),
                add_cref self (insn_ea insn) (target_end_offset target_block) fl_JF)))"

definition notify_emu_BR_IF :: "insn_t \<Rightarrow> processor \<Rightarrow> (error + pyval) \<times> processor" where
  "notify_emu_BR_IF insn self0 =
     (let self1 = add_cref self0 (insn_ea insn) (Some (insn_ea insn + insn_size insn)) fl_F in
      case dict_get (self_branch_targets self1) (insn_ea insn) of
        None \<Rightarrow> (Inr (IntV 1), self1)
      | Some targets \<Rightarrow>
          (case dict_getitem targets (K_depth (op_value (Op1 insn))) of
             Inl e \<Rightarrow> (Inl e, self1)
           | Inr target_block \<Rightarrow>
               (Inr (IntV 1),
                add_cref self1 (insn_ea insn) (target_end_offset target_block) fl_JF)))"

text \<open>\<^verbatim>\<open>if else_va:\<close> is false for \<^verbatim>\<open>None\<close> and for \<open>0\<close>.\<close>

fun notify_emu_IF_loop ::
    "insn_t \<Rightarrow> block target list \<Rightarrow> processor \<Rightarrow> (error + pyval) \<times> processor" where
  "notify_emu_IF_loop insn [] self = (Inr (IntV 1), self)"
| "notify_emu_IF_loop insn (target_block # rest) self =
     (case target_else_offset target_block of
        Inl e \<Rightarrow> (Inl e, self)
      | Inr else_va \<Rightarrow>
          if else_va \<noteq> None \<and> else_va \<noteq> Some 0 then
            notify_emu_IF_loop insn rest (add_cref self (insn_ea insn) else_va fl_JF)
          else
            notify_emu_IF_loop insn rest
              (add_cref self (insn_ea insn) (target_end_offset target_block) fl_JF))"

definition notify_emu_IF :: "insn_t \<Rightarrow> processor \<Rightarrow> (error + pyval) \<times> processor" where
  "notify_emu_IF insn self0 =
     (let self1 = add_cref self0 (insn_ea insn) (Some (insn_ea insn + insn_size insn)) fl_F in
      case dict_get (self_branch_targets self1) (insn_ea insn) of
        None \<Rightarrow> (Inr (IntV 1), self1)
      | Some targets \<Rightarrow> notify_emu_IF_loop insn (dict_values targets) self1)"

definition notify_emu_ELSE :: "insn_t \<Rightarrow> processor \<Rightarrow> (error + pyval) \<times> processor" where
  "notify_emu_ELSE insn self =
     (case dict_get (self_branch_targets self) (insn_ea insn) of
        None \<Rightarrow> (Inr (IntV 1), self)
      | Some targets \<Rightarrow> (Inr (IntV 1), jumps_to_ends insn (dict_values targets) self))"

definition notify_emu_END :: "insn_t \<Rightarrow> processor \<Rightarrow> (error + pyval) \<times> processor" where
  "notify_emu_END insn self0 =
     (let flows = (case dict_get (self_deferred_flows self0) (insn_ea insn) of
                     None \<Rightarrow> [] | Some fl \<Rightarrow> fl);
          self1 = foldl (\<lambda>s (frm, to, t). add_cref s frm to t) self0 flows in
      case dict_get (self_branch_targets self1) (insn_ea insn) of
        None \<Rightarrow> (Inr (IntV 1), self1)
      | Some targets \<Rightarrow>
          (case dict_getitem targets K_block of
             Inl e \<Rightarrow> (Inl e, self1)
           | Inr block \<Rightarrow>
               if target_type block = ''loop'' then
                 (Inr (IntV 1),
                  add_cref self1 (insn_ea insn) (Some (target_offset block)) fl_JF)
               else if target_type block = ''if'' then
                 (Inr (IntV 1),
                  if \<not> dict_contains (self_deferred_noflows self1) (insn_ea insn)
                  then add_cref self1 (insn_ea insn) (Some (insn_ea insn + insn_size insn)) fl_F
                  else self1)
               else if target_type block = ''block'' then
                 (Inr (IntV 1),
                  if \<not> dict_contains (self_deferred_noflows self1) (insn_ea insn)
                  then add_cref self1 (insn_ea insn) (Some (insn_ea insn + insn_size insn)) fl_F
                  else self1)
               else if target_type block = ''function'' then (Inr (IntV 1), self1)
               else (Inl RuntimeError, self1)))"

text \<open>
  \<^verbatim>\<open>ev_emu_insn\<close> without its decorator. \<open>next\<close> is the instruction that
  \<^verbatim>\<open>ida_ua.decode_insn\<close> finds behind \<open>insn\<close>, or \<^verbatim>\<open>None\<close>. \<open>emu_chain\<close> is the part of the
  \<^verbatim>\<open>elif\<close> chain whose conditions do not look at \<open>next\<close>; its last branch returns \<^verbatim>\<open>None\<close>.
\<close>

definition emu_chain :: "insn_t \<Rightarrow> processor \<Rightarrow> (error + pyval) \<times> processor" where
  "emu_chain insn self =
     (if INSN_NO_FLOW (insn_itype insn) then (Inr (IntV 1), self)
      else if insn_itype insn = OP_BR then notify_emu_BR insn self
      else if insn_itype insn = OP_BR_TABLE then (Inl NotImplementedError, self)
      else if insn_itype insn = OP_BR_IF then notify_emu_BR_IF insn self
      else if insn_itype insn = OP_IF then notify_emu_IF insn self
      else if insn_itype insn = OP_ELSE then notify_emu_ELSE insn self
      else if insn_itype insn = OP_END then notify_emu_END insn self
      else (Inr NoneV,
            add_cref self (insn_ea insn) (Some (insn_ea insn + insn_size insn)) fl_F))"

definition emu_flow :: "insn_t \<Rightarrow> insn_t option \<Rightarrow> processor \<Rightarrow> (error + pyval) \<times> processor" where
  "emu_flow insn next_opt self =
     (case next_opt of
        None \<Rightarrow> emu_chain insn self
      | Some next \<Rightarrow>
          if insn_itype insn \<in> {OP_BR, OP_BR_IF, OP_BR_TABLE} \<and> insn_itype next = OP_END then
            (if insn_itype insn = OP_BR then notify_emu_BR_END insn next self
             else if insn_itype insn = OP_BR_IF then notify_emu_BR_IF_END insn next self
             else notify_emu_BR_TABLE_END insn next self)
          else if insn_itype insn = OP_RETURN \<and> insn_itype next = OP_END then
            notify_emu_RETURN_END insn next self
          else if insn_itype insn = OP_UNREACHABLE \<and> insn_itype next = OP_END then
            notify_emu_UNREACHABLE_END insn next self
          else if insn_itype insn = OP_BR \<and> insn_itype next = OP_UNREACHABLE then
            (Inr (IntV 1), self)
          else emu_chain insn self)"

definition ev_emu_insn_raw ::
    "insn_t \<times> insn_t option \<Rightarrow> processor \<Rightarrow> (error + pyval) \<times> processor" where
  "ev_emu_insn_raw args self0 =
     (case args of (insn, next_opt) \<Rightarrow>
        (case global_drefs insn [Op1 insn, Op2 insn, Op3 insn] self0 of
           (Inl e, self1) \<Rightarrow> (Inl e, self1)
         | (Inr u, self1) \<Rightarrow>
             emu_flow insn next_opt (data_drefs insn [Op1 insn, Op2 insn, Op3 insn] self1)))"

definition ev_emu_insn :: "insn_t \<times> insn_t option \<Rightarrow> processor \<Rightarrow> pyval \<times> processor" where
  "ev_emu_insn = no_exceptions ev_emu_insn_raw"

text \<open>
  The instruction \<^verbatim>\<open>ev_ana_insn\<close> builds at address \<open>ea\<close> for a decoded instruction, the
  instructions of a function body laid out from its start, and the emulation of a run of
  instructions in address order, each with its successor as \<open>next\<close>.
\<close>

definition void_op :: op_t where
  "void_op = \<lparr>op_type = o_void, op_dtype = 0, op_value = 0, op_reg = 0, op_specval = 0,
              op_flags = 0, op_addr = 0\<rparr>"

definition insn_at :: "nat \<Rightarrow> bytecode \<Rightarrow> insn_t" where
  "insn_at ea bc =
     fill_operands bc
       \<lparr>insn_ea = ea, insn_size = len bc, insn_itype = op_id bc,
        Op1 = void_op, Op2 = void_op, Op3 = void_op\<rparr>"

fun insns_from :: "nat \<Rightarrow> bytecode list \<Rightarrow> insn_t list" where
  "insns_from ea [] = []"
| "insns_from ea (bc # rest) = insn_at ea bc # insns_from (ea + len bc) rest"

fun emulate :: "insn_t list \<Rightarrow> processor \<Rightarrow> processor" where
  "emulate [] self = self"
| "emulate [insn] self = snd (ev_emu_insn (insn, None) self)"
| "emulate (insn # next # rest) self =
     emulate (next # rest) (snd (ev_emu_insn (insn, Some next) self))"

section \<open>Concrete modules and bodies\<close>

text \<open>Inputs on which the theorems below are instantiated.\<close>

definition frag :: "nat \<Rightarrow> nat \<Rightarrow> fragment" where
  "frag i n = \<lparr>sec_id = i, sec_size = n, payload_off = 2, entries_off = 1, payload = OpaquePayload\<rparr>"

definition mk_bc :: "nat \<Rightarrow> nat \<Rightarrow> imm option \<Rightarrow> bytecode" where
  "mk_bc i l m = \<lparr>op_id = i, len = l, imm = m\<rparr>"

definition mk_body :: "bytecode list \<Rightarrow> function_body" where
  "mk_body code =
     \<lparr>body_locals = [], body_code = code, body_code_off = 2,
      body_code_size = sum_list (map len code), body_size = 2 + sum_list (map len code)\<rparr>"

definition i_block :: bytecode where "i_block = mk_bc OP_BLOCK 2 (Some (BlockImm (-64)))"
definition i_loop :: bytecode where "i_loop = mk_bc OP_LOOP 2 (Some (BlockImm (-64)))"
definition i_end :: bytecode where "i_end = mk_bc OP_END 1 None"
definition i_else :: bytecode where "i_else = mk_bc OP_ELSE 1 None"
definition i_br :: "nat \<Rightarrow> bytecode" where "i_br d = mk_bc OP_BR 2 (Some (BranchImm d))"
definition i_br_table :: "nat list \<Rightarrow> nat \<Rightarrow> bytecode" where
  "i_br_table tt d =
     mk_bc OP_BR_TABLE (3 + length tt) (Some (BranchTableImm (length tt) tt d))"

text \<open>
  A module of three function bodies; the second holds \<^verbatim>\<open>br 3\<close> inside a single block.
\<close>

definition body_ok :: function_body where
  "body_ok = mk_body [i_block, i_end, i_end]"

definition body_deep_br :: function_body where
  "body_deep_br = mk_body [i_block, i_br 3, i_end, i_end]"

definition code_section_deep_br :: fragment where
  "code_section_deep_br =
     \<lparr>sec_id = SEC_CODE, sec_size = 23, payload_off = 2, entries_off = 1,
      payload = CodePayload 3 [body_ok, body_deep_br, body_ok]\<rparr>"

definition module_deep_br :: "fragment list" where
  "module_deep_br = [frag 0 8, code_section_deep_br]"

text \<open>A data section of two segments, the first with no content bytes.\<close>

definition mk_data_entry :: "int \<Rightarrow> nat list \<Rightarrow> data_entry" where
  "mk_data_entry off bytes =
     \<lparr>dat_offset = [mk_bc OP_I32_CONST 2 (Some (I32ConstImm off)), mk_bc OP_END 1 None],
      dat_size = length bytes, dat_data = bytes, dat_index_size = 1, dat_offset_size = 3,
      dat_size_size = 1, dat_entry_size = 5 + length bytes\<rparr>"

definition module_two_segments :: "fragment list" where
  "module_two_segments =
     [frag 0 8,
      \<lparr>sec_id = SEC_DATA, sec_size = 16, payload_off = 2, entries_off = 1,
       payload = DataPayload [mk_data_entry 1024 [], mk_data_entry 2048 [104, 105]]\<rparr>]"

text \<open>
  Two function imports, two defined functions, and an export of function 2 as \<^verbatim>\<open>main\<close>.
\<close>

definition type_unit :: func_type where
  "type_unit = \<lparr>form = 0x60, param_count = 0, param_types = [], return_count = 0,
                return_type = 0\<rparr>"

definition mk_import :: "external_kind \<Rightarrow> string \<Rightarrow> import_entry" where
  "mk_import k field =
     \<lparr>imp_kind = k, imp_module_str = ''env'', imp_field_str = field, imp_type = 0,
      imp_content_type = 0x7f, imp_size = 6 + length field\<rparr>"

definition module_main :: "fragment list" where
  "module_main =
     [frag 0 8,
      \<lparr>sec_id = SEC_TYPE, sec_size = 6, payload_off = 2, entries_off = 1,
       payload = TypePayload [type_unit]\<rparr>,
      \<lparr>sec_id = SEC_IMPORT, sec_size = 22, payload_off = 2, entries_off = 1,
       payload = ImportPayload
         [mk_import WASM_EXTERNAL_KIND_FUNCTION ''puts'',
          mk_import WASM_EXTERNAL_KIND_FUNCTION ''exit'']\<rparr>,
      \<lparr>sec_id = SEC_FUNCTION, sec_size = 5, payload_off = 2, entries_off = 1,
       payload = FunctionPayload [0, 0]\<rparr>,
      \<lparr>sec_id = SEC_EXPORT, sec_size = 10, payload_off = 2, entries_off = 1,
       payload = ExportPayload
         [\<lparr>exp_kind = WASM_EXTERNAL_KIND_FUNCTION, exp_index = 2, exp_field_str = ''main''\<rparr>]\<rparr>,
      \<lparr>sec_id = SEC_CODE, sec_size = 9, payload_off = 2, entries_off = 1,
       payload = CodePayload 2 [mk_body [i_end], mk_body [i_end]]\<rparr>]"

text \<open>A module that imports two functions and defines none: it has no code section.\<close>

definition module_imports_only :: "fragment list" where
  "module_imports_only =
     [frag 0 8,
      \<lparr>sec_id = SEC_TYPE, sec_size = 6, payload_off = 2, entries_off = 1,
       payload = TypePayload [type_unit]\<rparr>,
      \<lparr>sec_id = SEC_IMPORT, sec_size = 22, payload_off = 2, entries_off = 1,
       payload = ImportPayload
         [mk_import WASM_EXTERNAL_KIND_FUNCTION ''puts'',
          mk_import WASM_EXTERNAL_KIND_FUNCTION ''exit'']\<rparr>]"

text \<open>
  The processor after \<^verbatim>\<open>load\<close> has resolved a single function body placed at \<open>offset\<close>,
  with no globals and no data segments.
\<close>

definition resolved_body :: "nat \<Rightarrow> bytecode list \<Rightarrow> processor" where
  "resolved_body offset code =
     init_processor\<lparr>self_branch_targets :=
       (case compute_function_branch_targets offset code of
          Inr branch_targets \<Rightarrow> branch_targets
        | Inl e \<Rightarrow> [])\<rparr>"

definition body_loop_br :: "bytecode list" where
  "body_loop_br = [i_loop, i_br 0, i_end]"

definition body_br_table :: "bytecode list" where
  "body_br_table = [i_block, i_block, i_br_table [0, 1, 0] 1, i_end, i_end, i_end]"

text \<open>A module with a global and a function of its own, and no import section.\<close>

definition wasm_type_names :: "(nat, string) dict" where
  "wasm_type_names = [(0x7f, ''i32''), (0x7e, ''i64''), (0x7d, ''f32''), (0x7c, ''f64'')]"

definition global_zero :: global_entry where
  "global_zero =
     \<lparr>glob_content_type = 0x7f,
      glob_init = [mk_bc OP_I32_CONST 2 (Some (I32ConstImm 0)), i_end],
      glob_init_off = 2, glob_size = 5\<rparr>"

definition module_no_imports :: "fragment list" where
  "module_no_imports =
     [frag 0 8,
      \<lparr>sec_id = SEC_TYPE, sec_size = 6, payload_off = 2, entries_off = 1,
       payload = TypePayload [type_unit]\<rparr>,
      \<lparr>sec_id = SEC_FUNCTION, sec_size = 4, payload_off = 2, entries_off = 1,
       payload = FunctionPayload [0]\<rparr>,
      \<lparr>sec_id = SEC_GLOBAL, sec_size = 8, payload_off = 2, entries_off = 1,
       payload = GlobalPayload [global_zero]\<rparr>,
      \<lparr>sec_id = SEC_CODE, sec_size = 6, payload_off = 2, entries_off = 1,
       payload = CodePayload 1 [mk_body [i_end]]\<rparr>]"

definition module_no_code :: "fragment list" where
  "module_no_code =
     [frag 0 8,
      \<lparr>sec_id = SEC_TYPE, sec_size = 6, payload_off = 2, entries_off = 1,
       payload = TypePayload [type_unit]\<rparr>]"

text \<open>
  An opcode table of two opcodes and a database whose bytes are all \<open>0xFF\<close>; an instruction
  that IDA hands to the analyser at address 16.
\<close>

definition two_opcodes :: ana_tables where
  "two_opcodes =
     \<lparr>opcode_map = (\<lambda>b. if b = OP_END then Some False
                         else if b = OP_BR then Some True else None),
      decode_bytecode_at = (\<lambda>ea. Inl RuntimeError),
      get_byte = (\<lambda>a. 0xFF)\<rparr>"

definition fresh_insn :: "nat \<Rightarrow> insn_t" where
  "fresh_insn ea =
     \<lparr>insn_ea = ea, insn_size = 0, insn_itype = 0, Op1 = void_op, Op2 = void_op,
      Op3 = void_op\<rparr>"

definition i_nop :: bytecode where "i_nop = mk_bc 0x01 1 None"

section \<open>Verification\<close>

lemmas op_defs = OP_UNREACHABLE_def OP_BLOCK_def OP_LOOP_def OP_IF_def OP_ELSE_def
  OP_END_def OP_BR_def OP_BR_IF_def OP_BR_TABLE_def OP_RETURN_def OP_GET_GLOBAL_def
  OP_SET_GLOBAL_def OP_I32_CONST_def

lemmas sec_defs = SEC_TYPE_def SEC_IMPORT_def SEC_FUNCTION_def SEC_GLOBAL_def
  SEC_EXPORT_def SEC_CODE_def SEC_DATA_def

lemmas resolver_defs = resolve_step_def resolve_enter_def resolve_end_def resolve_br_def
  resolve_br_table_def advance_def init_resolver_def blocks_getitem_def list_getitem_def
  dict_getitem_def block_type_name_def compute_function_branch_targets_def deref_targets_def

lemmas insn_defs = i_block_def i_loop_def i_end_def i_else_def i_br_def i_br_table_def
  mk_bc_def


lemmas const_defs = o_void_def o_reg_def o_imm_def o_idpspec0_def dt_dword_def dt_float_def
  dt_double_def dt_qword_def WASM_LOCAL_def WASM_GLOBAL_def WASM_FUNC_INDEX_def
  WASM_TYPE_INDEX_def WASM_BLOCK_def WASM_ALIGN_def WASM_BRANCH_TABLE_def
  WASM_BRANCH_TABLE_DEFAULT_def SHOW_FLAGS_def

lemmas emu_defs = ev_emu_insn_def ev_emu_insn_raw_def no_exceptions_def emu_flow_def
  emu_chain_def notify_emu_BR_END_def notify_emu_BR_IF_END_def notify_emu_BR_TABLE_END_def
  notify_emu_RETURN_END_def notify_emu_UNREACHABLE_END_def notify_emu_BR_def
  notify_emu_BR_IF_def notify_emu_IF_def notify_emu_ELSE_def notify_emu_END_def
  jumps_to_ends_def add_cref_def add_dref_def INSN_NO_FLOW_def insn_at_def
  fill_operands_def void_op_def to_uval_def dict_get_def dict_getitem_def
  dict_contains_def dict_values_def init_processor_def

lemmas load_defs = load_def load_function_maps_def load_data_and_targets_def
  parse_types_def parse_globals_def parse_imported_globals_def parse_data_def
  compute_branch_targets_def global_name_def

subsection \<open>Dictionaries\<close>

lemma map_of_dict_set: "map_of (dict_set d k v) = (map_of d)(k \<mapsto> v)"
  by (induction d k v rule: dict_set.induct) (auto simp: fun_eq_iff)

lemma dict_set_keys_fresh:
  "k \<notin> fst ` set d \<Longrightarrow> dict_set d k v = d @ [(k, v)]"
  by (induction d k v rule: dict_set.induct) auto

subsection \<open>Section lookup\<close>

lemma get_section_loop_found:
  "0 < i \<Longrightarrow> j < length secs \<Longrightarrow> sec_id (secs ! j) = k \<Longrightarrow>
   \<forall>l<j. sec_id (secs ! l) \<noteq> k \<Longrightarrow> get_section_loop i secs k = Inr (secs ! j)"
proof (induction secs arbitrary: i j)
  case Nil
  then show ?case by simp
next
  case (Cons s secs)
  show ?case
  proof (cases j)
    case 0
    with Cons.prems show ?thesis by simp
  next
    case (Suc j')
    from Cons.prems Suc have hd: "sec_id s \<noteq> k" by auto
    from Cons.prems Suc have "\<forall>l<j'. sec_id (secs ! l) \<noteq> k" by auto
    with Cons.prems Suc have "get_section_loop (Suc i) secs k = Inr (secs ! j')"
      by (intro Cons.IH) auto
    with hd Cons.prems Suc show ?thesis by simp
  qed
qed

lemma get_section_loop_missing:
  "0 < i \<Longrightarrow> \<forall>l<length secs. sec_id (secs ! l) \<noteq> k \<Longrightarrow>
   get_section_loop i secs k = Inl (SectionNotFoundError k)"
proof (induction secs arbitrary: i)
  case Nil
  then show ?case by simp
next
  case (Cons s secs)
  from Cons.prems have hd: "sec_id s \<noteq> k" by auto
  from Cons.prems have "\<forall>l<length secs. sec_id (secs ! l) \<noteq> k" by auto
  then have "get_section_loop (Suc i) secs k = Inl (SectionNotFoundError k)"
    by (intro Cons.IH) auto
  with hd Cons.prems show ?case by simp
qed

lemma get_section_offset_loop_found:
  "0 < i \<Longrightarrow> j < length secs \<Longrightarrow> sec_id (secs ! j) = k \<Longrightarrow>
   \<forall>l<j. sec_id (secs ! l) \<noteq> k \<Longrightarrow>
   get_section_offset_loop p i secs k = Inr (p + sum_list (map sec_size (take j secs)))"
proof (induction secs arbitrary: i j p)
  case Nil
  then show ?case by simp
next
  case (Cons s secs)
  show ?case
  proof (cases j)
    case 0
    with Cons.prems show ?thesis by simp
  next
    case (Suc j')
    from Cons.prems Suc have hd: "sec_id s \<noteq> k" by auto
    from Cons.prems Suc have "\<forall>l<j'. sec_id (secs ! l) \<noteq> k" by auto
    with Cons.prems Suc have "get_section_offset_loop (p + sec_size s) (Suc i) secs k
        = Inr (p + sec_size s + sum_list (map sec_size (take j' secs)))"
      by (intro Cons.IH) auto
    with hd Cons.prems Suc show ?thesis by simp
  qed
qed

lemma get_section_offset_loop_missing:
  "0 < i \<Longrightarrow> \<forall>l<length secs. sec_id (secs ! l) \<noteq> k \<Longrightarrow>
   get_section_offset_loop p i secs k = Inl (SectionNotFoundError k)"
proof (induction secs arbitrary: i p)
  case Nil
  then show ?case by simp
next
  case (Cons s secs)
  from Cons.prems have hd: "sec_id s \<noteq> k" by auto
  from Cons.prems have "\<forall>l<length secs. sec_id (secs ! l) \<noteq> k" by auto
  then have "get_section_offset_loop (p + sec_size s) (Suc i) secs k = Inl (SectionNotFoundError k)"
    by (intro Cons.IH) auto
  with hd Cons.prems show ?case by simp
qed

text \<open>
  Claim C8. For every section id \<open>k\<close>: when \<open>i\<close> is the first index after the header
  (\<open>0 < i\<close>) whose fragment has id \<open>k\<close>, \<^verbatim>\<open>_get_section\<close> returns that fragment and
  \<^verbatim>\<open>_get_section_offset\<close> returns the sum of the sizes of all the fragments before it, the
  header included; the header at index 0 is never looked at, whatever its id. When no
  fragment after the header has id \<open>k\<close>, both raise \<^verbatim>\<open>SectionNotFoundError(k)\<close>.
\<close>

theorem section_lookup_first_after_header:
  "(0 < i \<and> i < length secs \<and> sec_id (secs ! i) = k
      \<and> (\<forall>j. 0 < j \<and> j < i \<longrightarrow> sec_id (secs ! j) \<noteq> k)
    \<longrightarrow> get_section secs k = Inr (secs ! i)
      \<and> get_section_offset secs k = Inr (sum_list (map sec_size (take i secs))))
   \<and> ((\<forall>j. 0 < j \<and> j < length secs \<longrightarrow> sec_id (secs ! j) \<noteq> k)
    \<longrightarrow> get_section secs k = Inl (SectionNotFoundError k)
      \<and> get_section_offset secs k = Inl (SectionNotFoundError k))"
proof (cases secs)
  case Nil
  then show ?thesis by (simp add: get_section_def get_section_offset_def)
next
  case (Cons h rest)
  have found: "get_section secs k = Inr (secs ! i)
      \<and> get_section_offset secs k = Inr (sum_list (map sec_size (take i secs)))"
    if a: "0 < i" "i < length secs" "sec_id (secs ! i) = k"
       "\<forall>j. 0 < j \<and> j < i \<longrightarrow> sec_id (secs ! j) \<noteq> k"
  proof -
    from a(1) obtain i' where i': "i = Suc i'" by (cases i) auto
    from a i' Cons have b: "i' < length rest" "sec_id (rest ! i') = k" by auto
    have c: "\<forall>l<i'. sec_id (rest ! l) \<noteq> k"
    proof (intro allI impI)
      fix l assume "l < i'"
      with a(4) i' have "sec_id (secs ! Suc l) \<noteq> k" by auto
      with Cons show "sec_id (rest ! l) \<noteq> k" by simp
    qed
    have "get_section_loop (Suc 0) rest k = Inr (rest ! i')"
      using b c by (intro get_section_loop_found) auto
    moreover have "get_section_offset_loop (sec_size h) (Suc 0) rest k
        = Inr (sec_size h + sum_list (map sec_size (take i' rest)))"
      using b c by (intro get_section_offset_loop_found) auto
    ultimately show ?thesis
      using Cons i' by (simp add: get_section_def get_section_offset_def)
  qed
  have missing: "get_section secs k = Inl (SectionNotFoundError k)
      \<and> get_section_offset secs k = Inl (SectionNotFoundError k)"
    if a: "\<forall>j. 0 < j \<and> j < length secs \<longrightarrow> sec_id (secs ! j) \<noteq> k"
  proof -
    have c: "\<forall>l<length rest. sec_id (rest ! l) \<noteq> k"
    proof (intro allI impI)
      fix l assume "l < length rest"
      with a Cons have "sec_id (secs ! Suc l) \<noteq> k" by auto
      with Cons show "sec_id (rest ! l) \<noteq> k" by simp
    qed
    have "get_section_loop (Suc 0) rest k = Inl (SectionNotFoundError k)"
      using c by (intro get_section_loop_missing) auto
    moreover have "get_section_offset_loop (sec_size h) (Suc 0) rest k
        = Inl (SectionNotFoundError k)"
      using c by (intro get_section_offset_loop_missing) auto
    ultimately show ?thesis
      using Cons by (simp add: get_section_def get_section_offset_def)
  qed
  from found missing show ?thesis by blast
qed

theorem section_lookup_first_after_header_witness:
  "get_section [frag 10 8, frag 1 5, frag 10 7, frag 10 9] 10 = Inr (frag 10 7)
   \<and> get_section_offset [frag 10 8, frag 1 5, frag 10 7, frag 10 9] 10 = Inr 13
   \<and> get_section [frag 10 8, frag 1 5] 10 = Inl (SectionNotFoundError 10)
   \<and> get_section_offset [frag 10 8, frag 1 5] 10 = Inl (SectionNotFoundError 10)"
proof -
  have j: "\<forall>j. 0 < j \<and> j < (2::nat) \<longrightarrow> sec_id ([frag 10 8, frag 1 5, frag 10 7, frag 10 9] ! j) \<noteq> 10"
  proof (intro allI impI)
    fix j :: nat assume "0 < j \<and> j < 2"
    then have "j = 1" by arith
    then show "sec_id ([frag 10 8, frag 1 5, frag 10 7, frag 10 9] ! j) \<noteq> 10"
      by (simp add: frag_def)
  qed
  have m: "\<forall>j. 0 < j \<and> j < length [frag 10 8, frag 1 5] \<longrightarrow> sec_id ([frag 10 8, frag 1 5] ! j) \<noteq> 10"
  proof (intro allI impI)
    fix j :: nat assume "0 < j \<and> j < length [frag 10 8, frag 1 5]"
    then have "j = 1" by auto
    then show "sec_id ([frag 10 8, frag 1 5] ! j) \<noteq> 10"
      by (simp add: frag_def)
  qed
  from j section_lookup_first_after_header [of 2 "[frag 10 8, frag 1 5, frag 10 7, frag 10 9]" 10]
  have "get_section [frag 10 8, frag 1 5, frag 10 7, frag 10 9] 10 = Inr (frag 10 7)
   \<and> get_section_offset [frag 10 8, frag 1 5, frag 10 7, frag 10 9] 10 = Inr 13"
    by (simp add: frag_def)
  moreover from m section_lookup_first_after_header [of 0 "[frag 10 8, frag 1 5]" 10]
  have "get_section [frag 10 8, frag 1 5] 10 = Inl (SectionNotFoundError 10)
   \<and> get_section_offset [frag 10 8, frag 1 5] 10 = Inl (SectionNotFoundError 10)"
    by blast
  ultimately show ?thesis by blast
qed

subsection \<open>The resolution pass\<close>

lemma stack_ok_init: "stack_ok (init_resolver offset)"
  by (simp add: stack_ok_def init_resolver_def)

lemma stack_ok_advance [simp]: "stack_ok (advance bc s) = stack_ok s"
  by (simp add: stack_ok_def advance_def)

lemma stack_ok_enter: "stack_ok s \<Longrightarrow> stack_ok (resolve_enter s bc)"
  by (auto simp: stack_ok_def resolve_enter_def Let_def less_Suc_eq)

lemma stack_ok_end:
  "stack_ok s \<Longrightarrow> resolve_end offset s bc = Inr f \<Longrightarrow> stack_ok (flow_state f)"
  by (auto simp: stack_ok_def resolve_end_def blocks_getitem_def
      split: list.splits if_splits)

lemma stack_ok_br: "stack_ok s \<Longrightarrow> resolve_br s bc = Inr s' \<Longrightarrow> stack_ok s'"
  by (auto simp: stack_ok_def resolve_br_def blocks_getitem_def list_getitem_def
      split: option.splits imm.splits if_splits)

lemma else_loop_frame:
  "resolve_else_loop s bc st = Inr s' \<Longrightarrow>
   rs_block_stack s' = rs_block_stack s \<and> length (rs_blocks s') = length (rs_blocks s)
   \<and> rs_p s' = rs_p s"
  by (induction st) (auto simp: blocks_getitem_def split: if_splits)

lemma stack_ok_else:
  "stack_ok s \<Longrightarrow> resolve_else_loop s bc st = Inr s' \<Longrightarrow> stack_ok s'"
  using else_loop_frame [of s bc st s'] by (simp add: stack_ok_def)

lemma br_table_loop_frame:
  "resolve_br_table_loop s ds = Inr s' \<Longrightarrow>
   rs_block_stack s' = rs_block_stack s \<and> length (rs_blocks s') = length (rs_blocks s)
   \<and> rs_p s' = rs_p s"
proof (induction ds arbitrary: s)
  case Nil
  then show ?case by simp
next
  case (Cons d ds)
  then show ?case
    by (fastforce simp: blocks_getitem_def list_getitem_def dict_getitem_def
        split: if_splits option.splits)
qed

lemma stack_ok_br_table:
  "stack_ok s \<Longrightarrow> resolve_br_table s bc = Inr s' \<Longrightarrow> stack_ok s'"
proof -
  assume ok: "stack_ok s" and r: "resolve_br_table s bc = Inr s'"
  from r obtain c t d where
    "resolve_br_table_loop (s\<lparr>rs_branch_targets := dict_set (rs_branch_targets s) (rs_p s) []\<rparr>)
       (t @ [d]) = Inr s'"
    by (auto simp: resolve_br_table_def split: option.splits imm.splits)
  from br_table_loop_frame [OF this] ok show ?thesis
    by (simp add: stack_ok_def)
qed

lemma stack_ok_step:
  "stack_ok s \<Longrightarrow> resolve_step offset s bc = Inr f \<Longrightarrow> stack_ok (flow_state f)"
  unfolding resolve_step_def
  by (auto split: if_splits sum.splits flow.splits
      dest: stack_ok_end stack_ok_br stack_ok_else stack_ok_br_table
      intro: stack_ok_enter)

lemma stack_ok_loop:
  "stack_ok s \<Longrightarrow> resolve_loop offset s code = Inr f \<Longrightarrow> stack_ok (flow_state f)"
proof (induction code arbitrary: s)
  case Nil
  then show ?case by auto
next
  case (Cons bc code)
  show ?case
  proof (cases "resolve_step offset s bc")
    case (Inl e)
    with Cons.prems show ?thesis by simp
  next
    case (Inr g)
    with Cons.prems(1) have ok: "stack_ok (flow_state g)" by (rule stack_ok_step)
    show ?thesis
    proof (cases g)
      case (Continue s1)
      with Inr Cons.prems have "resolve_loop offset s1 code = Inr f" by simp
      with ok Continue show ?thesis using Cons.IH by simp
    next
      case (Break s1)
      with Inr Cons.prems ok show ?thesis by auto
    qed
  qed
qed

lemma resolve_loop_append:
  "resolve_loop offset s (xs @ ys) =
     (case resolve_loop offset s xs of
        Inr (Continue s') \<Rightarrow> resolve_loop offset s' ys
      | r \<Rightarrow> r)"
  by (induction xs arbitrary: s) (auto split: sum.splits flow.splits)

lemma reachable_stack_ok:
  "resolve_loop offset (init_resolver offset) pre = Inr (Continue s) \<Longrightarrow> stack_ok s"
  using stack_ok_loop [OF stack_ok_init, of offset offset pre "Continue s"] by simp

text \<open>
  The address the pass has reached: every iteration that goes on adds the length of its
  instruction to \<open>p\<close>. Reading the returned dictionary at an address.
\<close>

lemma step_advances:
  "resolve_step offset s bc = Inr (Continue s') \<Longrightarrow> rs_p s' = rs_p s + len bc"
  unfolding resolve_step_def
  by (auto simp: advance_def resolve_enter_def Let_def resolve_end_def resolve_br_def
      resolve_br_table_def
      split: if_splits sum.splits flow.splits list.splits option.splits imm.splits
      dest!: else_loop_frame br_table_loop_frame)

lemma loop_advances:
  "resolve_loop offset s code = Inr (Continue s') \<Longrightarrow>
   rs_p s' = rs_p s + sum_list (map len code)"
proof (induction code arbitrary: s)
  case Nil
  then show ?case by simp
next
  case (Cons bc code)
  from Cons.prems obtain s1 where
    st: "resolve_step offset s bc = Inr (Continue s1)"
    and rest: "resolve_loop offset s1 code = Inr (Continue s')"
    by (auto split: sum.splits flow.splits)
  from step_advances [OF st] Cons.IH [OF rest] show ?case by simp
qed

lemma reachable_address:
  "resolve_loop offset (init_resolver offset) pre = Inr (Continue s) \<Longrightarrow>
   rs_p s = offset + sum_list (map len pre)"
  using loop_advances [of offset "init_resolver offset" pre s]
  by (simp add: init_resolver_def)

lemma dict_get_dict_set_same: "dict_get (dict_set d k v) k = Some v"
  by (simp add: dict_get_def map_of_dict_set)

lemma dict_get_deref_targets:
  "dict_get (deref_targets blocks bt) a =
     map_option (map (\<lambda>(k, t). (k, map_target (\<lambda>i. blocks ! i) t))) (dict_get bt a)"
  by (simp add: dict_get_def deref_targets_def map_of_map)

text \<open>
  Claim C4. Let \<open>s\<close> be the state of the pass in front of an \<^verbatim>\<open>end\<close>, after the instructions
  \<open>pre\<close> of a body resolved at \<open>offset\<close>; the address \<open>p\<close> of the \<^verbatim>\<open>end\<close> is \<open>offset\<close> plus the
  lengths of \<open>pre\<close>. With a non-empty block stack the \<^verbatim>\<open>end\<close> pops the top index, sets the
  \<^verbatim>\<open>end_offset\<close> of that block to the address of the \<^verbatim>\<open>end\<close> plus its length, records
  \<^verbatim>\<open>{'block': block}\<close> at its address and goes on behind it; in the dictionary returned for
  the body that stops here, the entry at the address of the \<^verbatim>\<open>end\<close> is that block with its
  new \<^verbatim>\<open>end_offset\<close>. With an empty stack it records the function block (offset of the
  function, \<^verbatim>\<open>end_offset\<close> the address of the \<^verbatim>\<open>end\<close> itself, depth 0) and leaves the loop:
  whatever instructions \<open>after\<close> follow, the returned dictionary is the one of the body that
  stops at this \<^verbatim>\<open>end\<close>, and its entry at the address of the \<^verbatim>\<open>end\<close> is the function block.
\<close>

theorem end_closes_block_or_function:
  assumes reach: "resolve_loop offset (init_resolver offset) pre = Inr (Continue s)"
    and op: "op_id bc = OP_END"
  shows "rs_p s = offset + sum_list (map len pre)
       \<and> (\<forall>block_index rest. rs_block_stack s = block_index # rest \<longrightarrow>
            resolve_loop offset (init_resolver offset) (pre @ [bc]) =
              Inr (Continue
                \<lparr>rs_branch_targets =
                   dict_set (rs_branch_targets s) (rs_p s) [(K_block, Scope block_index)],
                 rs_blocks = (rs_blocks s)
                   [block_index :=
                      (rs_blocks s ! block_index)\<lparr>b_end_offset := Some (rs_p s + len bc)\<rparr>],
                 rs_block_stack = rest,
                 rs_p = rs_p s + len bc\<rparr>)
            \<and> (\<exists>result. compute_function_branch_targets offset (pre @ [bc]) = Inr result
                 \<and> dict_get result (offset + sum_list (map len pre)) =
                     Some [(K_block, Scope ((rs_blocks s ! block_index)
                        \<lparr>b_end_offset := Some (offset + sum_list (map len pre) + len bc)\<rparr>))]))
       \<and> (rs_block_stack s = [] \<longrightarrow>
            resolve_loop offset (init_resolver offset) (pre @ bc # after) =
              Inr (Break
                (s\<lparr>rs_branch_targets :=
                   dict_set (rs_branch_targets s) (rs_p s)
                     [(K_block, FunctionScope offset (rs_p s) 0)]\<rparr>))
          \<and> compute_function_branch_targets offset (pre @ bc # after) =
              Inr (deref_targets (rs_blocks s)
                (dict_set (rs_branch_targets s) (rs_p s)
                   [(K_block, FunctionScope offset (rs_p s) 0)]))
          \<and> compute_function_branch_targets offset (pre @ bc # after) =
              compute_function_branch_targets offset (pre @ [bc])
          \<and> (\<exists>result. compute_function_branch_targets offset (pre @ bc # after) = Inr result
                 \<and> dict_get result (offset + sum_list (map len pre)) =
                     Some [(K_block,
                            FunctionScope offset (offset + sum_list (map len pre)) 0)]))"
proof (intro conjI allI impI)
  from reach show addr: "rs_p s = offset + sum_list (map len pre)"
    by (rule reachable_address)
  {
    fix block_index rest
    assume st: "rs_block_stack s = block_index # rest"
    from reach have "stack_ok s" by (rule reachable_stack_ok)
    with st have lt: "block_index < length (rs_blocks s)" by (simp add: stack_ok_def)
    let ?s' = "\<lparr>rs_branch_targets =
                   dict_set (rs_branch_targets s) (rs_p s) [(K_block, Scope block_index)],
                 rs_blocks = (rs_blocks s)
                   [block_index :=
                      (rs_blocks s ! block_index)\<lparr>b_end_offset := Some (rs_p s + len bc)\<rparr>],
                 rs_block_stack = rest,
                 rs_p = rs_p s + len bc\<rparr>"
    have "resolve_step offset s bc = Inr (Continue ?s')"
      using op st lt
      by (simp add: resolve_step_def resolve_end_def blocks_getitem_def advance_def op_defs)
    with reach show run: "resolve_loop offset (init_resolver offset) (pre @ [bc]) =
        Inr (Continue ?s')"
      by (simp add: resolve_loop_append)
    then have res: "compute_function_branch_targets offset (pre @ [bc]) =
        Inr (deref_targets (rs_blocks ?s') (rs_branch_targets ?s'))"
      by (simp add: compute_function_branch_targets_def)
    have "dict_get (deref_targets (rs_blocks ?s') (rs_branch_targets ?s')) (rs_p s) =
        Some [(K_block, Scope ((rs_blocks s ! block_index)
                        \<lparr>b_end_offset := Some (rs_p s + len bc)\<rparr>))]"
      using lt by (simp add: dict_get_deref_targets dict_get_dict_set_same)
    with res addr show "\<exists>result. compute_function_branch_targets offset (pre @ [bc]) = Inr result
                 \<and> dict_get result (offset + sum_list (map len pre)) =
                     Some [(K_block, Scope ((rs_blocks s ! block_index)
                        \<lparr>b_end_offset := Some (offset + sum_list (map len pre) + len bc)\<rparr>))]"
      by simp
  }
  assume st: "rs_block_stack s = []"
  let ?s' = "s\<lparr>rs_branch_targets :=
                   dict_set (rs_branch_targets s) (rs_p s)
                     [(K_block, FunctionScope offset (rs_p s) 0)]\<rparr>"
  have step: "resolve_step offset s bc = Inr (Break ?s')"
    using op st by (simp add: resolve_step_def resolve_end_def op_defs)
  with reach show "resolve_loop offset (init_resolver offset) (pre @ bc # after) =
      Inr (Break ?s')"
    by (simp add: resolve_loop_append)
  from step reach have brk: "resolve_loop offset (init_resolver offset) (pre @ bc # rest) =
      Inr (Break ?s')" for rest
    by (simp add: resolve_loop_append)
  from brk [of after] show res: "compute_function_branch_targets offset (pre @ bc # after) =
              Inr (deref_targets (rs_blocks s)
                (dict_set (rs_branch_targets s) (rs_p s)
                   [(K_block, FunctionScope offset (rs_p s) 0)]))"
    by (simp add: compute_function_branch_targets_def)
  from brk [of after] brk [of "[]"]
  show "compute_function_branch_targets offset (pre @ bc # after) =
              compute_function_branch_targets offset (pre @ [bc])"
    by (simp add: compute_function_branch_targets_def)
  have "dict_get (deref_targets (rs_blocks s)
                (dict_set (rs_branch_targets s) (rs_p s)
                   [(K_block, FunctionScope offset (rs_p s) 0)])) (rs_p s) =
      Some [(K_block, FunctionScope offset (rs_p s) 0)]"
    by (simp add: dict_get_deref_targets dict_get_dict_set_same)
  with res addr
  show "\<exists>result. compute_function_branch_targets offset (pre @ bc # after) = Inr result
                 \<and> dict_get result (offset + sum_list (map len pre)) =
                     Some [(K_block,
                            FunctionScope offset (offset + sum_list (map len pre)) 0)]"
    by simp
qed

theorem end_closes_block_or_function_witness:
  "resolve_loop 100 (init_resolver 100) [i_block, i_nop] =
     Inr (Continue
       \<lparr>rs_branch_targets = [(100, [(K_block, Scope 0)])],
        rs_blocks = [\<lparr>b_index = 0, b_offset = 100, b_end_offset = None,
                      b_else_offset = None, b_br_table_target = None, b_depth = 0,
                      b_type = ''block''\<rparr>],
        rs_block_stack = [0],
        rs_p = 103\<rparr>)
   \<and> (103::nat) = 100 + sum_list (map len [i_block, i_nop])
   \<and> resolve_loop 100 (init_resolver 100) ([i_block, i_nop] @ [i_end]) =
     Inr (Continue
       \<lparr>rs_branch_targets = [(100, [(K_block, Scope 0)]), (103, [(K_block, Scope 0)])],
        rs_blocks = [\<lparr>b_index = 0, b_offset = 100, b_end_offset = Some 104,
                      b_else_offset = None, b_br_table_target = None, b_depth = 0,
                      b_type = ''block''\<rparr>],
        rs_block_stack = [],
        rs_p = 104\<rparr>)
   \<and> compute_function_branch_targets 100 ([i_block, i_nop] @ [i_end]) =
      Inr [(100, [(K_block, Scope \<lparr>b_index = 0, b_offset = 100, b_end_offset = Some 104,
                      b_else_offset = None, b_br_table_target = None, b_depth = 0,
                      b_type = ''block''\<rparr>)]),
           (103, [(K_block, Scope \<lparr>b_index = 0, b_offset = 100, b_end_offset = Some 104,
                      b_else_offset = None, b_br_table_target = None, b_depth = 0,
                      b_type = ''block''\<rparr>)])]
   \<and> dict_get
        [(100::nat, [(K_block, Scope \<lparr>b_index = 0, b_offset = 100, b_end_offset = Some 104,
                      b_else_offset = None, b_br_table_target = None, b_depth = 0,
                      b_type = ''block''\<rparr>)]),
         (103, [(K_block, Scope \<lparr>b_index = 0, b_offset = 100, b_end_offset = Some 104,
                      b_else_offset = None, b_br_table_target = None, b_depth = 0,
                      b_type = ''block''\<rparr>)])] 103 =
      Some [(K_block, Scope \<lparr>b_index = 0, b_offset = 100, b_end_offset = Some 104,
                      b_else_offset = None, b_br_table_target = None, b_depth = 0,
                      b_type = ''block''\<rparr>)]
   \<and> resolve_loop 100 (init_resolver 100) [i_nop] =
      Inr (Continue \<lparr>rs_branch_targets = [], rs_blocks = [], rs_block_stack = [],
                      rs_p = 101\<rparr>)
   \<and> compute_function_branch_targets 100 ([i_nop] @ i_end # [i_block, i_br 7]) =
      Inr [(101, [(K_block, FunctionScope 100 101 0)])]
   \<and> compute_function_branch_targets 100 ([i_nop] @ [i_end]) =
      Inr [(101, [(K_block, FunctionScope 100 101 0)])]"
proof -
  let ?s1 = "\<lparr>rs_branch_targets = [(100, [(K_block, Scope 0)])],
        rs_blocks = [\<lparr>b_index = 0, b_offset = 100, b_end_offset = None,
                      b_else_offset = None, b_br_table_target = None, b_depth = 0,
                      b_type = ''block''\<rparr>],
        rs_block_stack = [0],
        rs_p = 103\<rparr>"
  let ?s2 = "\<lparr>rs_branch_targets = [], rs_blocks = [], rs_block_stack = [],
                      rs_p = 101\<rparr>"
  have r1: "resolve_loop 100 (init_resolver 100) [i_block, i_nop] = Inr (Continue ?s1)"
    by (simp add: resolver_defs insn_defs i_nop_def op_defs)
  have r2: "resolve_loop 100 (init_resolver 100) [i_nop] = Inr (Continue ?s2)"
    by (simp add: resolver_defs insn_defs i_nop_def op_defs)
  have op: "op_id i_end = OP_END"
    by (simp add: insn_defs)
  have full: "compute_function_branch_targets 100 ([i_block, i_nop] @ [i_end]) =
      Inr [(100, [(K_block, Scope \<lparr>b_index = 0, b_offset = 100, b_end_offset = Some 104,
                      b_else_offset = None, b_br_table_target = None, b_depth = 0,
                      b_type = ''block''\<rparr>)]),
           (103, [(K_block, Scope \<lparr>b_index = 0, b_offset = 100, b_end_offset = Some 104,
                      b_else_offset = None, b_br_table_target = None, b_depth = 0,
                      b_type = ''block''\<rparr>)])]"
    by (simp add: resolver_defs insn_defs i_nop_def op_defs)
  note t1 = end_closes_block_or_function [OF r1 op]
  note t2 = end_closes_block_or_function [OF r2 op, of "[i_block, i_br 7]"]
  from t1 have a: "(103::nat) = 100 + sum_list (map len [i_block, i_nop])"
    by simp
  from t1 have b: "resolve_loop 100 (init_resolver 100) ([i_block, i_nop] @ [i_end]) =
     Inr (Continue
       \<lparr>rs_branch_targets = [(100, [(K_block, Scope 0)]), (103, [(K_block, Scope 0)])],
        rs_blocks = [\<lparr>b_index = 0, b_offset = 100, b_end_offset = Some 104,
                      b_else_offset = None, b_br_table_target = None, b_depth = 0,
                      b_type = ''block''\<rparr>],
        rs_block_stack = [],
        rs_p = 104\<rparr>)"
    by (simp add: insn_defs)
  from t1 full a have c: "dict_get
        [(100::nat, [(K_block, Scope \<lparr>b_index = 0, b_offset = 100, b_end_offset = Some 104,
                      b_else_offset = None, b_br_table_target = None, b_depth = 0,
                      b_type = ''block''\<rparr>)]),
         (103, [(K_block, Scope \<lparr>b_index = 0, b_offset = 100, b_end_offset = Some 104,
                      b_else_offset = None, b_br_table_target = None, b_depth = 0,
                      b_type = ''block''\<rparr>)])] 103 =
      Some [(K_block, Scope \<lparr>b_index = 0, b_offset = 100, b_end_offset = Some 104,
                      b_else_offset = None, b_br_table_target = None, b_depth = 0,
                      b_type = ''block''\<rparr>)]"
    by (simp add: dict_get_def)
  from t2 have d: "compute_function_branch_targets 100 ([i_nop] @ i_end # [i_block, i_br 7]) =
      Inr [(101, [(K_block, FunctionScope 100 101 0)])]"
    by (simp add: deref_targets_def)
  have st: "rs_block_stack ?s2 = []" by simp
  from t2 st have "compute_function_branch_targets 100 ([i_nop] @ i_end # [i_block, i_br 7]) =
      compute_function_branch_targets 100 ([i_nop] @ [i_end])"
    by blast
  with d have e: "compute_function_branch_targets 100 ([i_nop] @ [i_end]) =
      Inr [(101, [(K_block, FunctionScope 100 101 0)])]"
    by simp
  from r1 r2 a b c d e full show ?thesis by blast
qed

subsection \<open>Branches deeper than the block stack\<close>


lemma br_table_loop_IndexError:
  "stack_ok s \<Longrightarrow> map_of (rs_branch_targets s) (rs_p s) \<noteq> None \<Longrightarrow>
   \<exists>d \<in> set ds. length (rs_block_stack s) \<le> d \<Longrightarrow>
   resolve_br_table_loop s ds = Inl IndexError"
proof (induction ds arbitrary: s)
  case Nil
  then show ?case by simp
next
  case (Cons d ds)
  show ?case
  proof (cases "d < length (rs_block_stack s)")
    case False
    then show ?thesis by (simp add: list_getitem_def)
  next
    case True
    let ?i = "rs_block_stack s ! d"
    from True Cons.prems(1) have lt: "?i < length (rs_blocks s)"
      by (simp add: stack_ok_def)
    from Cons.prems(2) obtain entry where e: "map_of (rs_branch_targets s) (rs_p s) = Some entry"
      by auto
    let ?s' = "s\<lparr>rs_blocks := (rs_blocks s)
                 [?i := (rs_blocks s ! ?i)\<lparr>b_br_table_target := Some d\<rparr>],
               rs_branch_targets :=
                 dict_set (rs_branch_targets s) (rs_p s)
                   (dict_set entry (K_depth d) (Scope ?i))\<rparr>"
    have step: "resolve_br_table_loop s (d # ds) = resolve_br_table_loop ?s' ds"
      using True lt e by (simp add: list_getitem_def blocks_getitem_def dict_getitem_def)
    have ok: "stack_ok ?s'" using Cons.prems(1) by (simp add: stack_ok_def)
    have key: "map_of (rs_branch_targets ?s') (rs_p ?s') \<noteq> None"
      by (simp add: map_of_dict_set)
    from Cons.prems(3) True have ex: "\<exists>d \<in> set ds. length (rs_block_stack ?s') \<le> d"
      by auto
    from Cons.IH [OF ok key ex] step show ?thesis by simp
  qed
qed

lemma step_br_IndexError:
  assumes "op_id bc \<in> {OP_BR, OP_BR_IF}" "imm bc = Some (BranchImm d)"
    "length (rs_block_stack s) \<le> d"
  shows "resolve_step offset s bc = Inl IndexError"
  using assms by (auto simp: resolve_step_def resolve_br_def list_getitem_def op_defs)

lemma step_br_table_IndexError:
  assumes "op_id bc = OP_BR_TABLE" "imm bc = Some (BranchTableImm c tt dflt)"
    "d \<in> set (tt @ [dflt])" "length (rs_block_stack s) \<le> d" "stack_ok s"
  shows "resolve_step offset s bc = Inl IndexError"
proof -
  let ?s = "s\<lparr>rs_branch_targets := dict_set (rs_branch_targets s) (rs_p s) []\<rparr>"
  have "resolve_br_table_loop ?s (tt @ [dflt]) = Inl IndexError"
  proof (rule br_table_loop_IndexError)
    show "stack_ok ?s" using assms(5) by (simp add: stack_ok_def)
    show "map_of (rs_branch_targets ?s) (rs_p ?s) \<noteq> None" by (simp add: map_of_dict_set)
    show "\<exists>d \<in> set (tt @ [dflt]). length (rs_block_stack ?s) \<le> d"
      using assms(3,4) by (intro bexI [of _ d]) simp_all
  qed
  then show ?thesis
    using assms(1,2) by (simp add: resolve_step_def resolve_br_table_def op_defs)
qed

lemma else_loop_no_if:
  "\<forall>i \<in> set st. i < length (rs_blocks s) \<and> b_type (rs_blocks s ! i) \<noteq> ''if'' \<Longrightarrow>
   resolve_else_loop s bc st = Inr s"
  by (induction st) (auto simp: blocks_getitem_def)

lemma branch_targets_loop_fails:
  "compute_function_branch_targets
     (pbody + sum_list (map body_size before) + body_code_off body) (body_code body) = Inl e \<Longrightarrow>
   isl (compute_branch_targets_loop pbody acc (before @ body # later))"
proof (induction before arbitrary: pbody acc)
  case Nil
  then show ?case by simp
next
  case (Cons b before)
  show ?case
  proof (cases "compute_function_branch_targets (pbody + body_code_off b) (body_code b)")
    case (Inl e')
    then show ?thesis by simp
  next
    case (Inr r)
    from Cons.prems have "compute_function_branch_targets
        (pbody + body_size b + sum_list (map body_size before) + body_code_off body)
        (body_code body) = Inl e"
      by (simp add: add.assoc)
    from Cons.IH [OF this] Inr show ?thesis by simp
  qed
qed

text \<open>
  Claim C1, as the code has it. Let \<open>s\<close> be the state of the pass in front of an instruction
  \<open>bc\<close> of a body resolved at address \<open>pcode\<close>. When \<open>bc\<close> is a \<^verbatim>\<open>br\<close> or \<^verbatim>\<open>br_if\<close> of relative
  depth \<open>d\<close>, or a \<^verbatim>\<open>br_table\<close> with \<open>d\<close> among its targets or as its default, and \<open>d\<close> is at least
  the depth of the block stack, the step raises Python's \<^verbatim>\<open>IndexError\<close>, so does
  \<^verbatim>\<open>_compute_function_branch_targets\<close> for the body (the branch is resolved to no block at
  all), and \<^verbatim>\<open>_compute_branch_targets\<close> for a module whose code section holds that body
  raises too: it returns no dictionary, whatever the bodies before and behind. An \<^verbatim>\<open>else\<close>
  has no depth: with no open \<^verbatim>\<open>if\<close> on the stack it raises nothing and records nothing.
\<close>

theorem out_of_range_branch_raises_IndexError:
  assumes reach: "resolve_loop pcode (init_resolver pcode) pre = Inr (Continue s)"
  shows "(length (rs_block_stack s) \<le> d
           \<and> ((op_id bc \<in> {OP_BR, OP_BR_IF} \<and> imm bc = Some (BranchImm d))
              \<or> (op_id bc = OP_BR_TABLE
                  \<and> (\<exists>c tt dflt. imm bc = Some (BranchTableImm c tt dflt)
                        \<and> d \<in> set (tt @ [dflt]))))
          \<longrightarrow> resolve_step pcode s bc = Inl IndexError
            \<and> compute_function_branch_targets pcode (pre @ bc # post) = Inl IndexError
            \<and> (get_section sections SEC_CODE = Inr code_section
                 \<and> get_section_offset sections SEC_CODE = Inr pcode_section
                 \<and> payload code_section = CodePayload count (before @ body # later)
                 \<and> pcode = pcode_section + payload_off code_section + entries_off code_section
                     + sum_list (map body_size before) + body_code_off body
                 \<and> body_code body = pre @ bc # post
               \<longrightarrow> isl (compute_branch_targets sections)))
       \<and> (op_id bc = OP_ELSE
            \<and> (\<forall>i \<in> set (rs_block_stack s). b_type (rs_blocks s ! i) \<noteq> ''if'')
          \<longrightarrow> resolve_step pcode s bc = Inr (Continue (advance bc s)))"
proof (intro conjI impI)
  from reach have ok: "stack_ok s" by (rule reachable_stack_ok)
  {
    assume h: "length (rs_block_stack s) \<le> d
           \<and> ((op_id bc \<in> {OP_BR, OP_BR_IF} \<and> imm bc = Some (BranchImm d))
              \<or> (op_id bc = OP_BR_TABLE
                  \<and> (\<exists>c tt dflt. imm bc = Some (BranchTableImm c tt dflt)
                        \<and> d \<in> set (tt @ [dflt]))))"
    then show step: "resolve_step pcode s bc = Inl IndexError"
      using ok step_br_IndexError [of bc d s pcode] step_br_table_IndexError [of bc _ _ _ d s pcode]
      by blast
    with reach show fn: "compute_function_branch_targets pcode (pre @ bc # post) = Inl IndexError"
      by (simp add: compute_function_branch_targets_def resolve_loop_append)
    assume m: "get_section sections SEC_CODE = Inr code_section
                 \<and> get_section_offset sections SEC_CODE = Inr pcode_section
                 \<and> payload code_section = CodePayload count (before @ body # later)
                 \<and> pcode = pcode_section + payload_off code_section + entries_off code_section
                     + sum_list (map body_size before) + body_code_off body
                 \<and> body_code body = pre @ bc # post"
    with fn have "compute_function_branch_targets
        (pcode_section + payload_off code_section + entries_off code_section
           + sum_list (map body_size before) + body_code_off body) (body_code body)
        = Inl IndexError"
      by simp
    then have "isl (compute_branch_targets_loop
        (pcode_section + payload_off code_section + entries_off code_section) []
        (before @ body # later))"
      by (rule branch_targets_loop_fails)
    with m show "isl (compute_branch_targets sections)"
      by (simp add: compute_branch_targets_def)
  }
  assume e: "op_id bc = OP_ELSE
            \<and> (\<forall>i \<in> set (rs_block_stack s). b_type (rs_blocks s ! i) \<noteq> ''if'')"
  with ok have "resolve_else_loop s bc (rs_block_stack s) = Inr s"
    by (intro else_loop_no_if) (auto simp: stack_ok_def)
  with e show "resolve_step pcode s bc = Inr (Continue (advance bc s))"
    by (simp add: resolve_step_def op_defs)
qed

theorem out_of_range_branch_raises_IndexError_witness:
  "resolve_step 19
      \<lparr>rs_branch_targets = [(19, [(K_block, Scope 0)])],
       rs_blocks = [\<lparr>b_index = 0, b_offset = 19, b_end_offset = None, b_else_offset = None,
                     b_br_table_target = None, b_depth = 0, b_type = ''block''\<rparr>],
       rs_block_stack = [0], rs_p = 21\<rparr>
      (i_br 3) = Inl IndexError
   \<and> compute_function_branch_targets 19 ([i_block] @ i_br 3 # [i_end, i_end]) = Inl IndexError
   \<and> isl (compute_branch_targets module_deep_br)
   \<and> resolve_step 19
      \<lparr>rs_branch_targets = [(19, [(K_block, Scope 0)])],
       rs_blocks = [\<lparr>b_index = 0, b_offset = 19, b_end_offset = None, b_else_offset = None,
                     b_br_table_target = None, b_depth = 0, b_type = ''block''\<rparr>],
       rs_block_stack = [0], rs_p = 21\<rparr>
      i_else =
     Inr (Continue
      \<lparr>rs_branch_targets = [(19, [(K_block, Scope 0)])],
       rs_blocks = [\<lparr>b_index = 0, b_offset = 19, b_end_offset = None, b_else_offset = None,
                     b_br_table_target = None, b_depth = 0, b_type = ''block''\<rparr>],
       rs_block_stack = [0], rs_p = 22\<rparr>)"
proof -
  let ?s = "\<lparr>rs_branch_targets = [(19, [(K_block, Scope 0)])],
       rs_blocks = [\<lparr>b_index = 0, b_offset = 19, b_end_offset = None, b_else_offset = None,
                     b_br_table_target = None, b_depth = 0, b_type = ''block''\<rparr>],
       rs_block_stack = [0], rs_p = 21\<rparr>"
  have reach: "resolve_loop 19 (init_resolver 19) [i_block] = Inr (Continue ?s)"
    by (simp add: resolver_defs insn_defs op_defs)
  have sec: "get_section module_deep_br SEC_CODE = Inr code_section_deep_br"
    by (simp add: get_section_def module_deep_br_def code_section_deep_br_def sec_defs)
  have off: "get_section_offset module_deep_br SEC_CODE = Inr 8"
    by (simp add: get_section_offset_def module_deep_br_def code_section_deep_br_def
        sec_defs frag_def)
  have pl: "payload code_section_deep_br = CodePayload 3 ([body_ok] @ body_deep_br # [body_ok])"
    by (simp add: code_section_deep_br_def)
  have pc: "(19::nat) = 8 + payload_off code_section_deep_br + entries_off code_section_deep_br
      + sum_list (map body_size [body_ok]) + body_code_off body_deep_br"
    by (simp add: code_section_deep_br_def body_ok_def body_deep_br_def mk_body_def insn_defs)
  have code: "body_code body_deep_br = [i_block] @ i_br 3 # [i_end, i_end]"
    by (simp add: body_deep_br_def mk_body_def)
  have br: "op_id (i_br 3) \<in> {OP_BR, OP_BR_IF} \<and> imm (i_br 3) = Some (BranchImm 3)"
    by (simp add: insn_defs)
  have deep: "length (rs_block_stack ?s) \<le> 3" by simp
  have els: "op_id i_else = OP_ELSE
      \<and> (\<forall>i \<in> set (rs_block_stack ?s). b_type (rs_blocks ?s ! i) \<noteq> ''if'')"
    by (simp add: insn_defs)
  from out_of_range_branch_raises_IndexError [OF reach, of 3 "i_br 3" "[i_end, i_end]"
      module_deep_br code_section_deep_br 8 3 "[body_ok]" body_deep_br "[body_ok]"]
    br deep sec off pl pc code
  have a: "resolve_step 19 ?s (i_br 3) = Inl IndexError
   \<and> compute_function_branch_targets 19 ([i_block] @ i_br 3 # [i_end, i_end]) = Inl IndexError
   \<and> isl (compute_branch_targets module_deep_br)"
    by blast
  from out_of_range_branch_raises_IndexError [OF reach, of _ i_else] els
  have "resolve_step 19 ?s i_else = Inr (Continue (advance i_else ?s))"
    by blast
  then have b: "resolve_step 19 ?s i_else =
     Inr (Continue
      \<lparr>rs_branch_targets = [(19, [(K_block, Scope 0)])],
       rs_blocks = [\<lparr>b_index = 0, b_offset = 19, b_end_offset = None, b_else_offset = None,
                     b_br_table_target = None, b_depth = 0, b_type = ''block''\<rparr>],
       rs_block_stack = [0], rs_p = 22\<rparr>)"
    by (simp add: advance_def insn_defs)
  from a b show ?thesis by blast
qed

text \<open>
  Claim C1, as stated, at a module of three bodies whose second one holds \<^verbatim>\<open>br 3\<close> inside one
  block: the exception is \<^verbatim>\<open>IndexError\<close>, and the whole of \<^verbatim>\<open>_compute_branch_targets\<close>
  raises it, so the entries of the first body are not kept and the third body is not
  resolved. An \<^verbatim>\<open>else\<close> in front of the final \<^verbatim>\<open>end\<close>, with an empty stack, raises nothing.
\<close>

theorem out_of_range_branch_counterexample:
  "compute_function_branch_targets 19 (body_code body_deep_br) = Inl IndexError
   \<and> compute_branch_targets module_deep_br = Inl IndexError
   \<and> compute_function_branch_targets 0 [i_else, i_end] =
       Inr [(1, [(K_block, FunctionScope 0 1 0)])]"
  by (simp add: compute_branch_targets_def get_section_def get_section_offset_def
      module_deep_br_def code_section_deep_br_def frag_def sec_defs body_ok_def
      body_deep_br_def mk_body_def insn_defs resolver_defs op_defs)

subsection \<open>Data segments\<close>


lemma parse_data_loop_ordered:
  "parse_data_loop acc i pcur es = Inr r \<Longrightarrow>
   \<forall>e \<in> set es. sizes_consistent e \<Longrightarrow>
   sorted_wrt (\<lambda>a b. d_ea (snd a) < d_ea (snd b)) acc \<Longrightarrow> \<forall>a \<in> set acc. fst a < i \<and> d_ea (snd a) \<le> pcur \<Longrightarrow>
   sorted_wrt (\<lambda>a b. d_ea (snd a) < d_ea (snd b)) r \<and> map fst r = map fst acc @ [i..<i + length es]"
proof (induction es arbitrary: acc i pcur)
  case Nil
  then show ?case by simp
next
  case (Cons e es)
  from Cons.prems(1) obtain off where off: "data_offset e = Inr off"
    by (cases "data_offset e") (auto simp: Let_def)
  let ?ea = "pcur + dat_index_size e + dat_offset_size e + dat_size_size e"
  let ?d = "\<lparr>d_index = i, d_offset = off, d_ea = ?ea, d_size = dat_size e, d_data = dat_data e\<rparr>"
  have fresh: "i \<notin> fst ` set acc" using Cons.prems(4) by auto
  then have set: "dict_set acc i ?d = acc @ [(i, ?d)]" by (rule dict_set_keys_fresh)
  from Cons.prems(1) off set
  have run: "parse_data_loop (acc @ [(i, ?d)]) (i + 1) (pcur + dat_entry_size e) es = Inr r"
    by (simp add: Let_def)
  from Cons.prems(2) have sz: "0 < header_size e" "header_size e \<le> dat_entry_size e"
    by (simp_all add: sizes_consistent_def)
  have gt: "\<forall>a \<in> set acc. d_ea (snd a) < ?ea"
    using Cons.prems(4) sz(1) by (fastforce simp: header_size_def)
  have ord: "sorted_wrt (\<lambda>a b. d_ea (snd a) < d_ea (snd b)) (acc @ [(i, ?d)])"
    using Cons.prems(3) gt by (simp add: sorted_wrt_append)
  have bnd: "\<forall>a \<in> set (acc @ [(i, ?d)]). fst a < i + 1 \<and> d_ea (snd a) \<le> pcur + dat_entry_size e"
    using Cons.prems(4) sz(2) by (fastforce simp: header_size_def)
  from Cons.prems(2) have rest: "\<forall>e \<in> set es. sizes_consistent e" by simp
  from Cons.IH [OF run rest ord bnd]
  have "sorted_wrt (\<lambda>a b. d_ea (snd a) < d_ea (snd b)) r" and "map fst r = map fst (acc @ [(i, ?d)]) @ [i + 1..<i + 1 + length es]"
    by simp_all
  moreover have "[i..<i + length (e # es)] = i # [i + 1..<i + 1 + length es]"
    by (simp add: upt_rec)
  ultimately show ?case by simp
qed

lemmas parse_data_defs = parse_data_def get_section_def get_section_offset_def
  data_offset_def sec_defs

text \<open>
  Claim C9. When \<^verbatim>\<open>_parse_data\<close> returns, and the measured sizes of every entry of the data
  section are those of an encoding (a header of at least one byte, inside the entry), the
  table has the keys \<open>0, 1, ...\<close> in parse order and the content address \<^verbatim>\<open>ea\<close> of every
  segment is strictly smaller than that of the next one.
\<close>

theorem data_ea_strictly_increasing:
  assumes parsed: "parse_data sections = Inr data"
    and sizes: "\<forall>entry \<in> set (data_entries sections). sizes_consistent entry"
  shows "map fst data = [0..<length (data_entries sections)]
       \<and> (\<forall>i. Suc i < length data \<longrightarrow> d_ea (snd (data ! i)) < d_ea (snd (data ! Suc i)))"
proof -
  from parsed obtain data_section pdata_section entries where
    sec: "get_section sections SEC_DATA = Inr data_section"
    and pl: "payload data_section = DataPayload entries"
    and run: "parse_data_loop [] 0
        (pdata_section + payload_off data_section + entries_off data_section) entries = Inr data"
    by (auto simp: parse_data_def split: sum.splits payload.splits)
  from sec pl have es: "data_entries sections = entries"
    by (simp add: data_entries_def)
  from parse_data_loop_ordered [OF run] sizes es
  have ord: "sorted_wrt (\<lambda>a b. d_ea (snd a) < d_ea (snd b)) data" and keys: "map fst data = [0..<length entries]"
    by simp_all
  have "d_ea (snd (data ! i)) < d_ea (snd (data ! Suc i))" if "Suc i < length data" for i
    using sorted_wrt_nth_less [OF ord, of i "Suc i"] that by simp
  with keys es show ?thesis by simp
qed

theorem data_ea_strictly_increasing_witness:
  "parse_data module_two_segments =
      Inr [(0, \<lparr>d_index = 0, d_offset = 1024, d_ea = 16, d_size = 0, d_data = []\<rparr>),
           (1, \<lparr>d_index = 1, d_offset = 2048, d_ea = 21, d_size = 2, d_data = [104, 105]\<rparr>)]
   \<and> sizes_consistent (mk_data_entry 1024 [])
   \<and> sizes_consistent (mk_data_entry 2048 [104, 105])
   \<and> map fst
     [(0, \<lparr>d_index = 0, d_offset = 1024, d_ea = 16, d_size = 0, d_data = []\<rparr>),
      (1, \<lparr>d_index = 1, d_offset = 2048, d_ea = 21, d_size = 2, d_data = [104, 105]\<rparr>)]
     = [0..<length (data_entries module_two_segments)]
   \<and> d_ea (snd ([(0, \<lparr>d_index = 0, d_offset = 1024, d_ea = 16, d_size = 0, d_data = []\<rparr>),
         (1, \<lparr>d_index = 1, d_offset = 2048, d_ea = 21, d_size = 2, d_data = [104, 105]\<rparr>)] ! 0))
     < d_ea (snd ([(0, \<lparr>d_index = 0, d_offset = 1024, d_ea = 16, d_size = 0, d_data = []\<rparr>),
         (1, \<lparr>d_index = 1, d_offset = 2048, d_ea = 21, d_size = 2, d_data = [104, 105]\<rparr>)]
         ! Suc 0))"
proof -
  have p: "parse_data module_two_segments =
      Inr [(0, \<lparr>d_index = 0, d_offset = 1024, d_ea = 16, d_size = 0, d_data = []\<rparr>),
           (1, \<lparr>d_index = 1, d_offset = 2048, d_ea = 21, d_size = 2, d_data = [104, 105]\<rparr>)]"
    by (simp add: parse_data_defs module_two_segments_def mk_data_entry_def frag_def
        mk_bc_def op_defs)
  have c: "sizes_consistent (mk_data_entry 1024 [])"
    "sizes_consistent (mk_data_entry 2048 [104, 105])"
    by (simp_all add: sizes_consistent_def header_size_def mk_data_entry_def)
  have e: "data_entries module_two_segments =
      [mk_data_entry 1024 [], mk_data_entry 2048 [104, 105]]"
    by (simp add: data_entries_def get_section_def module_two_segments_def sec_defs)
  have s: "\<forall>entry \<in> set (data_entries module_two_segments). sizes_consistent entry"
    using c e by simp
  from data_ea_strictly_increasing [OF p s] p c show ?thesis by simp
qed

subsection \<open>The function table\<close>

lemma imported_functions_loop_result:
  "parse_imported_functions_loop types acc k es = Inr r \<Longrightarrow>
   \<forall>a \<in> set acc. fst a < k \<Longrightarrow>
   r = acc @ map (\<lambda>(j, e). (j, imported_function types j e))
         (enumerate k (filter (\<lambda>e. imp_kind e = WASM_EXTERNAL_KIND_FUNCTION) es))"
proof (induction es arbitrary: acc k)
  case Nil
  then show ?case by simp
next
  case (Cons e es)
  show ?case
  proof (cases "imp_kind e = WASM_EXTERNAL_KIND_FUNCTION")
    case False
    with Cons.prems have "parse_imported_functions_loop types acc k es = Inr r" by simp
    from Cons.IH [OF this Cons.prems(2)] False show ?thesis by simp
  next
    case True
    with Cons.prems(1) have lt: "imp_type e < length types"
      by (auto simp: list_getitem_def split: if_splits)
    have fresh: "k \<notin> fst ` set acc" using Cons.prems(2) by auto
    let ?f = "imported_function types k e"
    from Cons.prems(1) True lt dict_set_keys_fresh [OF fresh]
    have run: "parse_imported_functions_loop types (acc @ [(k, ?f)]) (k + 1) es = Inr r"
      by (simp add: list_getitem_def imported_function_def)
    have bnd: "\<forall>a \<in> set (acc @ [(k, ?f)]). fst a < k + 1"
      using Cons.prems(2) by auto
    from Cons.IH [OF run bnd] True show ?thesis by simp
  qed
qed

lemma find_append:
  "find P (xs @ ys) = (case find P xs of None \<Rightarrow> find P ys | Some x \<Rightarrow> Some x)"
  by (induction xs) auto

lemma exported_functions_loop_lookup:
  "map_of (parse_exported_functions_loop acc es) k =
     (case find (\<lambda>e. exp_kind e = WASM_EXTERNAL_KIND_FUNCTION \<and> exp_index e = k) (rev es) of
        Some e \<Rightarrow> Some (exported_function e)
      | None \<Rightarrow> map_of acc k)"
proof (induction es arbitrary: acc)
  case Nil
  then show ?case by simp
next
  case (Cons e es)
  show ?case
    by (cases "find (\<lambda>e. exp_kind e = WASM_EXTERNAL_KIND_FUNCTION \<and> exp_index e = k) (rev es)")
      (auto simp: Cons.IH find_append map_of_dict_set exported_function_def)
qed

lemma defined_functions_loop_result:
  "parse_functions_loop n ex bodies types tes acc pb is = Inr r \<Longrightarrow>
   is = [i0..<count] \<Longrightarrow>
   pb = p0 + sum_list (map body_size (take i0 bodies)) \<Longrightarrow>
   \<forall>a \<in> set acc. fst a < n + i0 \<Longrightarrow>
   r = acc @ map (\<lambda>i. (n + i, defined_function n ex bodies types tes p0 i)) [i0..<count]"
proof (induction "is" arbitrary: i0 acc pb)
  case Nil
  then show ?case by simp
next
  case (Cons i "is")
  from Cons.prems(2) have "[i0..<count] = i # is" by simp
  then have i: "i = i0" and lt: "i0 < count" and rest: "is = [Suc i0..<count]"
    by (auto simp: upt_eq_Cons_conv)
  from Cons.prems(1) i have b: "i0 < length bodies"
    by (auto simp: list_getitem_def Let_def split: if_splits)
  from Cons.prems(1) i b have t: "i0 < length types"
    by (auto simp: list_getitem_def Let_def split: if_splits)
  from Cons.prems(1) i b t have te: "types ! i0 < length tes"
    by (auto simp: list_getitem_def Let_def split: if_splits)
  let ?f = "defined_function n ex bodies types tes p0 i0"
  have fresh: "n + i0 \<notin> fst ` set acc" using Cons.prems(4) by auto
  have run: "parse_functions_loop n ex bodies types tes (acc @ [(n + i0, ?f)])
      (pb + body_size (bodies ! i0)) is = Inr r"
    using Cons.prems(1,3) i b t te dict_set_keys_fresh [OF fresh]
    by (auto simp: list_getitem_def Let_def defined_function_def split: option.splits)
  have pb': "pb + body_size (bodies ! i0) = p0 + sum_list (map body_size (take (Suc i0) bodies))"
    using Cons.prems(3) b by (simp add: take_Suc_conv_app_nth)
  have bnd: "\<forall>a \<in> set (acc @ [(n + i0, ?f)]). fst a < n + Suc i0"
    using Cons.prems(4) by auto
  from Cons.IH [OF run rest pb' bnd]
  have "r = (acc @ [(n + i0, ?f)])
      @ map (\<lambda>i. (n + i, defined_function n ex bodies types tes p0 i)) [Suc i0..<count]" .
  with lt show ?case by (simp add: upt_conv_Cons)
qed


lemma get_section_loop_error:
  "get_section_loop i secs k = Inl e \<Longrightarrow> e = SectionNotFoundError k"
  by (induction secs arbitrary: i) (auto split: if_splits)

lemma get_section_error: "get_section secs k = Inl e \<Longrightarrow> e = SectionNotFoundError k"
  unfolding get_section_def by (rule get_section_loop_error)

lemma imported_functions_loop_error:
  "parse_imported_functions_loop types acc k es = Inl e \<Longrightarrow> e = IndexError"
  by (induction es arbitrary: acc k) (auto simp: list_getitem_def split: if_splits)

lemma imported_functions_caught:
  assumes c: "catch_section_not_found (parse_imported_functions sections) = Inr imported"
    and ty: "get_section sections SEC_TYPE = Inr type_section"
    and tp: "payload type_section = TypePayload tes"
  shows "imported = map (\<lambda>(j, e). (j, imported_function tes j e))
           (enumerate 0 (function_imports sections))"
proof (cases "get_section sections SEC_IMPORT")
  case (Inl e)
  then have "e = SectionNotFoundError SEC_IMPORT" by (rule get_section_error)
  with Inl c have "imported = []" by (simp add: parse_imported_functions_def)
  with Inl show ?thesis by (simp add: function_imports_def)
next
  case (Inr import_section)
  show ?thesis
  proof (cases "payload import_section")
    case (ImportPayload entries)
    with Inr ty tp have p: "parse_imported_functions sections =
        parse_imported_functions_loop tes [] 0 entries"
      by (simp add: parse_imported_functions_def)
    have "parse_imported_functions_loop tes [] 0 entries = Inr imported"
    proof (cases "parse_imported_functions_loop tes [] 0 entries")
      case (Inl e)
      then have "e = IndexError" by (rule imported_functions_loop_error)
      with Inl p c show ?thesis by simp
    next
      case (Inr r)
      with p c show ?thesis by simp
    qed
    from imported_functions_loop_result [OF this] Inr ImportPayload show ?thesis
      by (simp add: function_imports_def)
  qed (use Inr ty tp c in \<open>simp_all add: parse_imported_functions_def\<close>)
qed

lemma exported_functions_caught:
  assumes c: "catch_section_not_found (parse_exported_functions sections) = Inr exported"
  shows "dict_get exported k = map_option exported_function (function_export sections k)"
proof (cases "get_section sections SEC_EXPORT")
  case (Inl e)
  then have "e = SectionNotFoundError SEC_EXPORT" by (rule get_section_error)
  with Inl c have "exported = []" by (simp add: parse_exported_functions_def)
  with Inl show ?thesis by (simp add: function_export_def dict_get_def)
next
  case (Inr export_section)
  show ?thesis
  proof (cases "payload export_section")
    case (ExportPayload entries)
    with Inr c have "exported = parse_exported_functions_loop [] entries"
      by (simp add: parse_exported_functions_def)
    with Inr ExportPayload show ?thesis
      by (simp add: function_export_def dict_get_def exported_functions_loop_lookup
          split: option.splits)
  qed (use Inr c in \<open>simp_all add: parse_exported_functions_def\<close>)
qed

lemma parse_functions_table:
  assumes parsed: "parse_functions sections = Inr functions"
  shows "\<exists>exported bodies types tes p0.
      (\<forall>k. dict_get exported k = map_option exported_function (function_export sections k))
      \<and> functions =
          map (\<lambda>(j, e). (j, imported_function tes j e)) (enumerate 0 (function_imports sections))
          @ map (\<lambda>i. (length (function_imports sections) + i,
                       defined_function (length (function_imports sections)) exported bodies
                         types tes p0 i))
              [0..<code_count sections]"
proof -
  from parsed obtain imported exported function_section code_section pcode_section
      type_section count bodies types tes where
    ci: "catch_section_not_found (parse_imported_functions sections) = Inr imported"
    and ce: "catch_section_not_found (parse_exported_functions sections) = Inr exported"
    and cs: "get_section sections SEC_CODE = Inr code_section"
    and ts: "get_section sections SEC_TYPE = Inr type_section"
    and cp: "payload code_section = CodePayload count bodies"
    and tp: "payload type_section = TypePayload tes"
    and run: "parse_functions_loop (length imported) exported bodies types tes imported
        (pcode_section + payload_off code_section + entries_off code_section) [0..<count]
        = Inr functions"
    by (auto simp: parse_functions_def split: sum.splits payload.splits)
  let ?fs = "function_imports sections"
  from imported_functions_caught [OF ci ts tp]
  have imp: "imported = map (\<lambda>(j, e). (j, imported_function tes j e)) (enumerate 0 ?fs)" .
  then have n: "length imported = length ?fs" by simp
  have keys: "\<forall>a \<in> set imported. fst a < length imported + 0"
    unfolding imp by (auto simp: in_set_enumerate_eq)
  from cs cp have m: "code_count sections = count" by (simp add: code_count_def)
  from defined_functions_loop_result [OF run refl _ keys,
      of "pcode_section + payload_off code_section + entries_off code_section"]
  have "functions = imported @ map (\<lambda>i. (length imported + i,
      defined_function (length imported) exported bodies types tes
        (pcode_section + payload_off code_section + entries_off code_section) i)) [0..<count]"
    by simp
  then have "functions = imported @ map (\<lambda>i. (length ?fs + i,
      defined_function (length ?fs) exported bodies types tes
        (pcode_section + payload_off code_section + entries_off code_section) i))
      [0..<code_count sections]"
    by (simp only: n m)
  with imp have "functions =
      map (\<lambda>(j, e). (j, imported_function tes j e)) (enumerate 0 ?fs)
      @ map (\<lambda>i. (length ?fs + i,
      defined_function (length ?fs) exported bodies types tes
        (pcode_section + payload_off code_section + entries_off code_section) i))
      [0..<code_count sections]"
    by simp
  moreover have "\<forall>k. dict_get exported k
      = map_option exported_function (function_export sections k)"
    using exported_functions_caught [OF ce] by simp
  ultimately show ?thesis by blast
qed

lemmas parse_functions_defs = parse_functions_def parse_imported_functions_def
  parse_exported_functions_def get_section_def get_section_offset_def list_getitem_def
  dict_get_def local_types_of_def

lemma parse_functions_table_shape:
  assumes parsed: "parse_functions sections = Inr functions"
  shows "map fst functions = [0..<length (function_imports sections) + code_count sections]
    \<and> (\<forall>i < length (function_imports sections).
          \<exists>f. dict_get functions i = Some f \<and> f_index f = i \<and> f_imported f
            \<and> f_name f = imp_field_str (function_imports sections ! i))
    \<and> (\<forall>i < code_count sections.
          \<exists>f. dict_get functions (length (function_imports sections) + i) = Some f
            \<and> f_index f = length (function_imports sections) + i \<and> \<not> f_imported f
            \<and> (case function_export sections (length (function_imports sections) + i) of
                  Some entry \<Rightarrow> f_name f = exp_field_str entry \<and> f_exported f
                | None \<Rightarrow>
                    f_name f = ''$func'' @ format_d (length (function_imports sections) + i)
                    \<and> \<not> f_exported f))"
proof -
  let ?fs = "function_imports sections"
  let ?n = "length ?fs"
  let ?m = "code_count sections"
  from parse_functions_table [OF parsed] obtain exported bodies types tes p0 where
    ex: "\<And>k. dict_get exported k = map_option exported_function (function_export sections k)"
    and tab: "functions =
          map (\<lambda>(j, e). (j, imported_function tes j e)) (enumerate 0 ?fs)
          @ map (\<lambda>i. (?n + i, defined_function ?n exported bodies types tes p0 i)) [0..<?m]"
    by blast
  have k1: "map fst (map (\<lambda>(j, e). (j, imported_function tes j e)) (enumerate 0 ?fs)) = [0..<?n]"
  proof -
    have "fst \<circ> (\<lambda>(j, e). (j, imported_function tes j e)) = fst"
      by (auto simp: fun_eq_iff)
    then show ?thesis by simp
  qed
  have k2: "map fst (map (\<lambda>i. (?n + i, defined_function ?n exported bodies types tes p0 i))
      [0..<?m]) = [?n..<?n + ?m]"
    using map_add_upt [of ?n ?m] by (simp add: comp_def add.commute)
  have keys: "map fst functions = [0..<?n + ?m]"
    unfolding tab using k1 k2 upt_add_eq_append [of 0 ?n ?m] by simp
  then have dist: "distinct (map fst functions)" by simp
  have imp: "\<exists>f. dict_get functions i = Some f \<and> f_index f = i \<and> f_imported f
      \<and> f_name f = imp_field_str (?fs ! i)" if "i < ?n" for i
  proof -
    from that have "enumerate 0 ?fs ! i = (i, ?fs ! i)" by (simp add: nth_enumerate_eq)
    moreover from that have "enumerate 0 ?fs ! i \<in> set (enumerate 0 ?fs)" by simp
    ultimately have "(i, ?fs ! i) \<in> set (enumerate 0 ?fs)" by simp
    then have "(i, imported_function tes i (?fs ! i)) \<in> set functions"
      unfolding tab by force
    with dist have "dict_get functions i = Some (imported_function tes i (?fs ! i))"
      by (simp add: dict_get_def)
    then show ?thesis by (simp add: imported_function_def)
  qed
  have def: "\<exists>f. dict_get functions (?n + i) = Some f \<and> f_index f = ?n + i \<and> \<not> f_imported f
      \<and> (case function_export sections (?n + i) of
            Some entry \<Rightarrow> f_name f = exp_field_str entry \<and> f_exported f
          | None \<Rightarrow> f_name f = ''$func'' @ format_d (?n + i) \<and> \<not> f_exported f)"
    if "i < ?m" for i
  proof -
    let ?f = "defined_function ?n exported bodies types tes p0 i"
    from that have "(?n + i, ?f) \<in> set functions"
      unfolding tab by simp
    with dist have "dict_get functions (?n + i) = Some ?f"
      by (simp add: dict_get_def)
    moreover have "f_index ?f = ?n + i" "\<not> f_imported ?f"
      by (simp_all add: defined_function_def)
    moreover have "case function_export sections (?n + i) of
            Some entry \<Rightarrow> f_name ?f = exp_field_str entry \<and> f_exported ?f
          | None \<Rightarrow> f_name ?f = ''$func'' @ format_d (?n + i) \<and> \<not> f_exported ?f"
      by (simp add: defined_function_def ex exported_function_def split: option.splits)
    ultimately show ?thesis by blast
  qed
  from keys imp def show ?thesis by blast
qed

text \<open>When the parser returns: the sections it reads are present and well formed.\<close>

lemma get_section_offset_loop_defined:
  "get_section_loop i secs k = Inr s \<Longrightarrow> \<exists>p'. get_section_offset_loop p i secs k = Inr p'"
  by (induction secs arbitrary: i p) (auto split: if_splits)

lemma get_section_offset_defined:
  "get_section secs k = Inr s \<Longrightarrow> \<exists>p. get_section_offset secs k = Inr p"
  unfolding get_section_def get_section_offset_def
  by (rule get_section_offset_loop_defined)

lemma imported_functions_loop_succeeds:
  "\<forall>e \<in> set es. imp_kind e \<noteq> WASM_EXTERNAL_KIND_FUNCTION \<or> imp_type e < length types \<Longrightarrow>
   \<exists>r. parse_imported_functions_loop types acc k es = Inr r"
  by (induction es arbitrary: acc k) (auto simp: list_getitem_def)

lemma defined_functions_loop_succeeds:
  "\<forall>i \<in> set is. i < length bodies \<and> i < length types \<and> types ! i < length tes \<Longrightarrow>
   \<exists>r. parse_functions_loop n ex bodies types tes acc pb is = Inr r"
  by (induction "is" arbitrary: acc pb)
    (auto simp: list_getitem_def Let_def split: option.splits)

lemma imported_functions_succeed:
  assumes ty: "get_section sections SEC_TYPE = Inr type_section"
    and tp: "payload type_section = TypePayload tes"
    and ok: "imports_ok sections tes"
  shows "\<exists>imported. catch_section_not_found (parse_imported_functions sections) = Inr imported"
proof (cases "get_section sections SEC_IMPORT")
  case (Inl e)
  then have "e = SectionNotFoundError SEC_IMPORT" by (rule get_section_error)
  with Inl show ?thesis by (simp add: parse_imported_functions_def)
next
  case (Inr import_section)
  with ok obtain entries where
    pl: "payload import_section = ImportPayload entries"
    and es: "\<forall>e \<in> set entries. imp_kind e \<noteq> WASM_EXTERNAL_KIND_FUNCTION \<or> imp_type e < length tes"
    by (auto simp: imports_ok_def list_all_iff split: payload.splits)
  from imported_functions_loop_succeeds [OF es, of "[]" 0] obtain r where
    "parse_imported_functions_loop tes [] 0 entries = Inr r" by blast
  with Inr pl ty tp show ?thesis by (simp add: parse_imported_functions_def)
qed

lemma exported_functions_succeed:
  assumes ok: "exports_ok sections"
  shows "\<exists>exported. catch_section_not_found (parse_exported_functions sections) = Inr exported"
proof (cases "get_section sections SEC_EXPORT")
  case (Inl e)
  then have "e = SectionNotFoundError SEC_EXPORT" by (rule get_section_error)
  with Inl show ?thesis by (simp add: parse_exported_functions_def)
next
  case (Inr export_section)
  with ok show ?thesis
    by (auto simp: exports_ok_def parse_exported_functions_def split: payload.splits)
qed

lemma parse_functions_succeeds:
  assumes ty: "get_section sections SEC_TYPE = Inr type_section"
    and tp: "payload type_section = TypePayload tes"
    and fs: "get_section sections SEC_FUNCTION = Inr function_section"
    and fp: "payload function_section = FunctionPayload types"
    and cs: "get_section sections SEC_CODE = Inr code_section"
    and cp: "payload code_section = CodePayload count bodies"
    and bounds: "count \<le> length bodies" "count \<le> length types"
      "\<forall>i<count. types ! i < length tes"
    and imp: "imports_ok sections tes"
    and exp: "exports_ok sections"
  shows "\<exists>functions. parse_functions sections = Inr functions"
proof -
  from imported_functions_succeed [OF ty tp imp] obtain imported where
    i: "catch_section_not_found (parse_imported_functions sections) = Inr imported" by blast
  from exported_functions_succeed [OF exp] obtain exported where
    e: "catch_section_not_found (parse_exported_functions sections) = Inr exported" by blast
  from get_section_offset_defined [OF cs] obtain pcode where
    p: "get_section_offset sections SEC_CODE = Inr pcode" by blast
  have "\<forall>i \<in> set [0..<count]. i < length bodies \<and> i < length types \<and> types ! i < length tes"
    using bounds by auto
  from defined_functions_loop_succeeds [OF this] obtain r where
    "parse_functions_loop (length imported) exported bodies types tes imported
       (pcode + payload_off code_section + entries_off code_section) [0..<count] = Inr r"
    by blast
  with i e p ty tp fs fp cs cp show ?thesis
    by (simp add: parse_functions_def)
qed

text \<open>
  The three sections are needed: when the function, the code or the type section is absent
  \<^verbatim>\<open>_parse_functions\<close> raises, whatever the import section holds.
\<close>

lemma parse_functions_needs_sections:
  "isl (get_section sections SEC_FUNCTION) \<or> isl (get_section sections SEC_CODE)
     \<or> isl (get_section sections SEC_TYPE) \<Longrightarrow> isl (parse_functions sections)"
  by (auto simp: parse_functions_def isl_def split: sum.splits)

text \<open>The format \<^verbatim>\<open>%d\<close> writes a natural number in decimal.\<close>

lemma digit_value_digit_char: "n < 10 \<Longrightarrow> digit_value (digit_char n) = n"
proof -
  assume "n < 10"
  then have "n \<in> {0, 1, 2, 3, 4, 5, 6, 7, 8, 9}" by auto
  then show ?thesis by (auto simp: digit_value_def digit_char_def)
qed

lemma digit_char_decimal: "n < 10 \<Longrightarrow> digit_char n \<in> set ''0123456789''"
proof -
  assume "n < 10"
  then have "n \<in> {0, 1, 2, 3, 4, 5, 6, 7, 8, 9}" by auto
  then show ?thesis by (auto simp: digit_char_def)
qed

lemma decimal_value_snoc:
  "decimal_value (s @ [c]) = 10 * decimal_value s + digit_value c"
  by (simp add: decimal_value_def)

lemma format_d_decimal:
  "decimal_value (format_d n) = n \<and> set (format_d n) \<subseteq> set ''0123456789''
   \<and> format_d n \<noteq> [] \<and> (hd (format_d n) = CHR ''0'') = (n = 0)"
proof (induction n rule: format_d.induct)
  case (1 n)
  show ?case
  proof (cases "n < 10")
    case True
    then have f: "format_d n = [digit_char n]" by (simp add: format_d.simps)
    from True have "n \<in> {0, 1, 2, 3, 4, 5, 6, 7, 8, 9}" by auto
    then have "(digit_char n = CHR ''0'') = (n = 0)"
      by (auto simp: digit_char_def)
    with f True digit_value_digit_char [OF True] digit_char_decimal [OF True] show ?thesis
      by (simp add: decimal_value_def)
  next
    case False
    then have f: "format_d n = format_d (n div 10) @ [digit_char (n mod 10)]"
      by (subst format_d.simps) simp
    from False 1 have ih: "decimal_value (format_d (n div 10)) = n div 10"
      "set (format_d (n div 10)) \<subseteq> set ''0123456789''" "format_d (n div 10) \<noteq> []"
      "(hd (format_d (n div 10)) = CHR ''0'') = (n div 10 = 0)"
      by simp_all
    have m: "n mod 10 < 10" by simp
    from False have nz: "n div 10 \<noteq> 0" "n \<noteq> 0" by auto
    have "decimal_value (format_d n) = n"
      using ih(1) digit_value_digit_char [OF m] by (simp add: f decimal_value_snoc)
    moreover have "set (format_d n) \<subseteq> set ''0123456789''"
      using ih(2) digit_char_decimal [OF m] by (simp add: f)
    moreover have "format_d n \<noteq> []" by (simp add: f)
    moreover have "(hd (format_d n) = CHR ''0'') = (n = 0)"
      using ih(3,4) nz by (simp add: f)
    ultimately show ?thesis by blast
  qed
qed

text \<open>
  Claim C5, as the code has it. \<^verbatim>\<open>_parse_functions\<close> needs the function, code and type
  sections: when the three are present, the code section announces \<open>count\<close> bodies, each of
  them has a body and a signature index that the type section resolves, and the import and
  export sections (either may be absent) are well formed, the parser returns a table. With
  \<open>n\<close> function imports the keys of the table are exactly \<open>0, \<dots>, n + count - 1\<close>; index
  \<open>i < n\<close> is the \<open>i\<close>-th function import, marked imported, under its field name; index
  \<open>n + i\<close> is the \<open>i\<close>-th body, not marked imported. A defined function whose index the
  export section lists under kind function (the last such entry, if several) has that
  entry's field name and is marked exported. Every other defined function is not marked
  exported and is named \<^verbatim>\<open>$func\<close> followed by its index in decimal: digits only, no
  leading zero, and read back as a number they give the index.
\<close>

theorem function_index_space:
  assumes ty: "get_section sections SEC_TYPE = Inr type_section"
    and tp: "payload type_section = TypePayload type_entries"
    and fs: "get_section sections SEC_FUNCTION = Inr function_section"
    and fp: "payload function_section = FunctionPayload types"
    and cs: "get_section sections SEC_CODE = Inr code_section"
    and cp: "payload code_section = CodePayload count bodies"
    and nb: "count \<le> length bodies"
    and nt: "count \<le> length types"
    and sigs: "\<forall>i<count. types ! i < length type_entries"
    and imp: "imports_ok sections type_entries"
    and exp: "exports_ok sections"
  shows "\<exists>functions. parse_functions sections = Inr functions
    \<and> map fst functions = [0..<length (function_imports sections) + count]
    \<and> (\<forall>i < length (function_imports sections).
          \<exists>f. dict_get functions i = Some f \<and> f_index f = i \<and> f_imported f
            \<and> f_name f = imp_field_str (function_imports sections ! i))
    \<and> (\<forall>i < count.
          \<exists>f. dict_get functions (length (function_imports sections) + i) = Some f
            \<and> f_index f = length (function_imports sections) + i \<and> \<not> f_imported f
            \<and> (case function_export sections (length (function_imports sections) + i) of
                  Some entry \<Rightarrow> f_name f = exp_field_str entry \<and> f_exported f
                | None \<Rightarrow>
                    f_name f = ''$func'' @ format_d (length (function_imports sections) + i)
                    \<and> decimal_value (format_d (length (function_imports sections) + i))
                        = length (function_imports sections) + i
                    \<and> set (format_d (length (function_imports sections) + i))
                        \<subseteq> set ''0123456789''
                    \<and> (hd (format_d (length (function_imports sections) + i)) = CHR ''0'')
                        = (length (function_imports sections) + i = 0)
                    \<and> \<not> f_exported f))"
proof -
  from parse_functions_succeeds [OF ty tp fs fp cs cp nb nt sigs imp exp]
  obtain table where parsed: "parse_functions sections = Inr table" by blast
  have m: "code_count sections = count" using cs cp by (simp add: code_count_def)
  note space = parse_functions_table_shape [OF parsed, unfolded m]
  have "\<exists>f. dict_get table (length (function_imports sections) + i) = Some f
            \<and> f_index f = length (function_imports sections) + i \<and> \<not> f_imported f
            \<and> (case function_export sections (length (function_imports sections) + i) of
                  Some entry \<Rightarrow> f_name f = exp_field_str entry \<and> f_exported f
                | None \<Rightarrow>
                    f_name f = ''$func'' @ format_d (length (function_imports sections) + i)
                    \<and> decimal_value (format_d (length (function_imports sections) + i))
                        = length (function_imports sections) + i
                    \<and> set (format_d (length (function_imports sections) + i))
                        \<subseteq> set ''0123456789''
                    \<and> (hd (format_d (length (function_imports sections) + i)) = CHR ''0'')
                        = (length (function_imports sections) + i = 0)
                    \<and> \<not> f_exported f)" if "i < count" for i
  proof -
    from space that obtain f where
      f: "dict_get table (length (function_imports sections) + i) = Some f"
        "f_index f = length (function_imports sections) + i" "\<not> f_imported f"
        "case function_export sections (length (function_imports sections) + i) of
            Some entry \<Rightarrow> f_name f = exp_field_str entry \<and> f_exported f
          | None \<Rightarrow>
              f_name f = ''$func'' @ format_d (length (function_imports sections) + i)
              \<and> \<not> f_exported f"
      by blast
    from f(4) format_d_decimal [of "length (function_imports sections) + i"]
    have "case function_export sections (length (function_imports sections) + i) of
            Some entry \<Rightarrow> f_name f = exp_field_str entry \<and> f_exported f
          | None \<Rightarrow>
              f_name f = ''$func'' @ format_d (length (function_imports sections) + i)
              \<and> decimal_value (format_d (length (function_imports sections) + i))
                  = length (function_imports sections) + i
              \<and> set (format_d (length (function_imports sections) + i))
                  \<subseteq> set ''0123456789''
              \<and> (hd (format_d (length (function_imports sections) + i)) = CHR ''0'')
                  = (length (function_imports sections) + i = 0)
              \<and> \<not> f_exported f"
      by (simp split: option.splits)
    with f(1-3) show ?thesis by blast
  qed
  with space parsed show ?thesis by blast
qed

theorem function_index_space_witness:
  "(\<exists>functions f0 f1 f2 f3.
      parse_functions module_main = Inr functions
      \<and> map fst functions = [0, 1, 2, 3]
      \<and> dict_get functions 0 = Some f0 \<and> f_index f0 = 0 \<and> f_imported f0
      \<and> f_name f0 = ''puts''
      \<and> dict_get functions 1 = Some f1 \<and> f_index f1 = 1 \<and> f_imported f1
      \<and> f_name f1 = ''exit''
      \<and> dict_get functions 2 = Some f2 \<and> f_index f2 = 2 \<and> \<not> f_imported f2
      \<and> f_name f2 = ''main'' \<and> f_exported f2
      \<and> dict_get functions 3 = Some f3 \<and> f_index f3 = 3 \<and> \<not> f_imported f3
      \<and> f_name f3 = ''$func3'' \<and> \<not> f_exported f3)
   \<and> (\<exists>functions f0.
      parse_functions module_no_imports = Inr functions
      \<and> map fst functions = [0]
      \<and> dict_get functions 0 = Some f0 \<and> f_index f0 = 0 \<and> \<not> f_imported f0
      \<and> f_name f0 = ''$func0'' \<and> \<not> f_exported f0)
   \<and> parse_functions module_main =
       Inr [(0, imported_function [type_unit] 0 (mk_import WASM_EXTERNAL_KIND_FUNCTION ''puts'')),
            (1, imported_function [type_unit] 1 (mk_import WASM_EXTERNAL_KIND_FUNCTION ''exit'')),
            (2, \<lparr>f_index = 2, f_name = ''main'', f_module = None, f_type = Some type_unit,
                 f_offset = Some 56, f_size = Some 1, f_local_types = Some [],
                 f_exported = True, f_imported = False\<rparr>),
            (3, \<lparr>f_index = 3, f_name = ''$func3'', f_module = None, f_type = Some type_unit,
                 f_offset = Some 59, f_size = Some 1, f_local_types = Some [],
                 f_exported = False, f_imported = False\<rparr>)]
   \<and> parse_functions module_no_imports =
       Inr [(0, \<lparr>f_index = 0, f_name = ''$func0'', f_module = None, f_type = Some type_unit,
                 f_offset = Some 31, f_size = Some 1, f_local_types = Some [],
                 f_exported = False, f_imported = False\<rparr>)]"
proof -
  let ?ty = "\<lparr>sec_id = SEC_TYPE, sec_size = 6, payload_off = 2, entries_off = 1,
       payload = TypePayload [type_unit]\<rparr>"
  let ?fs = "\<lparr>sec_id = SEC_FUNCTION, sec_size = 5, payload_off = 2, entries_off = 1,
       payload = FunctionPayload [0, 0]\<rparr>"
  let ?cs = "\<lparr>sec_id = SEC_CODE, sec_size = 9, payload_off = 2, entries_off = 1,
       payload = CodePayload 2 [mk_body [i_end], mk_body [i_end]]\<rparr>"
  have ty: "get_section module_main SEC_TYPE = Inr ?ty"
    and fs: "get_section module_main SEC_FUNCTION = Inr ?fs"
    and cs: "get_section module_main SEC_CODE = Inr ?cs"
    by (simp_all add: get_section_def module_main_def frag_def sec_defs)
  have tp: "payload ?ty = TypePayload [type_unit]"
    and fp: "payload ?fs = FunctionPayload [0, 0]"
    and cp: "payload ?cs = CodePayload 2 [mk_body [i_end], mk_body [i_end]]"
    by simp_all
  have nb: "(2::nat) \<le> length [mk_body [i_end], mk_body [i_end]]"
    and nt: "(2::nat) \<le> length [0::nat, 0]"
    by simp_all
  have sigs: "\<forall>i<2::nat. [0::nat, 0] ! i < length [type_unit]"
    by (simp add: nth_Cons split: nat.splits)
  have imp: "imports_ok module_main [type_unit]"
    by (simp add: imports_ok_def get_section_def module_main_def frag_def sec_defs
        mk_import_def)
  have exp: "exports_ok module_main"
    by (simp add: exports_ok_def get_section_def module_main_def frag_def sec_defs)
  have n: "length (function_imports module_main) = 2"
    and i0: "function_imports module_main ! 0 = mk_import WASM_EXTERNAL_KIND_FUNCTION ''puts''"
    and i1: "function_imports module_main ! 1 = mk_import WASM_EXTERNAL_KIND_FUNCTION ''exit''"
    by (simp_all add: function_imports_def get_section_def module_main_def sec_defs
        mk_import_def)
  have x2: "function_export module_main 2 =
       Some \<lparr>exp_kind = WASM_EXTERNAL_KIND_FUNCTION, exp_index = 2, exp_field_str = ''main''\<rparr>"
    and x3: "function_export module_main 3 = None"
    by (simp_all add: function_export_def get_section_def module_main_def sec_defs)
  have d3: "format_d 3 = ''3''"
    by (simp add: format_d.simps digit_char_def)
  from function_index_space [OF ty tp fs fp cs cp nb nt sigs imp exp]
  obtain table where
    p: "parse_functions module_main = Inr table"
    and keys: "map fst table = [0..<length (function_imports module_main) + 2]"
    and imported: "\<forall>i < length (function_imports module_main).
          \<exists>f. dict_get table i = Some f \<and> f_index f = i \<and> f_imported f
            \<and> f_name f = imp_field_str (function_imports module_main ! i)"
    and defined: "\<forall>i < 2.
          \<exists>f. dict_get table (length (function_imports module_main) + i) = Some f
            \<and> f_index f = length (function_imports module_main) + i \<and> \<not> f_imported f
            \<and> (case function_export module_main (length (function_imports module_main) + i) of
                  Some entry \<Rightarrow> f_name f = exp_field_str entry \<and> f_exported f
                | None \<Rightarrow>
                    f_name f = ''$func'' @ format_d (length (function_imports module_main) + i)
                    \<and> decimal_value (format_d (length (function_imports module_main) + i))
                        = length (function_imports module_main) + i
                    \<and> set (format_d (length (function_imports module_main) + i))
                        \<subseteq> set ''0123456789''
                    \<and> (hd (format_d (length (function_imports module_main) + i)) = CHR ''0'')
                        = (length (function_imports module_main) + i = 0)
                    \<and> \<not> f_exported f)"
    by blast
  have k: "map fst table = [0, 1, 2, 3]"
    using keys n by (simp add: upt_conv_Cons)
  from imported [rule_format, of 0] n obtain f0 where
    f0: "dict_get table 0 = Some f0" "f_index f0 = 0" "f_imported f0"
      "f_name f0 = imp_field_str (function_imports module_main ! 0)"
    by auto
  from imported [rule_format, of 1] n obtain f1 where
    f1: "dict_get table 1 = Some f1" "f_index f1 = 1" "f_imported f1"
      "f_name f1 = imp_field_str (function_imports module_main ! 1)"
    by auto
  from defined [rule_format, of 0] n x2 obtain f2 where
    f2: "dict_get table 2 = Some f2" "f_index f2 = 2" "\<not> f_imported f2"
      "f_name f2 = ''main''" "f_exported f2"
    by auto
  from defined [rule_format, of 1] n x3 d3 obtain f3 where
    f3: "dict_get table 3 = Some f3" "f_index f3 = 3" "\<not> f_imported f3"
      "f_name f3 = ''$func3''" "\<not> f_exported f3"
    by auto
  from f0 i0 have f0n: "f_name f0 = ''puts''" by (simp add: mk_import_def)
  from f1 i1 have f1n: "f_name f1 = ''exit''" by (simp add: mk_import_def)
  from p k f0(1-3) f0n f1(1-3) f1n f2 f3 have main: "\<exists>functions f0 f1 f2 f3.
      parse_functions module_main = Inr functions
      \<and> map fst functions = [0, 1, 2, 3]
      \<and> dict_get functions 0 = Some f0 \<and> f_index f0 = 0 \<and> f_imported f0
      \<and> f_name f0 = ''puts''
      \<and> dict_get functions 1 = Some f1 \<and> f_index f1 = 1 \<and> f_imported f1
      \<and> f_name f1 = ''exit''
      \<and> dict_get functions 2 = Some f2 \<and> f_index f2 = 2 \<and> \<not> f_imported f2
      \<and> f_name f2 = ''main'' \<and> f_exported f2
      \<and> dict_get functions 3 = Some f3 \<and> f_index f3 = 3 \<and> \<not> f_imported f3
      \<and> f_name f3 = ''$func3'' \<and> \<not> f_exported f3"
    by simp
  let ?fs' = "\<lparr>sec_id = SEC_FUNCTION, sec_size = 4, payload_off = 2, entries_off = 1,
       payload = FunctionPayload [0]\<rparr>"
  let ?cs' = "\<lparr>sec_id = SEC_CODE, sec_size = 6, payload_off = 2, entries_off = 1,
       payload = CodePayload 1 [mk_body [i_end]]\<rparr>"
  have ty': "get_section module_no_imports SEC_TYPE = Inr ?ty"
    and fs': "get_section module_no_imports SEC_FUNCTION = Inr ?fs'"
    and cs': "get_section module_no_imports SEC_CODE = Inr ?cs'"
    by (simp_all add: get_section_def module_no_imports_def frag_def sec_defs)
  have fp': "payload ?fs' = FunctionPayload [0]"
    and cp': "payload ?cs' = CodePayload 1 [mk_body [i_end]]"
    by simp_all
  have nb': "(1::nat) \<le> length [mk_body [i_end]]"
    and nt': "(1::nat) \<le> length [0::nat]"
    and sigs': "\<forall>i<1::nat. [0::nat] ! i < length [type_unit]"
    by simp_all
  have imp': "imports_ok module_no_imports [type_unit]"
    by (simp add: imports_ok_def get_section_def module_no_imports_def frag_def sec_defs)
  have exp': "exports_ok module_no_imports"
    by (simp add: exports_ok_def get_section_def module_no_imports_def frag_def sec_defs)
  have n': "length (function_imports module_no_imports) = 0"
    by (simp add: function_imports_def get_section_def module_no_imports_def frag_def sec_defs)
  have x0: "function_export module_no_imports 0 = None"
    by (simp add: function_export_def get_section_def module_no_imports_def frag_def sec_defs)
  have d0: "format_d 0 = ''0''"
    by (simp add: format_d.simps digit_char_def)
  from function_index_space [OF ty' tp fs' fp' cs' cp' nb' nt' sigs' imp' exp']
  obtain table' where
    p': "parse_functions module_no_imports = Inr table'"
    and keys': "map fst table' = [0..<length (function_imports module_no_imports) + 1]"
    and defined': "\<forall>i < 1.
          \<exists>f. dict_get table' (length (function_imports module_no_imports) + i) = Some f
            \<and> f_index f = length (function_imports module_no_imports) + i \<and> \<not> f_imported f
            \<and> (case function_export module_no_imports
                       (length (function_imports module_no_imports) + i) of
                  Some entry \<Rightarrow> f_name f = exp_field_str entry \<and> f_exported f
                | None \<Rightarrow>
                    f_name f = ''$func''
                        @ format_d (length (function_imports module_no_imports) + i)
                    \<and> decimal_value (format_d (length (function_imports module_no_imports) + i))
                        = length (function_imports module_no_imports) + i
                    \<and> set (format_d (length (function_imports module_no_imports) + i))
                        \<subseteq> set ''0123456789''
                    \<and> (hd (format_d (length (function_imports module_no_imports) + i))
                          = CHR ''0'')
                        = (length (function_imports module_no_imports) + i = 0)
                    \<and> \<not> f_exported f)"
    by blast
  have k': "map fst table' = [0]" using keys' n' by simp
  from defined' [rule_format, of 0] n' x0 d0 obtain g0 where
    g0: "dict_get table' 0 = Some g0" "f_index g0 = 0" "\<not> f_imported g0"
      "f_name g0 = ''$func0''" "\<not> f_exported g0"
    by auto
  from p' k' g0 have none: "\<exists>functions f0.
      parse_functions module_no_imports = Inr functions
      \<and> map fst functions = [0]
      \<and> dict_get functions 0 = Some f0 \<and> f_index f0 = 0 \<and> \<not> f_imported f0
      \<and> f_name f0 = ''$func0'' \<and> \<not> f_exported f0"
    by simp
  have e: "parse_functions module_main =
       Inr [(0, imported_function [type_unit] 0 (mk_import WASM_EXTERNAL_KIND_FUNCTION ''puts'')),
            (1, imported_function [type_unit] 1 (mk_import WASM_EXTERNAL_KIND_FUNCTION ''exit'')),
            (2, \<lparr>f_index = 2, f_name = ''main'', f_module = None, f_type = Some type_unit,
                 f_offset = Some 56, f_size = Some 1, f_local_types = Some [],
                 f_exported = True, f_imported = False\<rparr>),
            (3, \<lparr>f_index = 3, f_name = ''$func3'', f_module = None, f_type = Some type_unit,
                 f_offset = Some 59, f_size = Some 1, f_local_types = Some [],
                 f_exported = False, f_imported = False\<rparr>)]"
    by (simp add: parse_functions_defs module_main_def frag_def sec_defs mk_import_def
        imported_function_def mk_body_def insn_defs format_d.simps digit_char_def
        upt_conv_Cons)
  have e': "parse_functions module_no_imports =
       Inr [(0, \<lparr>f_index = 0, f_name = ''$func0'', f_module = None, f_type = Some type_unit,
                 f_offset = Some 31, f_size = Some 1, f_local_types = Some [],
                 f_exported = False, f_imported = False\<rparr>)]"
    by (simp add: parse_functions_defs module_no_imports_def frag_def sec_defs
        mk_body_def insn_defs format_d.simps digit_char_def)
  from main none e e' show ?thesis by blast
qed

text \<open>
  Claim C5 as stated, without the proviso, fails on a module that imports two functions and
  defines none. Such a module has no function and no code section, so \<open>n = 2\<close> and \<open>m = 0\<close>;
  \<^verbatim>\<open>_parse_functions\<close> raises \<^verbatim>\<open>SectionNotFoundError\<close> on the function section after it has
  parsed the imports, \<^verbatim>\<open>load\<close> catches the exception, and the function table stays empty:
  the two imported functions get no index.
\<close>

theorem function_index_space_counterexample:
  "length (function_imports module_imports_only) = 2
   \<and> code_count module_imports_only = 0
   \<and> parse_functions module_imports_only = Inl (SectionNotFoundError SEC_FUNCTION)
   \<and> self_functions (snd (load wasm_type_names module_imports_only init_processor)) = []"
proof -
  have n: "length (function_imports module_imports_only) = 2"
    by (simp add: function_imports_def get_section_def module_imports_only_def sec_defs
        mk_import_def)
  have m: "code_count module_imports_only = 0"
    by (simp add: code_count_def get_section_def module_imports_only_def frag_def sec_defs)
  have f: "parse_functions module_imports_only = Inl (SectionNotFoundError SEC_FUNCTION)"
    by (simp add: parse_functions_defs module_imports_only_def frag_def sec_defs
        mk_import_def)
  have t: "parse_types module_imports_only = Inr [type_unit]"
    by (simp add: parse_types_def get_section_def module_imports_only_def frag_def sec_defs)
  have g: "parse_globals wasm_type_names module_imports_only
      = Inl (SectionNotFoundError SEC_GLOBAL)"
    by (simp add: parse_globals_def parse_imported_globals_def get_section_def
        get_section_offset_def module_imports_only_def frag_def sec_defs mk_import_def)
  have d: "parse_data module_imports_only = Inl (SectionNotFoundError SEC_DATA)"
    by (simp add: parse_data_def get_section_def module_imports_only_def frag_def sec_defs)
  have b: "compute_branch_targets module_imports_only = Inl (SectionNotFoundError SEC_CODE)"
    by (simp add: compute_branch_targets_def get_section_def module_imports_only_def frag_def
        sec_defs)
  have l: "self_functions (snd (load wasm_type_names module_imports_only init_processor)) = []"
    by (simp add: load_def load_function_maps_def load_data_and_targets_def g f t d b
        dict_values_def init_processor_def sec_defs)
  from n m f l show ?thesis by blast
qed

subsection \<open>Edges of branches in front of an end\<close>

lemma loop_br_resolved:
  "compute_function_branch_targets off body_loop_br =
     Inr [(off, [(K_block, Scope \<lparr>b_index = 0, b_offset = off, b_end_offset = Some (off + 5),
             b_else_offset = None, b_br_table_target = None, b_depth = 0,
             b_type = ''loop''\<rparr>)]),
          (off + 2, [(K_depth 0, Scope \<lparr>b_index = 0, b_offset = off,
             b_end_offset = Some (off + 5), b_else_offset = None,
             b_br_table_target = None, b_depth = 0, b_type = ''loop''\<rparr>)]),
          (off + 4, [(K_block, Scope \<lparr>b_index = 0, b_offset = off,
             b_end_offset = Some (off + 5), b_else_offset = None,
             b_br_table_target = None, b_depth = 0, b_type = ''loop''\<rparr>)])]"
  by (simp add: body_loop_br_def resolver_defs insn_defs op_defs)

lemma loop_br_resolved_closed:
  "compute_function_branch_targets off (body_loop_br @ [i_end]) =
     Inr [(off, [(K_block, Scope \<lparr>b_index = 0, b_offset = off, b_end_offset = Some (off + 5),
             b_else_offset = None, b_br_table_target = None, b_depth = 0,
             b_type = ''loop''\<rparr>)]),
          (off + 2, [(K_depth 0, Scope \<lparr>b_index = 0, b_offset = off,
             b_end_offset = Some (off + 5), b_else_offset = None,
             b_br_table_target = None, b_depth = 0, b_type = ''loop''\<rparr>)]),
          (off + 4, [(K_block, Scope \<lparr>b_index = 0, b_offset = off,
             b_end_offset = Some (off + 5), b_else_offset = None,
             b_br_table_target = None, b_depth = 0, b_type = ''loop''\<rparr>)]),
          (off + 5, [(K_block, FunctionScope off (off + 5) 0)])]"
  by (simp add: body_loop_br_def resolver_defs insn_defs op_defs)

text \<open>
  Claim C2, as the code has it. For the body \<^verbatim>\<open>loop; br 0; end\<close> at any address \<open>off\<close>, the
  calls of \<^verbatim>\<open>add_cref\<close> are, in order: the ordinary flow from the \<^verbatim>\<open>loop\<close> to the \<^verbatim>\<open>br\<close>; the
  ordinary flow from the \<^verbatim>\<open>br\<close> to the \<^verbatim>\<open>end\<close>; the jump of the \<^verbatim>\<open>br\<close>, deferred to the
  \<^verbatim>\<open>end\<close>, from the \<^verbatim>\<open>end\<close> to the \<^verbatim>\<open>end_offset\<close> of the loop (the address behind the
  \<^verbatim>\<open>end\<close>); and the jump from the \<^verbatim>\<open>end\<close> back to the start of the loop. The \<^verbatim>\<open>br\<close> enters
  the address of the \<^verbatim>\<open>end\<close> into \<^verbatim>\<open>deferred_noflows\<close>; the \<^verbatim>\<open>end\<close> of a loop does not
  consult it and adds no ordinary flow. With the closing \<^verbatim>\<open>end\<close> of the function behind
  the body the calls are the same: that \<^verbatim>\<open>end\<close> adds none.
\<close>

theorem loop_br_end_edges:
  "ida_crefs (emulate (insns_from off body_loop_br) (resolved_body off body_loop_br)) =
     [(off, Some (off + 2), fl_F),
      (off + 2, Some (off + 4), fl_F),
      (off + 4, Some (off + 5), fl_JF),
      (off + 4, Some off, fl_JF)]
   \<and> self_deferred_noflows
        (emulate (insns_from off body_loop_br) (resolved_body off body_loop_br)) =
     [(off + 4, True)]
   \<and> ida_crefs (emulate (insns_from off (body_loop_br @ [i_end]))
        (resolved_body off (body_loop_br @ [i_end]))) =
     [(off, Some (off + 2), fl_F),
      (off + 2, Some (off + 4), fl_F),
      (off + 4, Some (off + 5), fl_JF),
      (off + 4, Some off, fl_JF)]"
  unfolding resolved_body_def loop_br_resolved loop_br_resolved_closed
  by (simp add: body_loop_br_def insn_defs emu_defs const_defs op_defs)

text \<open>
  Claim C2, as stated, at address 0: the references that leave the \<^verbatim>\<open>br\<close> (address 2) and
  the \<^verbatim>\<open>end\<close> (address 4) are three, not the two of the claim, and the address of the
  \<^verbatim>\<open>end\<close> is a key of \<^verbatim>\<open>deferred_noflows\<close>.
\<close>

theorem loop_br_end_edges_counterexample:
  "ida_crefs (emulate (insns_from 0 body_loop_br) (resolved_body 0 body_loop_br)) =
     [(0, Some 2, fl_F), (2, Some 4, fl_F), (4, Some 5, fl_JF), (4, Some 0, fl_JF)]
   \<and> filter (\<lambda>(frm, to, t). frm = 2 \<or> frm = 4)
        (ida_crefs (emulate (insns_from 0 body_loop_br) (resolved_body 0 body_loop_br)))
      \<noteq> [(2, Some 4, fl_F), (4, Some 0, fl_JF)]
   \<and> dict_contains
        (self_deferred_noflows
           (emulate (insns_from 0 body_loop_br) (resolved_body 0 body_loop_br))) 4"
proof -
  have r: "compute_function_branch_targets 0 body_loop_br =
     Inr [(0, [(K_block, Scope \<lparr>b_index = 0, b_offset = 0, b_end_offset = Some 5,
             b_else_offset = None, b_br_table_target = None, b_depth = 0,
             b_type = ''loop''\<rparr>)]),
          (2, [(K_depth 0, Scope \<lparr>b_index = 0, b_offset = 0,
             b_end_offset = Some 5, b_else_offset = None,
             b_br_table_target = None, b_depth = 0, b_type = ''loop''\<rparr>)]),
          (4, [(K_block, Scope \<lparr>b_index = 0, b_offset = 0,
             b_end_offset = Some 5, b_else_offset = None,
             b_br_table_target = None, b_depth = 0, b_type = ''loop''\<rparr>)])]"
    by (simp add: body_loop_br_def resolver_defs insn_defs op_defs)
  show ?thesis
    unfolding resolved_body_def r
    by (simp add: body_loop_br_def insn_defs emu_defs const_defs op_defs)
qed

lemma br_table_resolved:
  "compute_function_branch_targets 0 body_br_table =
     Inr [(0, [(K_block, Scope \<lparr>b_index = 0, b_offset = 0, b_end_offset = Some 12,
             b_else_offset = None, b_br_table_target = Some 1, b_depth = 0,
             b_type = ''block''\<rparr>)]),
          (2, [(K_block, Scope \<lparr>b_index = 1, b_offset = 2, b_end_offset = Some 11,
             b_else_offset = None, b_br_table_target = Some 0, b_depth = 1,
             b_type = ''block''\<rparr>)]),
          (4, [(K_depth 0, Scope \<lparr>b_index = 1, b_offset = 2, b_end_offset = Some 11,
             b_else_offset = None, b_br_table_target = Some 0, b_depth = 1,
             b_type = ''block''\<rparr>),
               (K_depth 1, Scope \<lparr>b_index = 0, b_offset = 0, b_end_offset = Some 12,
             b_else_offset = None, b_br_table_target = Some 1, b_depth = 0,
             b_type = ''block''\<rparr>)]),
          (10, [(K_block, Scope \<lparr>b_index = 1, b_offset = 2, b_end_offset = Some 11,
             b_else_offset = None, b_br_table_target = Some 0, b_depth = 1,
             b_type = ''block''\<rparr>)]),
          (11, [(K_block, Scope \<lparr>b_index = 0, b_offset = 0, b_end_offset = Some 12,
             b_else_offset = None, b_br_table_target = Some 1, b_depth = 0,
             b_type = ''block''\<rparr>)]),
          (12, [(K_block, FunctionScope 0 12 0)])]"
  by (simp add: body_br_table_def resolver_defs insn_defs op_defs)

text \<open>
  The handler of a \<^verbatim>\<open>br_table\<close> in front of an \<^verbatim>\<open>end\<close>, for every instruction and state: it
  adds one jump per entry of the dictionary recorded at its address, from its own address,
  and leaves \<^verbatim>\<open>deferred_noflows\<close> as it was.
\<close>

lemma jumps_to_ends_crefs:
  "jumps_to_ends insn blocks self =
     self\<lparr>ida_crefs := ida_crefs self
       @ map (\<lambda>target_block. (insn_ea insn, target_end_offset target_block, fl_JF)) blocks\<rparr>"
  unfolding jumps_to_ends_def
  by (induction blocks arbitrary: self) (simp_all add: add_cref_def)

lemma notify_emu_BR_TABLE_END_effect:
  "notify_emu_BR_TABLE_END insn next self =
     (Inr (IntV 1),
      self\<lparr>ida_crefs := ida_crefs self
        @ map (\<lambda>target_block. (insn_ea insn, target_end_offset target_block, fl_JF))
            (case dict_get (self_branch_targets self) (insn_ea insn) of
               None \<Rightarrow> []
             | Some targets \<Rightarrow> dict_values targets)\<rparr>)"
  by (simp add: notify_emu_BR_TABLE_END_def jumps_to_ends_crefs split: option.splits)

lemma notify_emu_BR_TABLE_END_noflows:
  "self_deferred_noflows (snd (notify_emu_BR_TABLE_END insn next self))
     = self_deferred_noflows self"
  by (simp add: notify_emu_BR_TABLE_END_effect)

text \<open>
  Claim C3, on the body \<^verbatim>\<open>block; block; br_table [0, 1, 0] default 1; end; end; end\<close> at
  address 0. The \<^verbatim>\<open>br_table\<close> at address 4 adds, from its own address, one jump to the
  \<^verbatim>\<open>end_offset\<close> of each of its two distinct targets (11 and 12). It enters nothing into
  \<^verbatim>\<open>deferred_noflows\<close>, so the \<^verbatim>\<open>end\<close> behind it (address 10) adds its ordinary flow to
  address 11.
\<close>

theorem br_table_end_keeps_fallthrough:
  "ida_crefs (emulate (insns_from 0 body_br_table) (resolved_body 0 body_br_table)) =
     [(0, Some 2, fl_F), (2, Some 4, fl_F),
      (4, Some 11, fl_JF), (4, Some 12, fl_JF),
      (10, Some 11, fl_F), (11, Some 12, fl_F)]
   \<and> self_deferred_noflows
        (emulate (insns_from 0 body_br_table) (resolved_body 0 body_br_table)) = []"
  unfolding resolved_body_def br_table_resolved
  by (simp add: body_br_table_def insn_defs emu_defs const_defs op_defs)

subsection \<open>Loading a module that lacks a section\<close>

text \<open>
  Claim C6, on a module with a type, a function, a global and a code section and no import
  section. \<^verbatim>\<open>_parse_globals\<close> raises \<^verbatim>\<open>SectionNotFoundError\<close> for the import section;
  \<^verbatim>\<open>load\<close> completes and leaves the table of globals empty, while the function table has
  its defined function; the loop of \<^verbatim>\<open>_parse_globals\<close> over the global section, had it been
  reached, yields the defined global. On a module without a code section \<^verbatim>\<open>load\<close> itself
  raises \<^verbatim>\<open>SectionNotFoundError\<close>, from \<^verbatim>\<open>_compute_branch_targets\<close>.
\<close>

theorem missing_import_section_drops_globals:
  "parse_globals wasm_type_names module_no_imports = Inl (SectionNotFoundError SEC_IMPORT)
   \<and> fst (load wasm_type_names module_no_imports init_processor) = Inr NoneV
   \<and> self_globals (snd (load wasm_type_names module_no_imports init_processor)) = []
   \<and> map fst (self_functions (snd (load wasm_type_names module_no_imports init_processor)))
       = [0]
   \<and> parse_globals_loop wasm_type_names [] 0 21 [global_zero] =
       Inr [(0, \<lparr>g_index = 0, g_offset = 23, g_type = ''i32'', g_name = ''global_0''\<rparr>)]
   \<and> fst (load wasm_type_names module_no_code init_processor)
       = Inl (SectionNotFoundError SEC_CODE)"
proof -
  have g: "parse_globals wasm_type_names module_no_imports
      = Inl (SectionNotFoundError SEC_IMPORT)"
    by (simp add: parse_globals_def parse_imported_globals_def get_section_def
        module_no_imports_def frag_def sec_defs)
  have f: "parse_functions module_no_imports =
      Inr [(0, \<lparr>f_index = 0, f_name = ''$func0'', f_module = None, f_type = Some type_unit,
               f_offset = Some 31, f_size = Some 1, f_local_types = Some [],
               f_exported = False, f_imported = False\<rparr>)]"
    by (simp add: parse_functions_defs module_no_imports_def frag_def sec_defs
        mk_body_def insn_defs format_d.simps digit_char_def)
  have t: "parse_types module_no_imports = Inr [type_unit]"
    by (simp add: parse_types_def get_section_def module_no_imports_def frag_def sec_defs)
  have d: "parse_data module_no_imports = Inl (SectionNotFoundError SEC_DATA)"
    by (simp add: parse_data_def get_section_def module_no_imports_def frag_def sec_defs)
  have b: "compute_branch_targets module_no_imports =
      Inr [(31, [(K_block, FunctionScope 31 31 0)])]"
    by (simp add: compute_branch_targets_def get_section_def get_section_offset_def
        module_no_imports_def frag_def sec_defs mk_body_def insn_defs resolver_defs op_defs)
  have l: "load wasm_type_names module_no_imports init_processor =
      (Inr NoneV,
       init_processor\<lparr>self_sections := module_no_imports, self_types := [type_unit],
         self_functions := [(0, \<lparr>f_index = 0, f_name = ''$func0'', f_module = None,
               f_type = Some type_unit,
               f_offset = Some 31, f_size = Some 1, f_local_types = Some [],
               f_exported = False, f_imported = False\<rparr>)],
         self_function_offsets := [(31, \<lparr>f_index = 0, f_name = ''$func0'', f_module = None,
               f_type = Some type_unit,
               f_offset = Some 31, f_size = Some 1, f_local_types = Some [],
               f_exported = False, f_imported = False\<rparr>)],
         self_function_ranges := [((31, 32), \<lparr>f_index = 0, f_name = ''$func0'',
               f_module = None, f_type = Some type_unit,
               f_offset = Some 31, f_size = Some 1, f_local_types = Some [],
               f_exported = False, f_imported = False\<rparr>)],
         self_branch_targets := [(31, [(K_block, FunctionScope 31 31 0)])]\<rparr>)"
    by (simp add: load_def load_function_maps_def load_data_and_targets_def g f t d b
        dict_values_def init_processor_def sec_defs)
  have gl: "parse_globals_loop wasm_type_names [] 0 21 [global_zero] =
       Inr [(0, \<lparr>g_index = 0, g_offset = 23, g_type = ''i32'', g_name = ''global_0''\<rparr>)]"
    by (simp add: wasm_type_names_def global_zero_def global_name_def dict_getitem_def
        insn_defs op_defs format_X.simps digit_char_def)
  have t2: "parse_types module_no_code = Inr [type_unit]"
    by (simp add: parse_types_def get_section_def module_no_code_def frag_def sec_defs)
  have g2: "parse_globals wasm_type_names module_no_code
      = Inl (SectionNotFoundError SEC_IMPORT)"
    by (simp add: parse_globals_def parse_imported_globals_def get_section_def
        module_no_code_def frag_def sec_defs)
  have f2: "parse_functions module_no_code = Inl (SectionNotFoundError SEC_FUNCTION)"
    by (simp add: parse_functions_defs module_no_code_def frag_def sec_defs)
  have d2: "parse_data module_no_code = Inl (SectionNotFoundError SEC_DATA)"
    by (simp add: parse_data_def get_section_def module_no_code_def frag_def sec_defs)
  have b2: "compute_branch_targets module_no_code = Inl (SectionNotFoundError SEC_CODE)"
    by (simp add: compute_branch_targets_def get_section_def module_no_code_def frag_def
        sec_defs)
  have l2: "fst (load wasm_type_names module_no_code init_processor)
      = Inl (SectionNotFoundError SEC_CODE)"
    by (simp add: load_def load_function_maps_def load_data_and_targets_def g2 f2 t2 d2 b2
        dict_values_def init_processor_def sec_defs)
  from g l gl l2 show ?thesis by (simp add: init_processor_def)
qed

subsection \<open>Entry points\<close>

text \<open>
  Claim C7, as the code has it. When the byte that \<^verbatim>\<open>ev_ana_insn\<close> reads is no key of the
  opcode table, the function returns 0 after reading that one byte: it raises nothing, with
  or without its decorator.
\<close>

theorem unknown_opcode_returns_zero:
  assumes "opcode_map tables (get_byte tables (insn_ea insn + insn_size insn)) = None"
  shows "ev_ana_insn_raw tables insn = (Inr (IntV 0), insn\<lparr>insn_size := insn_size insn + 1\<rparr>)
       \<and> ev_ana_insn tables insn = (IntV 0, insn\<lparr>insn_size := insn_size insn + 1\<rparr>)"
  using assms by (simp add: ev_ana_insn_def no_exceptions_def ev_ana_insn_raw_def Let_def)

theorem unknown_opcode_returns_zero_witness:
  "opcode_map two_opcodes (get_byte two_opcodes (insn_ea (fresh_insn 16)
       + insn_size (fresh_insn 16))) = None
   \<and> ev_ana_insn_raw two_opcodes (fresh_insn 16) =
       (Inr (IntV 0), (fresh_insn 16)\<lparr>insn_size := 1\<rparr>)
   \<and> ev_ana_insn two_opcodes (fresh_insn 16) = (IntV 0, (fresh_insn 16)\<lparr>insn_size := 1\<rparr>)"
proof -
  have h: "opcode_map two_opcodes (get_byte two_opcodes (insn_ea (fresh_insn 16)
       + insn_size (fresh_insn 16))) = None"
    by (simp add: two_opcodes_def op_defs)
  from unknown_opcode_returns_zero [OF h] h show ?thesis
    by (simp add: fresh_insn_def)
qed

text \<open>
  Claim C7, as stated, on a database of bytes \<open>0xFF\<close> and a table without that opcode: the
  undecorated function returns the integer 0 and raises no exception.
\<close>

theorem unknown_opcode_counterexample:
  "get_byte two_opcodes 16 = 0xFF
   \<and> opcode_map two_opcodes 0xFF = None
   \<and> fst (ev_ana_insn_raw two_opcodes (fresh_insn 16)) = Inr (IntV 0)"
  by (simp add: two_opcodes_def op_defs ev_ana_insn_raw_def fresh_insn_def Let_def)

text \<open>
  Claim C10. For every function \<open>f\<close>, arguments and state: when \<open>f\<close> raises, the wrapper
  \<^verbatim>\<open>no_exceptions(f)\<close> returns 0; when \<open>f\<close> returns a value, the wrapper returns this value.
  In both cases the wrapper returns, and the state is the one \<open>f\<close> left.
\<close>

theorem no_exceptions_returns_zero_or_result:
  "(\<forall>e s'. f args s = (Inl e, s') \<longrightarrow> no_exceptions f args s = (IntV 0, s'))
   \<and> (\<forall>v s'. f args s = (Inr v, s') \<longrightarrow> no_exceptions f args s = (v, s'))"
  by (simp add: no_exceptions_def)

theorem no_exceptions_returns_zero_or_result_witness:
  "ev_emu_insn_raw (insn_at 0 (i_br_table [0] 0), None) init_processor
     = (Inl NotImplementedError, init_processor)
   \<and> ev_emu_insn (insn_at 0 (i_br_table [0] 0), None) init_processor
     = (IntV 0, init_processor)
   \<and> ev_emu_insn_raw (insn_at 0 i_end, None) init_processor = (Inr (IntV 1), init_processor)
   \<and> ev_emu_insn (insn_at 0 i_end, None) init_processor = (IntV 1, init_processor)"
proof -
  have a: "ev_emu_insn_raw (insn_at 0 (i_br_table [0] 0), None) init_processor
     = (Inl NotImplementedError, init_processor)"
    by (simp add: insn_defs emu_defs const_defs op_defs)
  have b: "ev_emu_insn_raw (insn_at 0 i_end, None) init_processor
     = (Inr (IntV 1), init_processor)"
    by (simp add: insn_defs emu_defs const_defs op_defs)
  from no_exceptions_returns_zero_or_result
    [of ev_emu_insn_raw "(insn_at 0 (i_br_table [0] 0), None)" init_processor] a
  have "ev_emu_insn (insn_at 0 (i_br_table [0] 0), None) init_processor
     = (IntV 0, init_processor)"
    by (simp add: ev_emu_insn_def)
  moreover from no_exceptions_returns_zero_or_result
    [of ev_emu_insn_raw "(insn_at 0 i_end, None)" init_processor] b
  have "ev_emu_insn (insn_at 0 i_end, None) init_processor = (IntV 1, init_processor)"
    by (simp add: ev_emu_insn_def)
  ultimately show ?thesis using a b by simp
qed

end
